(* ===== verification/Prelude.thy ===== *)
theory Prelude
  imports Complex_Main "HOL-Library.Word"
begin

text \<open>
  Shared vocabulary of the PicoScope acquisition model.
  \<^item> Python exceptions are values of \<open>py_error\<close>; because the acquisition
    object is mutated in place before a \<open>raise\<close>, an operation returns an
    \<open>outcome\<close>: \<open>Ok s\<close> on normal return, \<open>Exc e s\<close> when \<open>e\<close> escapes with the
    object left in state \<open>s\<close>. \<open>obind\<close> sequences two statements.
  \<^item> \<open>assert_pico_ok\<close> of \<open>picosdk.functions\<close>: any status other than
    \<open>PICO_OK = 0\<close> raises.
  \<^item> The ctypes conversions the code relies on: \<open>int()\<close> of a float truncates
    towards zero (\<open>py_int\<close>), \<open>ctypes.c_int32(v).value\<close> wraps to 32 signed
    bits (\<open>c_int32\<close>), an argument declared \<open>uint32\<close> is taken modulo \<open>2^32\<close>
    (\<open>c_uint32\<close>).
  \<^item> Python dictionaries with a fixed key order are association lists;
    \<open>dict_get\<close> is \<open>d.get(k, default)\<close>.
  Python floats are modelled as exact reals: rounding of IEEE doubles is not modelled.
\<close>

named_theorems model_simps "unfolding facts of the acquisition model, used by the component proofs"

type_synonym int16 = "16 word"
type_synonym uint16 = "16 word"
type_synonym status = int

datatype py_error =
    PicoSDKError status
  | IndexError
  | AttributeError
  | ZeroDivisionError
  | RuntimeError
  | OSError

datatype 's outcome = Ok 's | Exc py_error 's

fun obind :: "'s outcome \<Rightarrow> ('s \<Rightarrow> 's outcome) \<Rightarrow> 's outcome" where
  "obind (Ok s) f = f s"
| "obind (Exc e s) f = Exc e s"

fun sbind :: "'e + 'a \<Rightarrow> ('a \<Rightarrow> 'e + 'b) \<Rightarrow> 'e + 'b" where
  "sbind (Inl e) f = Inl e"
| "sbind (Inr a) f = f a"

fun outcome_state :: "'s outcome \<Rightarrow> 's" where
  "outcome_state (Ok s) = s"
| "outcome_state (Exc e s) = s"

definition PICO_OK :: status where
  "PICO_OK = 0"

definition assert_pico_ok :: "status \<Rightarrow> 's \<Rightarrow> 's outcome" where
  "assert_pico_ok st s = (if st = PICO_OK then Ok s else Exc (PicoSDKError st) s)"

definition py_int :: "real \<Rightarrow> int" where
  "py_int x = (if 0 \<le> x then \<lfloor>x\<rfloor> else \<lceil>x\<rceil>)"

definition c_int32 :: "int \<Rightarrow> int" where
  "c_int32 v = sint (word_of_int v :: 32 word)"

definition c_uint32 :: "int \<Rightarrow> 32 word" where
  "c_uint32 v = word_of_int v"

definition dict_get :: "('k \<times> 'v) list \<Rightarrow> 'k \<Rightarrow> 'v \<Rightarrow> 'v" where
  "dict_get d k dflt = (case map_of d k of Some v \<Rightarrow> v | None \<Rightarrow> dflt)"

lemma obind_Ok_iff [simp]:
  "obind m f = Ok t \<longleftrightarrow> (\<exists>s. m = Ok s \<and> f s = Ok t)"
  by (cases m) auto

lemma sbind_Inr_iff [simp]:
  "sbind m f = Inr b \<longleftrightarrow> (\<exists>a. m = Inr a \<and> f a = Inr b)"
  by (cases m) auto

lemma obind_Exc_iff [simp]:
  "obind m f = Exc e t \<longleftrightarrow> m = Exc e t \<or> (\<exists>s. m = Ok s \<and> f s = Exc e t)"
  by (cases m) auto

lemma obind_Ok_left [simp]: "obind m Ok = m"
  by (cases m) auto

lemma obind_assoc: "obind (obind m f) g = obind m (\<lambda>s. obind (f s) g)"
  by (cases m) auto

lemma assert_pico_ok_Ok [simp]: "assert_pico_ok PICO_OK s = Ok s"
  by (simp add: assert_pico_ok_def)

lemma assert_pico_ok_iff [simp]:
  "assert_pico_ok st s = Ok t \<longleftrightarrow> st = PICO_OK \<and> t = s"
  by (auto simp: assert_pico_ok_def)

lemma obind_assert [simp]:
  "obind (assert_pico_ok st s) f = (if st = PICO_OK then f s else Exc (PicoSDKError st) s)"
  by (simp add: assert_pico_ok_def)

lemma PICO_OK_eq [simp]: "PICO_OK = 0"
  by (simp add: PICO_OK_def)

lemma py_int_nonneg [simp]: "0 \<le> x \<Longrightarrow> py_int x = \<lfloor>x\<rfloor>"
  by (simp add: py_int_def)

lemma py_int_of_int [simp]: "py_int (of_int k) = k"
  by (simp add: py_int_def)

lemma c_int32_id:
  "- (2 ^ 31) \<le> v \<Longrightarrow> v < 2 ^ 31 \<Longrightarrow> c_int32 v = v"
  by (simp add: c_int32_def sint_sbintrunc' signed_take_bit_int_eq_self)

lemma c_int32_bounds: "- (2 ^ 31) \<le> c_int32 v \<and> c_int32 v < 2 ^ 31"
  using sint_ge [of "word_of_int v :: 32 word"] sint_lt [of "word_of_int v :: 32 word"]
  by (simp add: c_int32_def)

lemma sint_eq_zero_iff [simp]: "sint (w::'a::len word) = 0 \<longleftrightarrow> w = 0"
  by (metis sint_0 signed_word_eqI)

lemma dict_get_hit [simp]: "map_of d k = Some v \<Longrightarrow> dict_get d k dflt = v"
  by (simp add: dict_get_def)

lemma dict_get_miss [simp]: "map_of d k = None \<Longrightarrow> dict_get d k dflt = dflt"
  by (simp add: dict_get_def)

lemma outcome_state_assert [simp]: "outcome_state (assert_pico_ok st s) = s"
  by (simp add: assert_pico_ok_def)

lemma outcome_state_obind:
  "P (outcome_state m) \<Longrightarrow> (\<And>u. m = Ok u \<Longrightarrow> P u \<Longrightarrow> P (outcome_state (f u))) \<Longrightarrow>
   P (outcome_state (obind m f))"
  by (cases m) auto

lemma signed_real_eq_zero_iff [simp]: "(signed (w :: 'a::len word) :: real) = 0 \<longleftrightarrow> w = 0"
  by (metis of_int_0_eq_iff of_int_sint sint_eq_zero_iff)

end
