(* ===== verification/Calibration.thy ===== *)
theory Calibration
  imports Prelude
begin

text \<open>
  Calibration model: \<open>DataAcquisition.adc_to_mv_single\<close>
  (src/picoscope-gui-app/src/data_acquisition.py, lines 553--577). A range code is a
  driver integer; the method's local table \<open>voltage_ranges\<close> gives the full-scale
  voltage of codes 0--13 (10 mV \<dots> 200 V) and \<open>.get(code, 20.0)\<close> falls back to
  20 V. A raw count is an \<open>int16\<close> sample read as signed (\<open>int(adc_value)\<close>),
  \<open>maxADC\<close> is a \<open>ctypes.c_int16\<close>; Python's float division by zero raises
  \<open>ZeroDivisionError\<close>.
\<close>

definition voltage_ranges :: "(int \<times> real) list" where
  "voltage_ranges =
     [(0, 0.01), (1, 0.02), (2, 0.05), (3, 0.1), (4, 0.2), (5, 0.5), (6, 1.0),
      (7, 2.0), (8, 5.0), (9, 10.0), (10, 20.0), (11, 50.0), (12, 100.0), (13, 200.0)]"

definition full_scale_volts :: "int \<Rightarrow> real" where
  "full_scale_volts code = dict_get voltage_ranges code 20.0"

definition adc_to_mv_single :: "int16 \<Rightarrow> int \<Rightarrow> int16 \<Rightarrow> py_error + real" where
  "adc_to_mv_single adc_value voltage_range_constant maxADC =
     (let vRange = full_scale_volts voltage_range_constant
      in if sint maxADC = 0 then Inl ZeroDivisionError
         else Inr (of_int (sint adc_value) * vRange * 1000 / of_int (sint maxADC)))"

subsection \<open>The range table\<close>

lemma full_scale_volts_cases:
  "full_scale_volts code \<in> {0.01, 0.02, 0.05, 0.1, 0.2, 0.5, 1, 2, 5, 10, 20, 50, 100, 200}"
  by (simp add: full_scale_volts_def dict_get_def voltage_ranges_def split: option.split)

lemma full_scale_volts_pos [simp]: "0 < full_scale_volts code"
  using full_scale_volts_cases [of code] by auto

lemma full_scale_volts_le_200: "full_scale_volts code \<le> 200"
  using full_scale_volts_cases [of code] by auto

lemma full_scale_volts_unknown:
  "code < 0 \<or> 13 < code \<Longrightarrow> full_scale_volts code = 20"
  by (auto simp: full_scale_volts_def dict_get_def voltage_ranges_def)

lemma full_scale_volts_code:
  "full_scale_volts code =
     (if code = 0 then 0.01 else if code = 1 then 0.02 else if code = 2 then 0.05
      else if code = 3 then 0.1 else if code = 4 then 0.2 else if code = 5 then 0.5
      else if code = 6 then 1 else if code = 7 then 2 else if code = 8 then 5
      else if code = 9 then 10 else if code = 10 then 20 else if code = 11 then 50
      else if code = 12 then 100 else if code = 13 then 200 else 20)"
  by (simp add: full_scale_volts_def dict_get_def voltage_ranges_def)

subsection \<open>The conversion\<close>

lemma adc_to_mv_single_Inr:
  "sint m \<noteq> 0 \<Longrightarrow>
   adc_to_mv_single v code m = Inr (of_int (sint v) * full_scale_volts code * 1000 / of_int (sint m))"
  by (simp add: adc_to_mv_single_def)

lemma adc_to_mv_single_zero_div:
  "sint m = 0 \<Longrightarrow> adc_to_mv_single v code m = Inl ZeroDivisionError"
  by (simp add: adc_to_mv_single_def)

lemma adc_to_mv_single_ok_iff:
  "(\<exists>x. adc_to_mv_single v code m = Inr x) \<longleftrightarrow> m \<noteq> 0"
  by (simp add: adc_to_mv_single_def)

subsection \<open>Properties of the calibration\<close>

text \<open>
  C18. A reading within the ADC's range converts to a value within the channel's full
  scale: if \<open>|adc| \<le> |maxADC|\<close> and \<open>maxADC \<noteq> 0\<close> the conversion succeeds and
  \<open>|mV| \<le> 1000 * full-scale volts\<close>; a reading of exactly \<open>maxADC\<close> counts is the full
  scale.
\<close>

theorem adc_to_mv_single_bounds:
  assumes "sint m \<noteq> 0" "\<bar>sint v\<bar> \<le> \<bar>sint m\<bar>"
  shows "\<exists>x. adc_to_mv_single v code m = Inr x \<and> \<bar>x\<bar> \<le> full_scale_volts code * 1000 \<and>
    (v = m \<longrightarrow> x = full_scale_volts code * 1000)"
proof -
  let ?a = "of_int (sint v) :: real" and ?m = "of_int (sint m) :: real" and ?c = "full_scale_volts code * 1000"
  have m: "?m \<noteq> 0" "0 < \<bar>?m\<bar>" using assms(1) by simp_all
  have le: "\<bar>?a\<bar> \<le> \<bar>?m\<bar>" using assms(2) by linarith
  have c: "0 \<le> ?c" by (simp add: less_imp_le)
  have "\<bar>?a * full_scale_volts code * 1000 / ?m\<bar> = \<bar>?a\<bar> * ?c / \<bar>?m\<bar>"
    by (simp add: abs_mult abs_of_pos)
  also have "\<dots> \<le> \<bar>?m\<bar> * ?c / \<bar>?m\<bar>"
    using le c m by (intro divide_right_mono mult_right_mono) simp_all
  also have "\<dots> = ?c" using m by simp
  finally show ?thesis using m by (simp add: adc_to_mv_single_Inr [OF assms(1)])
qed

theorem adc_to_mv_single_bounds_witness:
  "\<exists>x. adc_to_mv_single 16256 10 32512 = Inr x \<and> \<bar>x\<bar> \<le> 20000"
  using adc_to_mv_single_bounds [of 32512 16256 10] by (simp add: full_scale_volts_code)

end
