(* ===== verification/Device.thy ===== *)
theory Device
  imports Prelude
begin

text \<open>
  The instrument side of the program.
  \<^item> \<open>driver\<close> is a \<open>ScopeDriverBase\<close> object of src/picoscope-gui-app/src/scope_driver.py:
    the constants the acquisition code reads from it (the range dictionary
    \<open>ps_RANGE\<close>, the ratio-mode dictionary, \<open>ps_20V\<close>, \<open>ps_2V\<close>, \<open>ps_DC\<close>,
    \<open>ps_US\<close>, \<open>ps_NS\<close>) and whether it has the attributes \<open>ps_DIGITAL_PORT0/1\<close>.
    \<open>PS3000ADriver\<close> and \<open>PS4000ADriver\<close> build it from the vendor module's
    enum dictionaries (\<open>sdk_module\<close>, a library the sources only import);
    a missing key raises \<open>KeyError\<close>, modelled as \<open>None\<close>.
  \<^item> The vendor DLL functions are the external device: \<open>device\<close> fixes the status
    each call returns and the ADC maximum it reports; every call the program makes
    is appended to a log of \<open>dev_call\<close>s, so that the order and the arguments of
    the calls are part of the model. The same record holds the one answer the program
    needs from the file system: whether \<open>open(filename, 'w')\<close> succeeds for a name
    (\<open>fs_writable\<close>; a bad path, a missing permission or a file locked by another
    program make it raise \<open>OSError\<close>). \<open>all_ok_device\<close> accepts every call and every
    file name.
\<close>

datatype scope_family = PS3000A | PS4000A

datatype channel = ChA | ChB | ChC | ChD

datatype buf_id = BufCh channel | BufDigital0 | BufDigital1

record sdk_module =
  sdk_RANGE :: "(string \<times> int) list"
  sdk_COUPLING :: "(string \<times> int) list"
  sdk_RATIO_MODE :: "(string \<times> int) list"
  sdk_TIME_UNITS :: "(string \<times> int) list"

record driver =
  drv_family :: scope_family
  ps_RANGE :: "(string \<times> int) list"
  ps_RATIO_MODE :: "(string \<times> int) list"
  ps_20V :: int
  ps_2V :: int
  ps_DC :: int
  ps_US :: int
  ps_NS :: int
  ps_DIGITAL_PORTS :: "(int \<times> int) option"

definition PS3000ADriver :: "sdk_module \<Rightarrow> driver option" where
  "PS3000ADriver ps =
     (case (map_of (sdk_RANGE ps) ''PS3000A_20V'', map_of (sdk_RANGE ps) ''PS3000A_2V'',
            map_of (sdk_COUPLING ps) ''PS3000A_DC'', map_of (sdk_TIME_UNITS ps) ''PS3000A_US'',
            map_of (sdk_TIME_UNITS ps) ''PS3000A_NS'') of
        (Some r20, Some r2, Some dc, Some us, Some ns) \<Rightarrow>
          Some \<lparr>drv_family = PS3000A, ps_RANGE = sdk_RANGE ps, ps_RATIO_MODE = sdk_RATIO_MODE ps,
                ps_20V = r20, ps_2V = r2, ps_DC = dc, ps_US = us, ps_NS = ns,
                ps_DIGITAL_PORTS = None\<rparr>
      | _ \<Rightarrow> None)"

definition PS4000ADriver :: "sdk_module \<Rightarrow> driver option" where
  "PS4000ADriver ps =
     (case (map_of (sdk_COUPLING ps) ''PS4000A_DC'', map_of (sdk_TIME_UNITS ps) ''PS4000A_US'',
            map_of (sdk_TIME_UNITS ps) ''PS4000A_NS'') of
        (Some dc, Some us, Some ns) \<Rightarrow>
          Some \<lparr>drv_family = PS4000A, ps_RANGE = sdk_RANGE ps, ps_RATIO_MODE = sdk_RATIO_MODE ps,
                ps_20V = 10, ps_2V = 7, ps_DC = dc, ps_US = us, ps_NS = ns,
                ps_DIGITAL_PORTS = None\<rparr>
      | _ \<Rightarrow> None)"

definition has_digital_channels :: "driver option \<Rightarrow> bool" where
  "has_digital_channels d = (case d of None \<Rightarrow> False | Some drv \<Rightarrow> ps_DIGITAL_PORTS drv \<noteq> None)"

definition ratio_mode_none :: "driver \<Rightarrow> int" where
  "ratio_mode_none drv = dict_get (ps_RATIO_MODE drv) ''PS3000A_RATIO_MODE_NONE'' 0"

datatype dev_call =
    OpenUnit
  | ChangePowerSource status
  | SetChannel channel bool int int real
  | SetDataBuffers buf_id nat int
  | MaximumValue
  | RunStreaming int int nat "32 word" bool nat int nat
  | GetStreamingLatestValues
  | Stop
  | CloseUnit
  | GetUnitInfo nat

record device =
  dev_open :: status
  dev_power :: status
  dev_set_channel :: "channel \<Rightarrow> status"
  dev_set_buffers :: "buf_id \<Rightarrow> status"
  dev_max_status :: status
  dev_max_adc :: int16
  dev_run :: status
  dev_stop :: status
  dev_close :: status
  fs_writable :: "string \<Rightarrow> bool"

definition all_ok_device :: "int16 \<Rightarrow> device" where
  "all_ok_device m =
     \<lparr>dev_open = 0, dev_power = 0, dev_set_channel = (\<lambda>_. 0), dev_set_buffers = (\<lambda>_. 0),
      dev_max_status = 0, dev_max_adc = m, dev_run = 0, dev_stop = 0, dev_close = 0,
      fs_writable = (\<lambda>_. True)\<rparr>"

lemma PS3000ADriver_no_digital:
  "PS3000ADriver ps = Some drv \<Longrightarrow> \<not> has_digital_channels (Some drv)"
  by (auto simp: PS3000ADriver_def has_digital_channels_def split: option.splits)

lemma PS4000ADriver_no_digital:
  "PS4000ADriver ps = Some drv \<Longrightarrow> \<not> has_digital_channels (Some drv)"
  by (auto simp: PS4000ADriver_def has_digital_channels_def split: option.splits)

lemma PS4000ADriver_ps_20V:
  "PS4000ADriver ps = Some drv \<Longrightarrow> ps_20V drv = 10 \<and> drv_family drv = PS4000A"
  by (auto simp: PS4000ADriver_def split: option.splits)

lemma PS3000ADriver_ps_20V:
  "PS3000ADriver ps = Some drv \<Longrightarrow>
   map_of (sdk_RANGE ps) ''PS3000A_20V'' = Some (ps_20V drv) \<and> drv_family drv = PS3000A"
  by (auto simp: PS3000ADriver_def split: option.splits)


text \<open>
  The enumerations of the vendor's ps3000a module (picosdk/ps3000a.py) that
  \<open>PS3000ADriver\<close> reads, with their values; the concrete runs below use them.
\<close>

definition picosdk_ps3000a :: sdk_module where
  "picosdk_ps3000a =
     \<lparr>sdk_RANGE = [(''PS3000A_10MV'', 0), (''PS3000A_20MV'', 1), (''PS3000A_50MV'', 2),
                   (''PS3000A_100MV'', 3), (''PS3000A_200MV'', 4), (''PS3000A_500MV'', 5),
                   (''PS3000A_1V'', 6), (''PS3000A_2V'', 7), (''PS3000A_5V'', 8),
                   (''PS3000A_10V'', 9), (''PS3000A_20V'', 10), (''PS3000A_50V'', 11),
                   (''PS3000A_MAX_RANGES'', 12)],
      sdk_COUPLING = [(''PS3000A_AC'', 0), (''PS3000A_DC'', 1)],
      sdk_RATIO_MODE = [(''PS3000A_RATIO_MODE_NONE'', 0), (''PS3000A_RATIO_MODE_AGGREGATE'', 1),
                        (''PS3000A_RATIO_MODE_DECIMATE'', 2), (''PS3000A_RATIO_MODE_AVERAGE'', 4)],
      sdk_TIME_UNITS = [(''PS3000A_FS'', 0), (''PS3000A_PS'', 1), (''PS3000A_NS'', 2),
                        (''PS3000A_US'', 3), (''PS3000A_MS'', 4), (''PS3000A_S'', 5)]\<rparr>"

definition ps3000a_drv :: driver where
  "ps3000a_drv = the (PS3000ADriver picosdk_ps3000a)"

lemma PS3000ADriver_picosdk: "PS3000ADriver picosdk_ps3000a = Some ps3000a_drv"
  by (simp add: ps3000a_drv_def PS3000ADriver_def picosdk_ps3000a_def)

lemma ps3000a_drv_fields [simp]:
  "drv_family ps3000a_drv = PS3000A" "ps_20V ps3000a_drv = 10" "ps_2V ps3000a_drv = 7"
  "ps_DC ps3000a_drv = 1" "ps_US ps3000a_drv = 3" "ps_NS ps3000a_drv = 2"
  "ps_DIGITAL_PORTS ps3000a_drv = None"
  "ps_RANGE ps3000a_drv = sdk_RANGE picosdk_ps3000a"
  "ps_RATIO_MODE ps3000a_drv = sdk_RATIO_MODE picosdk_ps3000a"
  by (simp_all add: ps3000a_drv_def PS3000ADriver_def picosdk_ps3000a_def)

end
