(* ===== verification/Range_Resolution.thy ===== *)
theory Range_Resolution
  imports Calibration Device
begin

text \<open>
  Range-name resolution: \<open>DataAcquisition._convert_range_string_to_constant\<close>
  (data_acquisition.py, lines 169--311). The order of the source is kept:
  \<^enum> a key of the driver's \<open>ps_RANGE\<close> dictionary resolves to its value;
  \<^enum> otherwise the local \<open>range_mapping\<close>: the eleven \<open>PS3000A_*\<close> names when the
    text of \<open>ps_RANGE\<close> mentions \<open>PS3000A_20V\<close>, updated by the PS4000A probe names
    when the driver class is \<open>PS4000ADriver\<close>;
  \<^enum> otherwise a name containing \<open>MAX\<close> (upper-cased) resolves to \<open>ps_20V\<close>;
  \<^enum> otherwise the first match of \<open>(\d+(?:\.\d+)?)\s*([MK]?)V\<close> (case-insensitive)
    gives a voltage, scaled by the unit letter, looked up exactly in
    \<open>voltage_to_range\<close>;
  \<^enum> everything else falls back to \<open>ps_20V\<close>.
  The driver is optional (the singleton starts with \<open>driver=None\<close>): without one the
  dictionary lookups are skipped by their \<open>hasattr\<close> guards, and reading
  \<open>self.driver.ps_20V\<close> raises \<open>AttributeError\<close>.
  The regular expression is modelled by \<open>match_voltage_at\<close> (an anchored match:
  maximal digits, an optional fraction, blanks, an optional unit letter, \<open>V\<close>; the
  pattern's backtracking cannot change the outcome, since every earlier group stops at
  a character the next group cannot start with) and \<open>voltage_search\<close> (the leftmost
  position where it matches). Characters are ASCII; \<open>str.upper\<close> is modelled on
  ASCII letters, and \<open>is_space\<close> is the ASCII part of Python's Unicode whitespace
  (\<open>\s\<close> of a str pattern, and \<open>str.strip\<close>): tab to carriage return, the four
  separators 28--31 and the blank.
\<close>

fun py_in :: "string \<Rightarrow> string \<Rightarrow> bool" where
  "py_in p [] = (p = [])"
| "py_in p (c # cs) = (take (length p) (c # cs) = p \<or> py_in p cs)"

definition ord :: "char \<Rightarrow> nat" where
  "ord c = of_char c"

definition upper_char :: "char \<Rightarrow> char" where
  "upper_char c = (if 97 \<le> ord c \<and> ord c \<le> 122 then char_of (ord c - 32) else c)"

definition py_upper :: "string \<Rightarrow> string" where
  "py_upper s = map upper_char s"

definition is_digit :: "char \<Rightarrow> bool" where
  "is_digit c = (48 \<le> ord c \<and> ord c \<le> 57)"

definition is_space :: "char \<Rightarrow> bool" where
  "is_space c = (ord c \<in> {9, 10, 11, 12, 13, 28, 29, 30, 31, 32})"

definition digits_val :: "string \<Rightarrow> nat" where
  "digits_val ds = foldl (\<lambda>n c. 10 * n + (ord c - 48)) 0 ds"

fun opt_fraction :: "string \<Rightarrow> string \<times> string" where
  "opt_fraction (c # d # r) =
     (if c = CHR ''.'' \<and> is_digit d then (takeWhile is_digit (d # r), dropWhile is_digit (d # r))
      else ([], c # d # r))"
| "opt_fraction r = ([], r)"

fun opt_unit :: "string \<Rightarrow> char option \<times> string" where
  "opt_unit (c # r) =
     (if upper_char c = CHR ''M'' \<or> upper_char c = CHR ''K'' then (Some (upper_char c), r)
      else (None, c # r))"
| "opt_unit [] = (None, [])"

fun starts_with_V :: "string \<Rightarrow> bool" where
  "starts_with_V (c # r) = (upper_char c = CHR ''V'')"
| "starts_with_V [] = False"

definition scale_unit :: "char option \<Rightarrow> real \<Rightarrow> real" where
  "scale_unit u v =
     (if u = Some (CHR ''M'') then v / 1000 else if u = Some (CHR ''K'') then v * 1000 else v)"

definition match_voltage_at :: "string \<Rightarrow> real option" where
  "match_voltage_at s =
     (let ip = takeWhile is_digit s;
          (fp, r2) = opt_fraction (dropWhile is_digit s);
          (u, r4) = opt_unit (dropWhile is_space r2)
      in if ip \<noteq> [] \<and> starts_with_V r4
         then Some (scale_unit u (of_nat (digits_val ip) + of_nat (digits_val fp) / 10 ^ length fp))
         else None)"

fun voltage_search :: "string \<Rightarrow> real option" where
  "voltage_search [] = None"
| "voltage_search (c # cs) =
     (case match_voltage_at (c # cs) of Some v \<Rightarrow> Some v | None \<Rightarrow> voltage_search cs)"

definition voltage_to_range :: "(real \<times> int) list" where
  "voltage_to_range =
     [(0.01, 0), (0.02, 1), (0.05, 2), (0.1, 3), (0.2, 4), (0.5, 5), (1.0, 6), (2.0, 7),
      (5.0, 8), (10.0, 9), (20.0, 10), (50.0, 11), (100.0, 12), (200.0, 13)]"

definition ps3000a_mapping :: "driver \<Rightarrow> (string \<times> int) list" where
  "ps3000a_mapping drv =
     map (\<lambda>(k, d). (k, dict_get (ps_RANGE drv) k d))
       [(''PS3000A_20V'', ps_20V drv), (''PS3000A_2V'', ps_2V drv), (''PS3000A_10V'', 9),
        (''PS3000A_5V'', 8), (''PS3000A_1V'', 6), (''PS3000A_500MV'', 5),
        (''PS3000A_200MV'', 4), (''PS3000A_100MV'', 3), (''PS3000A_50MV'', 2),
        (''PS3000A_20MV'', 1), (''PS3000A_10MV'', 0)]"

definition probe_suffixes :: "(string \<times> int) list" where
  "probe_suffixes =
     [(''10MV'', 0), (''20MV'', 1), (''50MV'', 2), (''100MV'', 3), (''200MV'', 4),
      (''500MV'', 5), (''1V'', 6), (''2V'', 7), (''5V'', 8), (''10V'', 9), (''20V'', 10),
      (''50V'', 11), (''100V'', 12), (''200V'', 13)]"

definition ps4000a_probe_mapping :: "(string \<times> int) list" where
  "ps4000a_probe_mapping =
     map (\<lambda>(s, c). (''PICO_X1_PROBE_'' @ s, c)) probe_suffixes
     @ map (\<lambda>(s, c). (''PICO_D9_BNC_'' @ s, c)) probe_suffixes
     @ map (\<lambda>(s, c). (''PICO_DIFFERENTIAL_'' @ s, c)) probe_suffixes"

definition ps4000a_mapping :: "(string \<times> int) list" where
  "ps4000a_mapping =
     ps4000a_probe_mapping
     @ [(''PICO_1KV_2_5V'', 6003), (''PICO_1KV_5V'', 6004), (''PICO_1KV_12_5V'', 6005),
        (''PICO_1KV_25V'', 6006), (''PICO_1KV_50V'', 6007), (''PICO_1KV_125V'', 6008),
        (''PICO_1KV_250V'', 6009), (''PICO_1KV_500V'', 6010), (''PICO_1KV_1000V'', 6011),
        (''20V'', 10), (''2V'', 7), (''5V'', 8), (''10V'', 9), (''1V'', 6)]"

definition mentions_ps3000a_20V :: "driver \<Rightarrow> bool" where
  "mentions_ps3000a_20V drv = list_ex (\<lambda>(k, v). py_in ''PS3000A_20V'' k) (ps_RANGE drv)"

definition range_mapping :: "driver \<Rightarrow> string \<Rightarrow> int option" where
  "range_mapping drv =
     map_of (if mentions_ps3000a_20V drv then ps3000a_mapping drv else [])
     ++ map_of (if drv_family drv = PS4000A then ps4000a_mapping else [])"

definition ps_20V_of :: "driver option \<Rightarrow> py_error + int" where
  "ps_20V_of d = (case d of None \<Rightarrow> Inl AttributeError | Some drv \<Rightarrow> Inr (ps_20V drv))"

definition convert_range_string_to_constant :: "driver option \<Rightarrow> string \<Rightarrow> py_error + int" where
  "convert_range_string_to_constant d range_string =
     (case (case d of Some drv \<Rightarrow> map_of (ps_RANGE drv) range_string | None \<Rightarrow> None) of
        Some c \<Rightarrow> Inr c
      | None \<Rightarrow>
          (case (case d of Some drv \<Rightarrow> range_mapping drv range_string | None \<Rightarrow> None) of
             Some c \<Rightarrow> Inr c
           | None \<Rightarrow>
               if py_in ''MAX'' (py_upper range_string) then ps_20V_of d
               else (case voltage_search range_string of
                       Some v \<Rightarrow> (case map_of voltage_to_range v of Some c \<Rightarrow> Inr c | None \<Rightarrow> ps_20V_of d)
                     | None \<Rightarrow> ps_20V_of d)))"

text \<open>The unit letters of the pattern and the factor each applies to the number.\<close>

definition unit_scale :: "(string \<times> real) set" where
  "unit_scale = {([], 1), (''m'', 1 / 1000), (''M'', 1 / 1000), (''k'', 1000), (''K'', 1000)}"

subsection \<open>The regular expression on a name with one number\<close>

lemma match_voltage_at_non_digit: "\<not> is_digit c \<Longrightarrow> match_voltage_at (c # cs) = None"
  by (simp add: match_voltage_at_def Let_def split: prod.split)

lemma voltage_search_digit_free:
  "\<not> list_ex is_digit p \<Longrightarrow> voltage_search (p @ s) = voltage_search s"
  by (induction p) (simp_all add: match_voltage_at_non_digit)

lemma upper_char_unit_letters:
  "upper_char CHR ''m'' = CHR ''M''" "upper_char CHR ''M'' = CHR ''M''" "upper_char CHR ''k'' = CHR ''K''"
  "upper_char CHR ''K'' = CHR ''K''" "upper_char CHR ''V'' = CHR ''V''"
  by code_simp+

lemma unit_tail_facts:
  assumes "(u, f) \<in> unit_scale"
  shows "takeWhile is_digit (u @ CHR ''V'' # r) = [] \<and> dropWhile is_digit (u @ CHR ''V'' # r) = u @ CHR ''V'' # r \<and>
    opt_fraction (u @ CHR ''V'' # r) = ([], u @ CHR ''V'' # r) \<and>
    dropWhile is_space (u @ CHR ''V'' # r) = u @ CHR ''V'' # r \<and>
    (case opt_unit (u @ CHR ''V'' # r) of (uc, r4) \<Rightarrow> starts_with_V r4 \<and> scale_unit uc = (\<lambda>x. f * x))"
proof -
  have "opt_fraction (CHR ''V'' # r) = ([], CHR ''V'' # r)" by (cases r) simp_all
  with assms show ?thesis
    by (auto simp: unit_scale_def is_digit_def is_space_def ord_def upper_char_unit_letters scale_unit_def
        fun_eq_iff)
qed

lemma match_number_unit:
  assumes "ds \<noteq> []" "list_all is_digit ds" "(u, f) \<in> unit_scale"
  shows "match_voltage_at (ds @ u @ CHR ''V'' # r) = Some (f * of_nat (digits_val ds))"
proof -
  let ?t = "u @ CHR ''V'' # r"
  have tw: "takeWhile is_digit (ds @ ?t) = ds" and dw: "dropWhile is_digit (ds @ ?t) = ?t"
    using assms(2) unit_tail_facts [OF assms(3), of r]
    by (simp_all add: takeWhile_append2 dropWhile_append2 list_all_iff del: takeWhile_eq_Nil_iff)
  obtain uc r4 where ou: "opt_unit ?t = (uc, r4)" by fastforce
  with unit_tail_facts [OF assms(3), of r] assms(1) tw dw show ?thesis
    by (simp add: match_voltage_at_def Let_def digits_val_def)
qed

lemma voltage_search_name:
  assumes "\<not> list_ex is_digit p" "ds \<noteq> []" "list_all is_digit ds" "(u, f) \<in> unit_scale"
  shows "voltage_search (p @ ds @ u @ CHR ''V'' # r) = Some (f * of_nat (digits_val ds))"
proof -
  obtain d ds' where "ds = d # ds'" using assms(2) by (cases ds) auto
  then show ?thesis
    using voltage_search_digit_free [OF assms(1)] match_number_unit [OF assms(2-4), of r] by simp
qed

text \<open>
  The resolver's table of voltages agrees with the calibration's table of ranges: a
  range constant the resolver derives from a voltage is the range whose full scale
  \<open>adc_to_mv_single\<close> takes to be that voltage.
\<close>

lemma voltage_to_range_calibrated:
  "map_of voltage_to_range v = Some c \<Longrightarrow> full_scale_volts c = v"
  by (simp add: voltage_to_range_def full_scale_volts_code split: if_splits)

subsection \<open>Properties of the resolver\<close>

text \<open>
  C19. A name that is not a key of either dictionary and carries no \<open>MAX\<close> is resolved
  by the voltage it spells: for a prefix without digits, a number, an optional unit
  letter (\<open>m\<close>/\<open>M\<close> for millivolts, \<open>k\<close>/\<open>K\<close> for kilovolts) and \<open>V\<close>, the resolver
  returns a range whose full scale in the calibration table is exactly that voltage when
  the voltage is one of the fourteen ranges, and the 20 V default otherwise.
\<close>

theorem voltage_name_resolves_to_its_range:
  assumes "\<not> list_ex is_digit p" "ds \<noteq> []" "list_all is_digit ds" "(u, f) \<in> unit_scale"
    and "k = p @ ds @ u @ CHR ''V'' # r"
    and "map_of (ps_RANGE drv) k = None" "range_mapping drv k = None" "\<not> py_in ''MAX'' (py_upper k)"
  shows "if f * of_nat (digits_val ds) \<in> fst ` set voltage_to_range
         then \<exists>c. convert_range_string_to_constant (Some drv) k = Inr c \<and>
                  full_scale_volts c = f * of_nat (digits_val ds)
         else convert_range_string_to_constant (Some drv) k = Inr (ps_20V drv)"
proof -
  let ?v = "f * of_nat (digits_val ds)"
  have r: "convert_range_string_to_constant (Some drv) k =
      (case map_of voltage_to_range ?v of Some c \<Rightarrow> Inr c | None \<Rightarrow> Inr (ps_20V drv))"
    using assms(6-8) voltage_search_name [OF assms(1-4), of r] assms(5)
    by (simp add: convert_range_string_to_constant_def ps_20V_of_def split: option.split)
  show ?thesis
  proof (cases "map_of voltage_to_range ?v")
    case None
    then have "?v \<notin> fst ` set voltage_to_range" by (simp add: map_of_eq_None_iff)
    with None r show ?thesis by simp
  next
    case (Some c)
    then have "?v \<in> fst ` set voltage_to_range" by (auto dest: map_of_SomeD intro: rev_image_eqI)
    with Some r voltage_to_range_calibrated [OF Some] show ?thesis by simp
  qed
qed

theorem voltage_name_resolves_to_its_range_witness:
  "convert_range_string_to_constant (Some ps3000a_drv) ''CH_500mV'' = Inr 5 \<and>
   full_scale_volts 5 = 0.5"
proof -
  have n: "map_of (ps_RANGE ps3000a_drv) ''CH_500mV'' = None \<and> range_mapping ps3000a_drv ''CH_500mV'' = None \<and>
      \<not> py_in ''MAX'' (py_upper ''CH_500mV'')"
    by code_simp
  have p: "\<not> list_ex is_digit ''CH_'' \<and> list_all is_digit ''500''"
    by (simp add: is_digit_def ord_def)
  have u: "(''m'', 1 / 1000) \<in> unit_scale" by (simp add: unit_scale_def)
  have "(1 / 1000 :: real) * of_nat (digits_val ''500'') = 0.5"
    by (simp add: digits_val_def ord_def)
  moreover have "(0.5 :: real) \<in> fst ` set voltage_to_range"
    by (simp add: voltage_to_range_def)
  moreover have "convert_range_string_to_constant (Some ps3000a_drv) ''CH_500mV'' = Inr 5"
    by code_simp
  ultimately show ?thesis
    using voltage_name_resolves_to_its_range [of "''CH_''" "''500''" "''m''" "1 / 1000" "''CH_500mV''" "[]"
        ps3000a_drv] n p u
    by (simp add: full_scale_volts_code)
qed

subsection \<open>Findings\<close>

text \<open>
  The comment at line 270 says that \<open>MAX\<close> ranges are ignored in favour of 20 V; the
  test comes after the dictionary lookup, so a key of the driver's range dictionary
  that contains \<open>MAX\<close> resolves to its value (the PS3000A name \<open>PS3000A_MAX_RANGES\<close> gives
  12), while a name in neither dictionary that contains \<open>MAX\<close> gets \<open>ps_20V\<close> even when it
  names a voltage.
\<close>

lemma max_marker_after_lookup:
  "(map_of (ps_RANGE drv) k = Some c \<longrightarrow> convert_range_string_to_constant (Some drv) k = Inr c) \<and>
   (map_of (ps_RANGE drv) k = None \<and> range_mapping drv k = None \<and> py_in ''MAX'' (py_upper k) \<longrightarrow>
      convert_range_string_to_constant (Some drv) k = Inr (ps_20V drv))"
  by (simp add: convert_range_string_to_constant_def ps_20V_of_def)

lemma max_dictionary_key_example:
  "convert_range_string_to_constant (Some ps3000a_drv) ''PS3000A_MAX_RANGES'' = Inr 12"
proof -
  have "map_of (ps_RANGE ps3000a_drv) ''PS3000A_MAX_RANGES'' = Some 12"
    by (simp add: picosdk_ps3000a_def)
  then show ?thesis using max_marker_after_lookup [of ps3000a_drv "''PS3000A_MAX_RANGES''" 12] by simp
qed

end
