(* ===== verification/Csv_Sink.thy ===== *)
theory Csv_Sink
  imports Device
begin

text \<open>
  The CSV sink as the acquisition code uses it (data_acquisition.py): the file
  opened with \<open>open(filename, 'w')\<close> and a \<open>csv.writer\<close> that receives the header
  row (lines 100--114), one \<open>writerow\<close> per sample with a \<open>flush()\<close> whenever the
  global sample index is a multiple of 1000 (lines 520--525), and \<open>close()\<close>
  (lines 547--551). A written row is a list of cells as Python built them: text for
  the header, a float for times and millivolts, an integer for nanosecond times and
  digital bits. \<open>sink_flushed\<close> counts the rows an explicit \<open>flush()\<close> or
  \<open>close()\<close> has made durable; \<open>sink_open\<close> is \<open>csvfile is not None\<close>.
  The text encoding done by the \<open>csv\<close> module is not modelled.
\<close>

datatype cell = CText string | CFloat real | CInt int

record sink =
  sink_file :: string
  sink_rows :: "cell list list"
  sink_flushed :: nat
  sink_open :: bool

definition closed_sink :: sink where
  "closed_sink = \<lparr>sink_file = [], sink_rows = [], sink_flushed = 0, sink_open = False\<rparr>"

definition csv_open :: "string \<Rightarrow> cell list \<Rightarrow> sink" where
  "csv_open filename header =
     \<lparr>sink_file = filename, sink_rows = [header], sink_flushed = 0, sink_open = True\<rparr>"

definition csv_writerow :: "sink \<Rightarrow> cell list \<Rightarrow> sink" where
  "csv_writerow f row = f\<lparr>sink_rows := sink_rows f @ [row]\<rparr>"

definition csv_flush :: "sink \<Rightarrow> sink" where
  "csv_flush f = f\<lparr>sink_flushed := length (sink_rows f)\<rparr>"

definition csv_close :: "sink \<Rightarrow> sink" where
  "csv_close f = f\<lparr>sink_flushed := length (sink_rows f), sink_open := False\<rparr>"

function nat_str :: "nat \<Rightarrow> string" where
  "nat_str n = (if n < 10 then [char_of (48 + n)] else nat_str (n div 10) @ [char_of (48 + n mod 10)])"
  by pat_completeness auto
termination
  by (relation "measure id") auto

declare nat_str.simps [simp del]

definition channel_letter :: "channel \<Rightarrow> string" where
  "channel_letter ch = (case ch of ChA \<Rightarrow> ''A'' | ChB \<Rightarrow> ''B'' | ChC \<Rightarrow> ''C'' | ChD \<Rightarrow> ''D'')"

definition all_channels :: "channel list" where
  "all_channels = [ChA, ChB, ChC, ChD]"

definition csv_header :: "string \<Rightarrow> (channel \<Rightarrow> bool) \<Rightarrow> nat list \<Rightarrow> cell list" where
  "csv_header time_unit chans digital =
     CText (''Time ('' @ time_unit @ '')'')
     # map (\<lambda>ch. CText (''Channel '' @ channel_letter ch @ '' (mV)'')) (filter chans all_channels)
     @ map (\<lambda>d. CText (''D'' @ nat_str d)) digital"

lemma length_csv_header [simp]:
  "length (csv_header tu chans dig) = Suc (length (filter chans all_channels) + length dig)"
  by (simp add: csv_header_def)

lemma sink_rows_writerow [simp]: "sink_rows (csv_writerow f row) = sink_rows f @ [row]"
  by (simp add: csv_writerow_def)

lemma sink_rows_flush [simp]: "sink_rows (csv_flush f) = sink_rows f"
  by (simp add: csv_flush_def)

lemma sink_open_writerow [simp]: "sink_open (csv_writerow f row) = sink_open f"
  by (simp add: csv_writerow_def)

lemma sink_open_flush [simp]: "sink_open (csv_flush f) = sink_open f"
  by (simp add: csv_flush_def)

lemma sink_flushed_writerow [simp]: "sink_flushed (csv_writerow f row) = sink_flushed f"
  by (simp add: csv_writerow_def)

lemma sink_flushed_flush [simp]: "sink_flushed (csv_flush f) = length (sink_rows f)"
  by (simp add: csv_flush_def)

lemma sink_csv_open [simp]:
  "sink_rows (csv_open fn h) = [h]" "sink_open (csv_open fn h)" "sink_flushed (csv_open fn h) = 0"
  by (simp_all add: csv_open_def)

lemma sink_csv_close [simp]:
  "sink_rows (csv_close f) = sink_rows f" "\<not> sink_open (csv_close f)"
  "sink_flushed (csv_close f) = length (sink_rows f)"
  by (simp_all add: csv_close_def)

end
