(* ===== verification/Acquisition.thy ===== *)
theory Acquisition
  imports Range_Resolution Csv_Sink
begin

text \<open>
  The state of a \<open>DataAcquisition\<close> object (data_acquisition.py, lines 13--55) and
  its per-channel setters (lines 57--66 and 313--325). The fields keep the source's
  names. Differences of representation:
  \<^item> \<open>self.channels\<close> is only read through \<open>channels.get(ch, False)\<close>, so it is the
    total function that \<open>get\<close> computes;
  \<^item> a \<open>voltage_range\<close> entry is \<open>None\<close>, an integer constant or a name string
    (\<open>range_setting\<close>);
  \<^item> the numpy buffers \<open>bufferAMax\<close> \<dots> \<open>bufferDMax\<close>, \<open>bufferDigitalMax0/1\<close> are one map
    from \<open>buf_id\<close> to the buffer, \<open>None\<close> while the attribute does not exist;
  \<^item> \<open>csvfile\<close>/\<open>csvwriter\<close> are the sink of Csv_Sink;
  \<^item> the module global \<open>first_sample_recorded\<close> is \<open>first_sample_hook\<close> (a signal is
    connected) and its emissions are counted in \<open>first_sample_emits\<close>;
  \<^item> \<open>dev_log\<close> records the vendor calls in order, \<open>ignored_errors\<close> the exceptions
    that ctypes prints and discards when they escape the streaming callback.
  The fields \<open>bufferCompleteA\<close> \<dots>, \<open>bufferDigital0/1\<close> and \<open>csv_initialized\<close> are
  written but never read, and are left out.
  Python defines \<open>set_voltage_range\<close> twice in the class body; the second
  definition (lines 313--325) replaces the first and is \<open>set_voltage_range\<close>; the
  first (lines 57--62), which stores the value as given, is \<open>set_voltage_range_first\<close>.
\<close>

datatype range_setting = RangeUnset | RangeConst int | RangeName string

datatype range_value = RangeValueStr string | RangeValueNum int

record acq =
  driver :: "driver option"
  status :: "string \<Rightarrow> status option"
  is_recording :: bool
  totalSamples :: int
  nextSample :: int
  autoStopOuter :: bool
  wasCalledBack :: bool
  csv :: sink
  maxADC :: int16
  sample_interval :: real
  sampleIntervalNs :: int
  time_unit :: string
  digital_channels :: "nat list"
  voltage_range :: "channel \<Rightarrow> range_setting"
  voltage_offset :: "channel \<Rightarrow> real"
  voltage_max :: "channel \<Rightarrow> real option"
  channels :: "channel \<Rightarrow> bool"
  buffers :: "buf_id \<Rightarrow> int16 list option"
  dev_log :: "dev_call list"
  first_sample_hook :: bool
  first_sample_emits :: nat
  ignored_errors :: "py_error list"

definition init_acq :: "driver option \<Rightarrow> acq" where
  "init_acq drv =
     \<lparr>driver = drv, status = Map.empty, is_recording = False, totalSamples = 0, nextSample = 0,
      autoStopOuter = False, wasCalledBack = False, csv = closed_sink, maxADC = 0,
      sample_interval = 0.25, sampleIntervalNs = 250 * 1000, time_unit = ''ms'',
      digital_channels = [], voltage_range = (\<lambda>_. RangeUnset), voltage_offset = (\<lambda>_. 0),
      voltage_max = (\<lambda>_. None), channels = (\<lambda>_. False), buffers = (\<lambda>_. None),
      dev_log = [], first_sample_hook = False, first_sample_emits = 0, ignored_errors = []\<rparr>"

definition set_voltage_range :: "channel \<Rightarrow> range_value \<Rightarrow> real \<Rightarrow> acq \<Rightarrow> acq outcome" where
  "set_voltage_range ch range_value offset s =
     (case range_value of
        RangeValueStr name \<Rightarrow>
          (case convert_range_string_to_constant (driver s) name of
             Inl e \<Rightarrow> Exc e s
           | Inr c \<Rightarrow>
               Ok (s\<lparr>voltage_range := (voltage_range s)(ch := RangeConst c),
                     voltage_offset := (voltage_offset s)(ch := offset)\<rparr>))
      | RangeValueNum c \<Rightarrow>
          Ok (s\<lparr>voltage_range := (voltage_range s)(ch := RangeConst c),
                voltage_offset := (voltage_offset s)(ch := offset)\<rparr>))"

definition set_voltage_rail :: "channel \<Rightarrow> real \<Rightarrow> acq \<Rightarrow> acq" where
  "set_voltage_rail ch vmax s = s\<lparr>voltage_max := (voltage_max s)(ch := Some vmax)\<rparr>"

definition set_voltage_range_first :: "channel \<Rightarrow> range_value \<Rightarrow> real \<Rightarrow> acq \<Rightarrow> acq" where
  "set_voltage_range_first ch range_constant offset s =
     s\<lparr>voltage_range := (voltage_range s)(ch := (case range_constant of
                                                  RangeValueStr name \<Rightarrow> RangeName name
                                                | RangeValueNum c \<Rightarrow> RangeConst c)),
       voltage_offset := (voltage_offset s)(ch := offset)\<rparr>"

subsection \<open>Frame of the device-facing operations\<close>

text \<open>
  The configuration steps of a session (channels, buffers, the ADC maximum query) change
  only the buffers, the device log and the status dictionary. \<open>frame_dev s t\<close> says
  so; it is kept folded so that the simplifier does not substitute record equations.
\<close>

definition frame_dev :: "acq \<Rightarrow> acq \<Rightarrow> bool" where
  "frame_dev s t \<longleftrightarrow> t = s\<lparr>buffers := buffers t, dev_log := dev_log t, status := status t\<rparr>"

lemma frame_dev_refl [simp]: "frame_dev s s"
  by (simp add: frame_dev_def)

lemma frame_dev_update [simp]:
  "frame_dev s (s\<lparr>buffers := b, dev_log := l, status := st\<rparr>)"
  "frame_dev s (s\<lparr>dev_log := l, status := st\<rparr>)"
  by (simp_all add: frame_dev_def)

lemma frame_dev_trans:
  assumes "frame_dev s u" "frame_dev u t"
  shows "frame_dev s t"
proof -
  have u: "u = s\<lparr>buffers := buffers u, dev_log := dev_log u, status := status u\<rparr>"
    using assms(1) by (simp add: frame_dev_def)
  have "t = u\<lparr>buffers := buffers t, dev_log := dev_log t, status := status t\<rparr>"
    using assms(2) by (simp add: frame_dev_def)
  also have "\<dots> = s\<lparr>buffers := buffers t, dev_log := dev_log t, status := status t\<rparr>"
    by (subst u) simp
  finally show ?thesis by (simp add: frame_dev_def)
qed

lemma frame_devD:
  assumes "frame_dev s t"
  shows "driver t = driver s \<and> is_recording t = is_recording s \<and> totalSamples t = totalSamples s
    \<and> nextSample t = nextSample s \<and> autoStopOuter t = autoStopOuter s
    \<and> wasCalledBack t = wasCalledBack s \<and> csv t = csv s \<and> maxADC t = maxADC s
    \<and> sample_interval t = sample_interval s \<and> sampleIntervalNs t = sampleIntervalNs s
    \<and> time_unit t = time_unit s \<and> digital_channels t = digital_channels s
    \<and> voltage_range t = voltage_range s \<and> voltage_offset t = voltage_offset s
    \<and> voltage_max t = voltage_max s \<and> channels t = channels s
    \<and> first_sample_hook t = first_sample_hook s \<and> first_sample_emits t = first_sample_emits s
    \<and> ignored_errors t = ignored_errors s"
proof -
  from assms have t: "t = s\<lparr>buffers := buffers t, dev_log := dev_log t, status := status t\<rparr>"
    by (simp add: frame_dev_def)
  show ?thesis by (subst t, simp)+
qed

lemma frame_dev_obind:
  assumes "frame_dev s (outcome_state m)" "\<And>u. m = Ok u \<Longrightarrow> frame_dev u (outcome_state (f u))"
  shows "frame_dev s (outcome_state (obind m f))"
  using assms by (cases m) (auto intro: frame_dev_trans)

end
