(* ===== verification/Channel_Config.thy ===== *)
theory Channel_Config
  imports Acquisition
begin

text \<open>
  Channel configuration: \<open>DataAcquisition.setup_channels\<close> (data_acquisition.py,
  lines 139--167). For each of A, B, C, D in this order the code computes a range and
  an offset (an enabled channel uses its stored range, \<open>ps_20V\<close> when none is stored,
  the resolver when a name is stored; a disabled channel always uses \<open>ps_20V\<close> and
  offset 0.0), calls \<open>psSetChannel\<close>, stores its status under \<open>setCh<letter>\<close> and
  asserts it. The list of channel constants is built from \<open>self.driver\<close> before the
  first call, so a missing driver raises before any device call.
\<close>

definition channel_setting :: "acq \<Rightarrow> driver \<Rightarrow> channel \<Rightarrow> py_error + (int \<times> real)" where
  "channel_setting s drv ch =
     (if channels s ch then
        sbind (case voltage_range s ch of
                 RangeUnset \<Rightarrow> Inr (ps_20V drv)
               | RangeName name \<Rightarrow> convert_range_string_to_constant (Some drv) name
               | RangeConst c \<Rightarrow> Inr c)
              (\<lambda>rng. Inr (rng, voltage_offset s ch))
      else Inr (ps_20V drv, 0))"

fun setup_channels_loop :: "device \<Rightarrow> driver \<Rightarrow> channel list \<Rightarrow> acq \<Rightarrow> acq outcome" where
  "setup_channels_loop dev drv [] s = Ok s"
| "setup_channels_loop dev drv (ch # chs) s =
     (case channel_setting s drv ch of
        Inl e \<Rightarrow> Exc e s
      | Inr (rng, off) \<Rightarrow>
          (let st = dev_set_channel dev ch;
               s' = s\<lparr>dev_log := dev_log s @ [SetChannel ch (channels s ch) (ps_DC drv) rng off],
                      status := (status s)(''setCh'' @ channel_letter ch \<mapsto> st)\<rparr>
           in obind (assert_pico_ok st s') (setup_channels_loop dev drv chs)))"

definition setup_channels :: "device \<Rightarrow> acq \<Rightarrow> acq outcome" where
  "setup_channels dev s =
     (case driver s of
        None \<Rightarrow> Exc AttributeError s
      | Some drv \<Rightarrow> setup_channels_loop dev drv all_channels s)"

subsection \<open>Lemmas\<close>

text \<open>
  \<open>channel_call s drv ch\<close> is the \<open>psSetChannel\<close> call channel \<open>ch\<close> receives; it
  depends only on the configuration fields, which the loop does not change. With a
  driver the range setting always resolves (the resolver falls back to \<open>ps_20V\<close>).
\<close>

definition channel_call :: "acq \<Rightarrow> driver \<Rightarrow> channel \<Rightarrow> dev_call" where
  "channel_call s drv ch =
     (case channel_setting s drv ch of
        Inr (rng, off) \<Rightarrow> SetChannel ch (channels s ch) (ps_DC drv) rng off
      | Inl e \<Rightarrow> SetChannel ch (channels s ch) (ps_DC drv) (ps_20V drv) 0)"

lemma convert_with_driver: "\<exists>c. convert_range_string_to_constant (Some drv) name = Inr c"
  by (auto simp: convert_range_string_to_constant_def ps_20V_of_def
      split: option.splits)

lemma channel_setting_Inr: "\<exists>r. channel_setting s drv ch = Inr r"
  using convert_with_driver [of drv]
  by (auto simp: channel_setting_def split: range_setting.splits)

lemma channel_setting_log_status [simp]:
  "channel_setting (s\<lparr>dev_log := l, status := st\<rparr>) drv ch = channel_setting s drv ch"
  by (simp add: channel_setting_def)

lemma channel_setting_disabled [simp]:
  "\<not> channels s ch \<Longrightarrow> channel_setting s drv ch = Inr (ps_20V drv, 0)"
  by (simp add: channel_setting_def)

lemma channel_call_log_status [simp]:
  "channel_call (s\<lparr>dev_log := l, status := st\<rparr>) drv ch = channel_call s drv ch"
  by (simp add: channel_call_def split: sum.split)

lemma channel_call_disabled [simp]:
  "\<not> channels s ch \<Longrightarrow> channel_call s drv ch = SetChannel ch False (ps_DC drv) (ps_20V drv) 0"
  by (simp add: channel_call_def)

lemma channel_call_Inr:
  "channel_setting s drv ch = Inr (rng, off) \<Longrightarrow>
   channel_call s drv ch = SetChannel ch (channels s ch) (ps_DC drv) rng off"
  by (simp add: channel_call_def)

lemma setup_channels_loop_Ok:
  "setup_channels_loop dev drv chs s = Ok t \<Longrightarrow>
   (\<forall>ch \<in> set chs. dev_set_channel dev ch = PICO_OK) \<and>
   dev_log t = dev_log s @ map (channel_call s drv) chs \<and> frame_dev s t"
proof (induction chs arbitrary: s)
  case Nil
  then show ?case by simp
next
  case (Cons ch chs)
  obtain rng off where r: "channel_setting s drv ch = Inr (rng, off)"
    using channel_setting_Inr by (metis surj_pair)
  let ?s' = "s\<lparr>dev_log := dev_log s @ [SetChannel ch (channels s ch) (ps_DC drv) rng off],
               status := (status s)(''setCh'' @ channel_letter ch \<mapsto> dev_set_channel dev ch)\<rparr>"
  from Cons.prems r have ok: "dev_set_channel dev ch = PICO_OK"
    and rec: "setup_channels_loop dev drv chs ?s' = Ok t"
    by (auto simp: Let_def split: if_splits)
  from Cons.IH [OF rec] have
    all: "\<forall>c \<in> set chs. dev_set_channel dev c = PICO_OK" and
    log: "dev_log t = dev_log ?s' @ map (channel_call ?s' drv) chs" and
    fr: "frame_dev ?s' t"
    by blast+
  have "frame_dev s t" using frame_dev_trans [OF _ fr] by simp
  with all ok log r show ?case by (simp add: channel_call_Inr)
qed

lemma setup_channels_loop_success:
  "(\<forall>ch \<in> set chs. dev_set_channel dev ch = PICO_OK) \<Longrightarrow> \<exists>t. setup_channels_loop dev drv chs s = Ok t"
proof (induction chs arbitrary: s)
  case Nil
  then show ?case by simp
next
  case (Cons ch chs)
  obtain rng off where r: "channel_setting s drv ch = Inr (rng, off)"
    using channel_setting_Inr by (metis surj_pair)
  with Cons show ?case by (simp add: Let_def)
qed

lemma setup_channels_loop_Exc:
  "setup_channels_loop dev drv chs s = Exc e t \<Longrightarrow>
   \<exists>pre ch post. chs = pre @ ch # post \<and> (\<forall>c \<in> set pre. dev_set_channel dev c = PICO_OK)
     \<and> dev_set_channel dev ch \<noteq> PICO_OK \<and> e = PicoSDKError (dev_set_channel dev ch)
     \<and> dev_log t = dev_log s @ map (channel_call s drv) (pre @ [ch])"
proof (induction chs arbitrary: s)
  case Nil
  then show ?case by simp
next
  case (Cons c chs)
  obtain rng off where r: "channel_setting s drv c = Inr (rng, off)"
    using channel_setting_Inr by (metis surj_pair)
  let ?s' = "s\<lparr>dev_log := dev_log s @ [SetChannel c (channels s c) (ps_DC drv) rng off],
               status := (status s)(''setCh'' @ channel_letter c \<mapsto> dev_set_channel dev c)\<rparr>"
  show ?case
  proof (cases "dev_set_channel dev c = PICO_OK")
    case True
    with Cons.prems r have "setup_channels_loop dev drv chs ?s' = Exc e t"
      by (simp add: Let_def)
    from Cons.IH [OF this] obtain pre ch post where
      "chs = pre @ ch # post" "\<forall>c' \<in> set pre. dev_set_channel dev c' = PICO_OK"
      "dev_set_channel dev ch \<noteq> PICO_OK" "e = PicoSDKError (dev_set_channel dev ch)"
      "dev_log t = dev_log ?s' @ map (channel_call ?s' drv) (pre @ [ch])"
      by blast
    with True r have "c # chs = (c # pre) @ ch # post \<and>
        (\<forall>c' \<in> set (c # pre). dev_set_channel dev c' = PICO_OK) \<and>
        dev_set_channel dev ch \<noteq> PICO_OK \<and> e = PicoSDKError (dev_set_channel dev ch) \<and>
        dev_log t = dev_log s @ map (channel_call s drv) ((c # pre) @ [ch])"
      by (simp add: channel_call_Inr)
    then show ?thesis by blast
  next
    case False
    with Cons.prems r have "c # chs = [] @ c # chs \<and> dev_set_channel dev c \<noteq> PICO_OK \<and>
        e = PicoSDKError (dev_set_channel dev c) \<and>
        dev_log t = dev_log s @ map (channel_call s drv) ([] @ [c])"
      by (auto simp: Let_def channel_call_Inr)
    then show ?thesis by fastforce
  qed
qed

lemma setup_channels_loop_frame: "frame_dev s (outcome_state (setup_channels_loop dev drv chs s))"
proof (induction chs arbitrary: s)
  case Nil
  then show ?case by simp
next
  case (Cons ch chs)
  obtain rng off where r: "channel_setting s drv ch = Inr (rng, off)"
    using channel_setting_Inr by (metis surj_pair)
  let ?s' = "s\<lparr>dev_log := dev_log s @ [SetChannel ch (channels s ch) (ps_DC drv) rng off],
               status := (status s)(''setCh'' @ channel_letter ch \<mapsto> dev_set_channel dev ch)\<rparr>"
  have "setup_channels_loop dev drv (ch # chs) s =
        obind (assert_pico_ok (dev_set_channel dev ch) ?s') (setup_channels_loop dev drv chs)"
    by (simp add: r Let_def)
  also have "frame_dev s (outcome_state \<dots>)"
    by (rule frame_dev_obind) (simp_all add: Cons.IH assert_pico_ok_def split: if_splits)
  finally show ?case .
qed

lemma setup_channels_frame: "frame_dev s (outcome_state (setup_channels dev s))"
  by (simp add: setup_channels_def setup_channels_loop_frame split: option.split)

text \<open>
  The two definitions of \<open>set_voltage_range\<close> configure the device alike: the first
  stores a range name, which \<open>setup_channels\<close> resolves when it calls
  \<open>psSetChannel\<close>; the second resolves it at once. With the driver that
  \<open>setup_channels\<close> uses, every channel then gets the same range and offset.
\<close>

lemma set_voltage_range_first_equiv:
  assumes "driver s = Some drv"
  shows "\<exists>t. set_voltage_range ch rv off s = Ok t \<and>
    channel_setting t drv ch' = channel_setting (set_voltage_range_first ch rv off s) drv ch'"
proof (cases rv)
  case (RangeValueStr name)
  obtain c where "convert_range_string_to_constant (Some drv) name = Inr c"
    using convert_with_driver by blast
  with assms RangeValueStr show ?thesis
    by (simp add: set_voltage_range_def set_voltage_range_first_def channel_setting_def)
next
  case (RangeValueNum c)
  then show ?thesis by (simp add: set_voltage_range_def set_voltage_range_first_def channel_setting_def)
qed

end
