(* ===== verification/Buffers.thy ===== *)
theory Buffers
  imports Channel_Config
begin

text \<open>
  The streaming buffers: \<open>DataAcquisition.setup_buffers\<close> (data_acquisition.py,
  lines 327--394) allocates, for each enabled analog channel in A--D order, a zeroed
  \<open>int16\<close> array of \<open>sizeOfOneBuffer\<close> samples and registers it with
  \<open>psSetDataBuffers\<close> (status stored under \<open>setDataBuffers<letter>\<close>, asserted);
  when digital channels are requested and the driver has digital ports, it does the
  same for the two 8-bit ports. The ratio mode is looked up once in the driver's
  ratio-mode dictionary. The \<open>except AttributeError\<close> branch of the source is dead:
  it guards the same attributes that \<open>_has_digital_channels\<close> has just checked.

  The device writes into the registered arrays in place (\<open>device_write\<close>: values at
  an offset, clipped to the array); the callback reads one sample at an index
  (\<open>read_sample\<close>: numpy raises \<open>IndexError\<close> past the end, and a buffer attribute that
  was never created raises \<open>AttributeError\<close>).
\<close>

definition register_buffer :: "device \<Rightarrow> driver \<Rightarrow> nat \<Rightarrow> buf_id \<Rightarrow> string \<Rightarrow> acq \<Rightarrow> acq outcome" where
  "register_buffer dev drv n b key s =
     (let st = dev_set_buffers dev b;
          s' = s\<lparr>buffers := (buffers s)(b \<mapsto> replicate n 0),
                 dev_log := dev_log s @ [SetDataBuffers b n (ratio_mode_none drv)],
                 status := (status s)(key \<mapsto> st)\<rparr>
      in assert_pico_ok st s')"

fun setup_analog_buffers :: "device \<Rightarrow> driver \<Rightarrow> nat \<Rightarrow> channel list \<Rightarrow> acq \<Rightarrow> acq outcome" where
  "setup_analog_buffers dev drv n [] s = Ok s"
| "setup_analog_buffers dev drv n (ch # chs) s =
     (if channels s ch
      then obind (register_buffer dev drv n (BufCh ch) (''setDataBuffers'' @ channel_letter ch) s)
                 (setup_analog_buffers dev drv n chs)
      else setup_analog_buffers dev drv n chs s)"

definition setup_buffers :: "device \<Rightarrow> nat \<Rightarrow> acq \<Rightarrow> acq outcome" where
  "setup_buffers dev n s =
     (case driver s of
        None \<Rightarrow> Exc AttributeError s
      | Some drv \<Rightarrow>
          obind (setup_analog_buffers dev drv n all_channels s)
            (\<lambda>s1. if digital_channels s1 \<noteq> [] \<and> has_digital_channels (driver s1)
                  then obind (register_buffer dev drv n BufDigital0 ''setDataBuffersDigital0'' s1)
                         (register_buffer dev drv n BufDigital1 ''setDataBuffersDigital1'')
                  else Ok s1))"

definition read_sample :: "acq \<Rightarrow> buf_id \<Rightarrow> nat \<Rightarrow> py_error + int16" where
  "read_sample s b k =
     (case buffers s b of
        None \<Rightarrow> Inl AttributeError
      | Some xs \<Rightarrow> if k < length xs then Inr (xs ! k) else Inl IndexError)"

definition write_at :: "int16 list \<Rightarrow> nat \<Rightarrow> int16 list \<Rightarrow> int16 list" where
  "write_at xs off vals = take off xs @ take (length xs - off) vals @ drop (off + length vals) xs"

definition device_write :: "acq \<Rightarrow> buf_id \<times> nat \<times> int16 list \<Rightarrow> acq" where
  "device_write s w =
     (case w of (b, off, vals) \<Rightarrow>
        (case buffers s b of
           None \<Rightarrow> s
         | Some xs \<Rightarrow> s\<lparr>buffers := (buffers s)(b \<mapsto> write_at xs off vals)\<rparr>))"

definition all_buf_ids :: "buf_id list" where
  "all_buf_ids = map BufCh all_channels @ [BufDigital0, BufDigital1]"

definition buffer_lengths :: "acq \<Rightarrow> buf_id \<Rightarrow> nat option" where
  "buffer_lengths s b = map_option length (buffers s b)"

subsection \<open>Lemmas\<close>

lemma length_write_at [simp]: "length (write_at xs off vals) = length xs"
  by (simp add: write_at_def)

lemma nth_write_at:
  "k < length xs \<Longrightarrow>
   write_at xs off vals ! k = (if off \<le> k \<and> k < off + length vals then vals ! (k - off) else xs ! k)"
  by (auto simp: write_at_def nth_append min_def)

lemma buffer_lengths_updates [simp]:
  "buffer_lengths (s\<lparr>status := x1\<rparr>) = buffer_lengths s"
  "buffer_lengths (s\<lparr>ignored_errors := x2\<rparr>) = buffer_lengths s"
  "buffer_lengths (s\<lparr>nextSample := x3\<rparr>) = buffer_lengths s"
  "buffer_lengths (s\<lparr>autoStopOuter := x4\<rparr>) = buffer_lengths s"
  "buffer_lengths (s\<lparr>wasCalledBack := x5\<rparr>) = buffer_lengths s"
  "buffer_lengths (s\<lparr>dev_log := x6\<rparr>) = buffer_lengths s"
  "buffer_lengths (s\<lparr>first_sample_emits := x7\<rparr>) = buffer_lengths s"
  "buffer_lengths (s\<lparr>csv := x8\<rparr>) = buffer_lengths s"
  "buffer_lengths (s\<lparr>is_recording := x9\<rparr>) = buffer_lengths s"
  by (simp_all add: buffer_lengths_def fun_eq_iff)

lemma buffer_lengths_device_write [simp]:
  "buffer_lengths (device_write s w) = buffer_lengths s"
  by (auto simp: device_write_def buffer_lengths_def split: option.splits prod.splits)

lemma buffer_lengths_fold_device_write [simp]:
  "buffer_lengths (fold (\<lambda>w s. device_write s w) ws s) = buffer_lengths s"
  by (induction ws arbitrary: s) simp_all

lemma register_buffer_Ok:
  "register_buffer dev drv n b key s = Ok t \<longleftrightarrow>
   dev_set_buffers dev b = PICO_OK \<and>
   t = s\<lparr>buffers := (buffers s)(b \<mapsto> replicate n 0),
         dev_log := dev_log s @ [SetDataBuffers b n (ratio_mode_none drv)],
         status := (status s)(key \<mapsto> dev_set_buffers dev b)\<rparr>"
  by (auto simp: register_buffer_def Let_def)

lemma register_buffer_frame:
  "register_buffer dev drv n b key s = Ok t \<Longrightarrow> frame_dev s t"
  by (simp add: register_buffer_Ok)

lemma setup_analog_buffers_Ok:
  "setup_analog_buffers dev drv n chs s = Ok t \<Longrightarrow>
   (\<forall>ch \<in> set chs. channels s ch \<longrightarrow> dev_set_buffers dev (BufCh ch) = PICO_OK) \<and>
   buffers t = (\<lambda>b. if b \<in> BufCh ` set (filter (channels s) chs) then Some (replicate n 0) else buffers s b) \<and>
   dev_log t = dev_log s @ map (\<lambda>ch. SetDataBuffers (BufCh ch) n (ratio_mode_none drv)) (filter (channels s) chs) \<and>
   frame_dev s t"
proof (induction chs arbitrary: s)
  case Nil
  then show ?case by auto
next
  case (Cons ch chs)
  show ?case
  proof (cases "channels s ch")
    case True
    with Cons.prems obtain s1 where r: "register_buffer dev drv n (BufCh ch) (''setDataBuffers'' @ channel_letter ch) s = Ok s1"
      and rec: "setup_analog_buffers dev drv n chs s1 = Ok t"
      by auto
    from r have ok: "dev_set_buffers dev (BufCh ch) = PICO_OK" and s1: "channels s1 = channels s"
      "buffers s1 = (buffers s)(BufCh ch \<mapsto> replicate n 0)"
      "dev_log s1 = dev_log s @ [SetDataBuffers (BufCh ch) n (ratio_mode_none drv)]"
      by (auto simp: register_buffer_Ok)
    from Cons.IH [OF rec] have
      c1: "\<forall>c \<in> set chs. channels s1 c \<longrightarrow> dev_set_buffers dev (BufCh c) = PICO_OK" and
      c2: "buffers t = (\<lambda>b. if b \<in> BufCh ` set (filter (channels s1) chs) then Some (replicate n 0) else buffers s1 b)" and
      c3: "dev_log t = dev_log s1 @ map (\<lambda>c. SetDataBuffers (BufCh c) n (ratio_mode_none drv)) (filter (channels s1) chs)" and
      c4: "frame_dev s1 t"
      by blast+
    have "frame_dev s t" by (rule frame_dev_trans [OF register_buffer_frame [OF r] c4])
    with c1 c2 c3 s1 True ok show ?thesis by (auto simp: fun_eq_iff)
  next
    case False
    with Cons.prems Cons.IH show ?thesis by auto
  qed
qed

definition digital_active :: "acq \<Rightarrow> bool" where
  "digital_active s \<longleftrightarrow> digital_channels s \<noteq> [] \<and> has_digital_channels (driver s)"

definition registered_buffers :: "acq \<Rightarrow> buf_id set" where
  "registered_buffers s =
     BufCh ` set (filter (channels s) all_channels) \<union> (if digital_active s then {BufDigital0, BufDigital1} else {})"

lemma setup_buffers_Ok:
  assumes "setup_buffers dev n s = Ok t"
  shows "\<exists>drv. driver s = Some drv \<and>
    (\<forall>b \<in> registered_buffers s. dev_set_buffers dev b = PICO_OK) \<and>
    buffers t = (\<lambda>b. if b \<in> registered_buffers s then Some (replicate n 0) else buffers s b) \<and>
    dev_log t = dev_log s @ map (\<lambda>b. SetDataBuffers b n (ratio_mode_none drv))
       (map BufCh (filter (channels s) all_channels) @ (if digital_active s then [BufDigital0, BufDigital1] else [])) \<and>
    frame_dev s t"
proof -
  from assms obtain drv s1 where drv: "driver s = Some drv"
    and a: "setup_analog_buffers dev drv n all_channels s = Ok s1"
    and d: "(if digital_channels s1 \<noteq> [] \<and> has_digital_channels (driver s1)
             then obind (register_buffer dev drv n BufDigital0 ''setDataBuffersDigital0'' s1)
                    (register_buffer dev drv n BufDigital1 ''setDataBuffersDigital1'')
             else Ok s1) = Ok t"
    by (auto simp: setup_buffers_def split: option.splits)
  from setup_analog_buffers_Ok [OF a] have
    a1: "\<forall>ch \<in> set all_channels. channels s ch \<longrightarrow> dev_set_buffers dev (BufCh ch) = PICO_OK" and
    a2: "buffers s1 = (\<lambda>b. if b \<in> BufCh ` set (filter (channels s) all_channels) then Some (replicate n 0) else buffers s b)" and
    a3: "dev_log s1 = dev_log s @ map (\<lambda>ch. SetDataBuffers (BufCh ch) n (ratio_mode_none drv)) (filter (channels s) all_channels)" and
    a4: "frame_dev s s1"
    by blast+
  from frame_devD [OF a4] have same: "digital_channels s1 = digital_channels s" "driver s1 = driver s"
    by simp_all
  show ?thesis
  proof (cases "digital_active s")
    case True
    with d same obtain s2 where r0: "register_buffer dev drv n BufDigital0 ''setDataBuffersDigital0'' s1 = Ok s2"
      and r1: "register_buffer dev drv n BufDigital1 ''setDataBuffersDigital1'' s2 = Ok t"
      by (auto simp: digital_active_def)
    have fr: "frame_dev s t"
      by (rule frame_dev_trans [OF frame_dev_trans [OF a4 register_buffer_frame [OF r0]] register_buffer_frame [OF r1]])
    from r0 r1 a1 a2 a3 True drv fr show ?thesis
      by (auto simp: register_buffer_Ok registered_buffers_def fun_eq_iff)
  next
    case False
    with d same have "t = s1" by (auto simp: digital_active_def)
    with a1 a2 a3 a4 False drv show ?thesis
      by (auto simp: registered_buffers_def)
  qed
qed

lemma register_buffer_outcome_frame: "frame_dev s (outcome_state (register_buffer dev drv n b key s))"
  by (simp add: register_buffer_def Let_def)

lemma setup_analog_buffers_frame: "frame_dev s (outcome_state (setup_analog_buffers dev drv n chs s))"
proof (induction chs arbitrary: s)
  case Nil
  then show ?case by simp
next
  case (Cons ch chs)
  then show ?case
    by (auto intro!: frame_dev_obind register_buffer_outcome_frame)
qed

lemma setup_buffers_frame: "frame_dev s (outcome_state (setup_buffers dev n s))"
  unfolding setup_buffers_def
  by (auto split: option.split intro!: frame_dev_obind setup_analog_buffers_frame register_buffer_outcome_frame)

lemma setup_analog_buffers_success:
  "(\<forall>b. dev_set_buffers dev b = PICO_OK) \<Longrightarrow> \<exists>t. setup_analog_buffers dev drv n chs s = Ok t"
proof (induction chs arbitrary: s)
  case Nil
  then show ?case by simp
next
  case (Cons ch chs)
  then show ?case by (auto simp: register_buffer_def Let_def)
qed

lemma setup_buffers_success:
  "(\<forall>b. dev_set_buffers dev b = PICO_OK) \<Longrightarrow> driver s = Some drv \<Longrightarrow> \<exists>t. setup_buffers dev n s = Ok t"
proof -
  assume ok: "\<forall>b. dev_set_buffers dev b = PICO_OK" and drv: "driver s = Some drv"
  obtain s1 where s1: "setup_analog_buffers dev drv n all_channels s = Ok s1"
    using setup_analog_buffers_success [OF ok] by blast
  have "\<exists>t. (if digital_channels s1 \<noteq> [] \<and> has_digital_channels (driver s1)
              then obind (register_buffer dev drv n BufDigital0 ''setDataBuffersDigital0'' s1)
                     (register_buffer dev drv n BufDigital1 ''setDataBuffersDigital1'')
              else Ok s1) = Ok t"
    using ok by (simp add: register_buffer_def Let_def)
  with s1 drv show ?thesis by (simp add: setup_buffers_def)
qed

end
