(* ===== verification/Streaming.thy ===== *)
theory Streaming
  imports Buffers
begin

unbundle bit_operations_syntax

text \<open>
  Streaming: \<open>DataAcquisition.run_streaming\<close> and \<open>streaming_callback\<close>
  (data_acquisition.py, lines 396--530).
  \<^item> \<open>interval_setup\<close> converts the user's interval once into the \<open>c_int32\<close> value
    handed to the driver, its unit constant and \<open>sampleIntervalNs\<close> (lines 398--417);
    \<open>start_streaming\<close> issues \<open>psRunStreaming\<close> with pre-trigger 0, the sample cap
    \<open>totalSamples\<close> (a \<open>uint32\<close> argument), auto-stop on, down-sampling 1 (lines 419--441).
  \<^item> \<open>streaming_callback\<close> (lines 456--530): marks the call, emits the first-sample
    signal when \<open>nextSample = 0\<close> and a signal is connected, and, when
    \<open>maxADC \<noteq> 0\<close>, builds and writes one row per delivered sample (time, the enabled
    analog channels converted with \<open>ps_20V\<close>, the requested digital bits), flushing
    at every multiple of 1000; then advances \<open>nextSample\<close> and records auto-stop.
  \<^item> \<open>poll_once\<close> is one iteration of the \<open>while\<close> loop (lines 446--451): the poll call,
    during which the driver may fill the buffers and invoke the callback once. The
    callback runs under ctypes, which prints and discards an exception escaping it, so
    an exception ends the callback early and the loop goes on (\<open>ignored_errors\<close>).
    The poll status is stored and never checked; the 10 ms sleep is not modelled.
  \<^item> \<open>stream_loop\<close> runs the loop over the driver's successive replies: it stops when
    the guard \<open>nextSample < totalSamples and not autoStopOuter\<close> fails or the replies
    are exhausted (then the guard still holds: the loop has not finished).
\<close>

definition interval_setup :: "driver \<Rightarrow> string \<Rightarrow> real \<Rightarrow> int \<times> int \<times> int" where
  "interval_setup drv tu si =
     (if tu = ''s'' then let v = c_int32 (py_int (si * 1000000)) in (v, ps_US drv, v * 1000)
      else if tu = ''ms'' then let v = c_int32 (py_int (si * 1000)) in (v, ps_US drv, v * 1000)
      else if tu = ''us'' then let v = c_int32 (py_int si) in (v, ps_US drv, v * 1000)
      else if tu = ''ns'' then let v = c_int32 (py_int si) in (v, ps_NS drv, v)
      else let v = c_int32 (py_int (si * 1000)) in (v, ps_US drv, v * 1000))"

definition start_streaming :: "device \<Rightarrow> nat \<Rightarrow> acq \<Rightarrow> acq outcome" where
  "start_streaming dev n s =
     (case driver s of
        None \<Rightarrow> Exc AttributeError s
      | Some drv \<Rightarrow>
          (case interval_setup drv (time_unit s) (sample_interval s) of
             (iv, units, ns) \<Rightarrow>
               (let st = dev_run dev;
                    s' = s\<lparr>sampleIntervalNs := ns,
                           dev_log := dev_log s @ [RunStreaming iv units 0 (c_uint32 (totalSamples s)) True 1
                                                     (ratio_mode_none drv) n],
                           status := (status s)(''runStreaming'' \<mapsto> st)\<rparr>
                in assert_pico_ok st s')))"

definition time_cell :: "string \<Rightarrow> int \<Rightarrow> int \<Rightarrow> cell" where
  "time_cell tu k ns =
     (if tu = ''s'' then CFloat (of_int (k * ns) / 1000000000)
      else if tu = ''ms'' then CFloat (of_int (k * ns) / 1000000)
      else if tu = ''us'' then CFloat (of_int (k * ns) / 1000)
      else if tu = ''ns'' then CInt (k * ns)
      else CFloat (of_int (k * ns) / 1000000))"

definition emit_first_sample :: "acq \<Rightarrow> acq" where
  "emit_first_sample s =
     (if nextSample s = 0 \<and> first_sample_hook s
      then s\<lparr>first_sample_emits := Suc (first_sample_emits s)\<rparr> else s)"

fun analog_cells :: "acq \<Rightarrow> driver \<Rightarrow> nat \<Rightarrow> channel list \<Rightarrow> py_error + cell list" where
  "analog_cells s drv k [] = Inr []"
| "analog_cells s drv k (ch # chs) =
     (if channels s ch
      then sbind (read_sample s (BufCh ch) k) (\<lambda>adc_val.
           sbind (adc_to_mv_single adc_val (ps_20V drv) (maxADC s)) (\<lambda>mv_val.
           sbind (analog_cells s drv k chs) (\<lambda>cs. Inr (CFloat mv_val # cs))))
      else analog_cells s drv k chs)"

definition digital_bit :: "uint16 \<Rightarrow> uint16 \<Rightarrow> nat \<Rightarrow> uint16" where
  "digital_bit d0 d1 dch = (if dch < 8 then drop_bit dch d0 AND 1 else drop_bit (dch - 8) d1 AND 1)"

definition digital_cells :: "acq \<Rightarrow> nat \<Rightarrow> py_error + cell list" where
  "digital_cells s k =
     (if digital_channels s = [] then Inr []
      else sbind (read_sample s BufDigital0 k) (\<lambda>d0.
           sbind (read_sample s BufDigital1 k) (\<lambda>d1.
           Inr (map (\<lambda>dch. CInt (uint (digital_bit d0 d1 dch))) (digital_channels s)))))"

definition build_row :: "acq \<Rightarrow> driver \<Rightarrow> nat \<Rightarrow> nat \<Rightarrow> py_error + cell list" where
  "build_row s drv startIndex i =
     sbind (analog_cells s drv (startIndex + i) all_channels) (\<lambda>a.
     sbind (digital_cells s (startIndex + i)) (\<lambda>d.
     Inr (time_cell (time_unit s) (nextSample s + int i) (sampleIntervalNs s) # a @ d)))"

definition write_row :: "acq \<Rightarrow> int \<Rightarrow> cell list \<Rightarrow> acq outcome" where
  "write_row s k row =
     (if sink_open (csv s)
      then (let f = csv_writerow (csv s) row in Ok (s\<lparr>csv := (if k mod 1000 = 0 then csv_flush f else f)\<rparr>))
      else Exc AttributeError s)"

fun write_rows :: "acq \<Rightarrow> driver \<Rightarrow> nat \<Rightarrow> nat list \<Rightarrow> acq outcome" where
  "write_rows s drv startIndex [] = Ok s"
| "write_rows s drv startIndex (i # is) =
     (case build_row s drv startIndex i of
        Inl e \<Rightarrow> Exc e s
      | Inr row \<Rightarrow> obind (write_row s (nextSample s + int i) row) (\<lambda>s'. write_rows s' drv startIndex is))"

record cb_args =
  cb_noOfSamples :: int
  cb_startIndex :: nat
  cb_overflow :: int
  cb_autoStop :: bool

definition streaming_callback :: "acq \<Rightarrow> cb_args \<Rightarrow> acq outcome" where
  "streaming_callback s a =
     (let s1 = emit_first_sample (s\<lparr>wasCalledBack := True\<rparr>)
      in obind (if maxADC s1 \<noteq> 0
                then (case driver s1 of
                        None \<Rightarrow> Exc AttributeError s1
                      | Some drv \<Rightarrow> write_rows s1 drv (cb_startIndex a) [0..<nat (cb_noOfSamples a)])
                else Ok s1)
           (\<lambda>s2. Ok (s2\<lparr>nextSample := nextSample s2 + cb_noOfSamples a,
                        autoStopOuter := (if cb_autoStop a then True else autoStopOuter s2)\<rparr>)))"

datatype poll_reply =
    NoCallback status
  | Callback status "(buf_id \<times> nat \<times> int16 list) list" cb_args

definition poll_key :: string where
  "poll_key = ''getStreamingLastestValues''"

definition poll_once :: "acq \<Rightarrow> poll_reply \<Rightarrow> acq" where
  "poll_once s r =
     (let s1 = s\<lparr>wasCalledBack := False, dev_log := dev_log s @ [GetStreamingLatestValues]\<rparr>
      in case r of
           NoCallback st \<Rightarrow> s1\<lparr>status := (status s1)(poll_key \<mapsto> st)\<rparr>
         | Callback st ws a \<Rightarrow>
             (case streaming_callback (fold (\<lambda>w s. device_write s w) ws s1) a of
                Ok s2 \<Rightarrow> s2\<lparr>status := (status s2)(poll_key \<mapsto> st)\<rparr>
              | Exc e s2 \<Rightarrow> s2\<lparr>ignored_errors := ignored_errors s2 @ [e],
                                status := (status s2)(poll_key \<mapsto> st)\<rparr>))"

definition loop_active :: "acq \<Rightarrow> bool" where
  "loop_active s \<longleftrightarrow> nextSample s < totalSamples s \<and> \<not> autoStopOuter s"

fun stream_loop :: "acq \<Rightarrow> poll_reply list \<Rightarrow> acq" where
  "stream_loop s [] = s"
| "stream_loop s (r # rs) = (if loop_active s then stream_loop (poll_once s r) rs else s)"

definition run_streaming :: "device \<Rightarrow> nat \<Rightarrow> poll_reply list \<Rightarrow> acq \<Rightarrow> acq outcome" where
  "run_streaming dev n replies s = obind (start_streaming dev n s) (\<lambda>s'. Ok (stream_loop s' replies))"

subsection \<open>Rows of a batch\<close>

text \<open>
  \<open>batch_rows\<close> is what a batch should append to the file: the rows of the given
  sample offsets, in order, or the first error building them. \<open>row_view\<close> collects the
  fields a row is computed from; \<open>row_width\<close> is the number of header columns.
\<close>

fun batch_rows :: "acq \<Rightarrow> driver \<Rightarrow> nat \<Rightarrow> nat list \<Rightarrow> py_error + cell list list" where
  "batch_rows s drv si [] = Inr []"
| "batch_rows s drv si (i # is) =
     sbind (build_row s drv si i) (\<lambda>r. sbind (batch_rows s drv si is) (\<lambda>rs. Inr (r # rs)))"

definition row_view :: "acq \<Rightarrow> (channel \<Rightarrow> bool) \<times> (buf_id \<Rightarrow> int16 list option) \<times> int16 \<times> string \<times> int \<times> int \<times> nat list" where
  "row_view s = (channels s, buffers s, maxADC s, time_unit s, nextSample s, sampleIntervalNs s, digital_channels s)"

definition row_width :: "acq \<Rightarrow> nat" where
  "row_width s = Suc (length (filter (channels s) all_channels) + length (digital_channels s))"

lemma analog_cells_view:
  "row_view s = row_view t \<Longrightarrow> analog_cells s drv k chs = analog_cells t drv k chs"
  by (induction chs) (simp_all add: row_view_def read_sample_def)

lemma build_row_view:
  "row_view s = row_view t \<Longrightarrow> build_row s drv si i = build_row t drv si i"
  using analog_cells_view [of s t]
  by (simp add: build_row_def digital_cells_def read_sample_def row_view_def)

lemma batch_rows_view:
  "row_view s = row_view t \<Longrightarrow> batch_rows s drv si is = batch_rows t drv si is"
  by (induction "is") (simp_all add: build_row_view [of s t])

lemma row_view_updates [simp]:
  "row_view (s\<lparr>csv := c\<rparr>) = row_view s"
  "row_view (s\<lparr>wasCalledBack := b\<rparr>) = row_view s"
  "row_view (s\<lparr>first_sample_emits := m\<rparr>) = row_view s"
  "row_view (s\<lparr>voltage_range := vr\<rparr>) = row_view s"
  by (simp_all add: row_view_def)

lemma batch_rows_csv [simp]: "batch_rows (s\<lparr>csv := c\<rparr>) drv si is = batch_rows s drv si is"
  by (rule batch_rows_view) simp

lemma length_analog_cells:
  "analog_cells s drv k chs = Inr cs \<Longrightarrow> length cs = length (filter (channels s) chs)"
  by (induction chs arbitrary: cs) (auto split: if_splits)

lemma build_row_width:
  "build_row s drv si i = Inr row \<Longrightarrow> length row = row_width s"
  by (auto simp: build_row_def digital_cells_def row_width_def dest!: length_analog_cells split: if_splits)

lemma build_row_time:
  "build_row s drv si i = Inr row \<Longrightarrow> hd row = time_cell (time_unit s) (nextSample s + int i) (sampleIntervalNs s)"
  by (auto simp: build_row_def)

lemma batch_rows_width:
  "batch_rows s drv si is = Inr rows \<Longrightarrow> \<forall>row \<in> set rows. length row = row_width s"
  by (induction "is" arbitrary: rows) (auto dest: build_row_width)

lemma batch_rows_time:
  "batch_rows s drv si is = Inr rows \<Longrightarrow>
   map hd rows = map (\<lambda>i. time_cell (time_unit s) (nextSample s + int i) (sampleIntervalNs s)) is"
  by (induction "is" arbitrary: rows) (auto dest: build_row_time)

subsection \<open>Writing a batch\<close>

lemma write_row_Ok:
  "write_row s k row = Ok t \<longleftrightarrow>
   sink_open (csv s) \<and>
   t = s\<lparr>csv := (if k mod 1000 = 0 then csv_flush (csv_writerow (csv s) row) else csv_writerow (csv s) row)\<rparr>"
  by (auto simp: write_row_def Let_def)

lemma write_rows_Ok:
  "write_rows s drv si is = Ok t \<Longrightarrow>
   \<exists>rows c. batch_rows s drv si is = Inr rows \<and> t = s\<lparr>csv := c\<rparr> \<and>
     sink_rows c = sink_rows (csv s) @ rows \<and> sink_open c = sink_open (csv s)"
proof (induction "is" arbitrary: s)
  case Nil
  then show ?case by (intro exI [of _ "[]"] exI [of _ "csv s"]) simp
next
  case (Cons i "is")
  from Cons.prems obtain row s' where row: "build_row s drv si i = Inr row"
    and w: "write_row s (nextSample s + int i) row = Ok s'" and rec: "write_rows s' drv si is = Ok t"
    by (auto split: sum.splits)
  from w obtain c1 where s': "s' = s\<lparr>csv := c1\<rparr>" "sink_rows c1 = sink_rows (csv s) @ [row]"
    "sink_open c1 = sink_open (csv s)"
    by (auto simp: write_row_Ok)
  from Cons.IH [OF rec] obtain rows c where
    "batch_rows s' drv si is = Inr rows" "t = s'\<lparr>csv := c\<rparr>"
    "sink_rows c = sink_rows (csv s') @ rows" "sink_open c = sink_open (csv s')"
    by blast
  with s' row show ?case by (intro exI [of _ "row # rows"] exI [of _ c]) simp
qed

lemma write_rows_Exc:
  "write_rows s drv si is = Exc e t \<Longrightarrow>
   \<exists>new c. t = s\<lparr>csv := c\<rparr> \<and> sink_rows c = sink_rows (csv s) @ new \<and>
     sink_open c = sink_open (csv s) \<and> (\<forall>row \<in> set new. length row = row_width s)"
proof (induction "is" arbitrary: s)
  case Nil
  then show ?case by simp
next
  case (Cons i "is")
  show ?case
  proof (cases "build_row s drv si i")
    case (Inl e')
    with Cons.prems show ?thesis by (intro exI [of _ "[]"] exI [of _ "csv s"]) simp
  next
    case (Inr row)
    show ?thesis
    proof (cases "sink_open (csv s)")
      case False
      with Cons.prems Inr show ?thesis
        by (intro exI [of _ "[]"] exI [of _ "csv s"]) (simp add: write_row_def)
    next
      case True
      let ?c1 = "(if (nextSample s + int i) mod 1000 = 0 then csv_flush (csv_writerow (csv s) row)
                  else csv_writerow (csv s) row)"
      from Cons.prems Inr True have rec: "write_rows (s\<lparr>csv := ?c1\<rparr>) drv si is = Exc e t"
        by (simp add: write_row_def Let_def)
      from Cons.IH [OF rec] obtain new c where
        "t = s\<lparr>csv := c\<rparr>" "sink_rows c = sink_rows ?c1 @ new" "sink_open c = sink_open ?c1"
        "\<forall>row \<in> set new. length row = row_width (s\<lparr>csv := ?c1\<rparr>)"
        by auto
      with Inr True show ?thesis
        by (intro exI [of _ "row # new"] exI [of _ c]) (auto simp: build_row_width row_width_def)
    qed
  qed
qed

lemma write_rows_success:
  "sink_open (csv s) \<Longrightarrow> batch_rows s drv si is = Inr rows \<Longrightarrow> \<exists>t. write_rows s drv si is = Ok t"
proof (induction "is" arbitrary: s rows)
  case Nil
  then show ?case by simp
next
  case (Cons i "is")
  then obtain row rows' where "build_row s drv si i = Inr row" "batch_rows s drv si is = Inr rows'"
    by auto
  with Cons.prems Cons.IH [of "s\<lparr>csv := _\<rparr>" rows'] show ?case
    by (auto simp: write_row_def Let_def)
qed

lemma write_rows_closed:
  "\<not> sink_open (csv s) \<Longrightarrow> is \<noteq> [] \<Longrightarrow> \<exists>e. write_rows s drv si is = Exc e s"
  by (cases "is") (auto simp: write_row_def split: sum.split)

subsection \<open>The callback\<close>

text \<open>
  \<open>loop_static s t\<close>: the fields the streaming loop never changes (the configuration,
  the buffers' lengths, whether the file is open). \<open>new_rows s t\<close> are the rows appended
  to the file between \<open>s\<close> and \<open>t\<close>.
\<close>

definition loop_static :: "acq \<Rightarrow> acq \<Rightarrow> bool" where
  "loop_static s t \<longleftrightarrow>
     driver t = driver s \<and> channels t = channels s \<and> digital_channels t = digital_channels s \<and>
     maxADC t = maxADC s \<and> time_unit t = time_unit s \<and> sampleIntervalNs t = sampleIntervalNs s \<and>
     totalSamples t = totalSamples s \<and> buffer_lengths t = buffer_lengths s \<and>
     first_sample_hook t = first_sample_hook s \<and> voltage_range t = voltage_range s \<and>
     is_recording t = is_recording s \<and> sink_open (csv t) = sink_open (csv s)"

lemma loop_static_refl [simp]: "loop_static s s"
  by (simp add: loop_static_def)

lemma loop_static_trans: "loop_static s u \<Longrightarrow> loop_static u t \<Longrightarrow> loop_static s t"
  by (simp add: loop_static_def)

lemma row_width_static: "loop_static s t \<Longrightarrow> row_width t = row_width s"
  by (simp add: loop_static_def row_width_def)

lemma emit_first_sample_eq:
  "emit_first_sample s =
     s\<lparr>first_sample_emits := first_sample_emits s + (if nextSample s = 0 \<and> first_sample_hook s then 1 else 0)\<rparr>"
  by (simp add: emit_first_sample_def)

lemma streaming_callback_Ok:
  assumes "streaming_callback s a = Ok t"
  shows "nextSample t = nextSample s + cb_noOfSamples a \<and>
    autoStopOuter t = (autoStopOuter s \<or> cb_autoStop a) \<and>
    first_sample_emits t = first_sample_emits s + (if nextSample s = 0 \<and> first_sample_hook s then 1 else 0) \<and>
    ignored_errors t = ignored_errors s \<and> loop_static s t \<and>
    (if maxADC s = 0 then sink_rows (csv t) = sink_rows (csv s)
     else \<exists>drv rows. driver s = Some drv \<and>
            batch_rows s drv (cb_startIndex a) [0..<nat (cb_noOfSamples a)] = Inr rows \<and>
            sink_rows (csv t) = sink_rows (csv s) @ rows)"
proof -
  let ?s1 = "emit_first_sample (s\<lparr>wasCalledBack := True\<rparr>)"
  have s1: "?s1 = s\<lparr>wasCalledBack := True,
      first_sample_emits := first_sample_emits s + (if nextSample s = 0 \<and> first_sample_hook s then 1 else 0)\<rparr>"
    by (simp add: emit_first_sample_eq)
  have v1: "row_view ?s1 = row_view s" by (simp add: s1 row_view_def)
  show ?thesis
  proof (cases "maxADC s = 0")
    case True
    with assms s1 show ?thesis
      by (auto simp: streaming_callback_def Let_def loop_static_def buffer_lengths_def)
  next
    case False
    with assms s1 obtain drv s2 where drv: "driver s = Some drv"
      and w: "write_rows ?s1 drv (cb_startIndex a) [0..<nat (cb_noOfSamples a)] = Ok s2"
      and t: "t = s2\<lparr>nextSample := nextSample s2 + cb_noOfSamples a,
                     autoStopOuter := (if cb_autoStop a then True else autoStopOuter s2)\<rparr>"
      by (auto simp: streaming_callback_def Let_def split: option.splits)
    from write_rows_Ok [OF w] obtain rows c where
      "batch_rows ?s1 drv (cb_startIndex a) [0..<nat (cb_noOfSamples a)] = Inr rows"
      "s2 = ?s1\<lparr>csv := c\<rparr>" "sink_rows c = sink_rows (csv ?s1) @ rows" "sink_open c = sink_open (csv ?s1)"
      by blast
    with batch_rows_view [OF v1] t s1 drv False show ?thesis
      by (auto simp: loop_static_def buffer_lengths_def)
  qed
qed

lemma streaming_callback_Exc:
  assumes "streaming_callback s a = Exc e t"
  shows "nextSample t = nextSample s \<and> autoStopOuter t = autoStopOuter s \<and>
    first_sample_emits t = first_sample_emits s + (if nextSample s = 0 \<and> first_sample_hook s then 1 else 0) \<and>
    ignored_errors t = ignored_errors s \<and> loop_static s t \<and> maxADC s \<noteq> 0 \<and>
    (\<exists>new. sink_rows (csv t) = sink_rows (csv s) @ new \<and> (\<forall>row \<in> set new. length row = row_width s))"
proof -
  let ?s1 = "emit_first_sample (s\<lparr>wasCalledBack := True\<rparr>)"
  have s1: "?s1 = s\<lparr>wasCalledBack := True,
      first_sample_emits := first_sample_emits s + (if nextSample s = 0 \<and> first_sample_hook s then 1 else 0)\<rparr>"
    by (simp add: emit_first_sample_eq)
  have m: "maxADC s \<noteq> 0"
    using assms by (auto simp: streaming_callback_def Let_def emit_first_sample_eq)
  show ?thesis
  proof (cases "driver s")
    case None
    with assms m show ?thesis
      by (auto simp: streaming_callback_def Let_def loop_static_def emit_first_sample_eq buffer_lengths_def)
  next
    case (Some drv)
    with assms m s1 have w: "write_rows ?s1 drv (cb_startIndex a) [0..<nat (cb_noOfSamples a)] = Exc e t"
      by (auto simp: streaming_callback_def Let_def)
    from write_rows_Exc [OF w] obtain new c where
      "t = ?s1\<lparr>csv := c\<rparr>" "sink_rows c = sink_rows (csv ?s1) @ new" "sink_open c = sink_open (csv ?s1)"
      "\<forall>row \<in> set new. length row = row_width ?s1"
      by blast
    with s1 m show ?thesis
      by (auto simp: loop_static_def buffer_lengths_def row_width_def)
  qed
qed

subsection \<open>When the callback raises\<close>

text \<open>
  \<open>needed_buffers\<close> are the buffers a row reads: the enabled analog channels, and both
  digital ports when digital channels are selected. The callback cannot raise when
  the driver is set, the file is open and every needed buffer holds the whole batch;
  with the file closed (after \<open>stop_recording\<close>) it raises on every non-empty batch.
\<close>

definition needed_buffers :: "acq \<Rightarrow> buf_id set" where
  "needed_buffers s =
     BufCh ` set (filter (channels s) all_channels) \<union>
     (if digital_channels s \<noteq> [] then {BufDigital0, BufDigital1} else {})"

definition stream_ready :: "acq \<Rightarrow> nat \<Rightarrow> bool" where
  "stream_ready s n \<longleftrightarrow>
     driver s \<noteq> None \<and> sink_open (csv s) \<and> (\<forall>b \<in> needed_buffers s. buffer_lengths s b = Some n)"

lemma analog_cells_Inr:
  "maxADC s \<noteq> 0 \<Longrightarrow> (\<forall>ch \<in> set chs. channels s ch \<longrightarrow> (\<exists>xs. buffers s (BufCh ch) = Some xs \<and> k < length xs)) \<Longrightarrow>
   \<exists>cs. analog_cells s drv k chs = Inr cs"
  by (induction chs) (auto simp: read_sample_def adc_to_mv_single_def)

lemma build_row_Inr:
  assumes "maxADC s \<noteq> 0" "\<forall>b \<in> needed_buffers s. \<exists>xs. buffers s b = Some xs \<and> si + i < length xs"
  shows "\<exists>row. build_row s drv si i = Inr row"
proof -
  from assms obtain cs where "analog_cells s drv (si + i) all_channels = Inr cs"
    using analog_cells_Inr [of s all_channels "si + i" drv] by (auto simp: needed_buffers_def)
  moreover have "\<exists>ds. digital_cells s (si + i) = Inr ds"
    using assms(2) by (auto simp: digital_cells_def read_sample_def needed_buffers_def)
  ultimately show ?thesis by (auto simp: build_row_def)
qed

lemma batch_rows_Inr:
  "maxADC s \<noteq> 0 \<Longrightarrow> (\<forall>i \<in> set is. \<forall>b \<in> needed_buffers s. \<exists>xs. buffers s b = Some xs \<and> si + i < length xs) \<Longrightarrow>
   \<exists>rows. batch_rows s drv si is = Inr rows"
  by (induction "is") (auto dest!: build_row_Inr [of s])

lemma streaming_callback_no_error:
  assumes "stream_ready s n" "cb_startIndex a + nat (cb_noOfSamples a) \<le> n"
  shows "\<exists>t. streaming_callback s a = Ok t"
proof (cases "maxADC s = 0")
  case True
  then show ?thesis by (simp add: streaming_callback_def Let_def emit_first_sample_eq)
next
  case False
  let ?s1 = "emit_first_sample (s\<lparr>wasCalledBack := True\<rparr>)"
  from assms(1) obtain drv where drv: "driver s = Some drv" and op: "sink_open (csv s)"
    by (auto simp: stream_ready_def)
  have v: "row_view ?s1 = row_view s" by (simp add: emit_first_sample_eq row_view_def)
  have "\<forall>i \<in> set [0..<nat (cb_noOfSamples a)]. \<forall>b \<in> needed_buffers s.
          \<exists>xs. buffers s b = Some xs \<and> cb_startIndex a + i < length xs"
    using assms by (fastforce simp: stream_ready_def buffer_lengths_def)
  then obtain rows where "batch_rows s drv (cb_startIndex a) [0..<nat (cb_noOfSamples a)] = Inr rows"
    using batch_rows_Inr [OF False] by blast
  then have "batch_rows ?s1 drv (cb_startIndex a) [0..<nat (cb_noOfSamples a)] = Inr rows"
    using batch_rows_view [OF v] by simp
  moreover have "sink_open (csv ?s1)" using op by (simp add: emit_first_sample_eq)
  ultimately obtain t where "write_rows ?s1 drv (cb_startIndex a) [0..<nat (cb_noOfSamples a)] = Ok t"
    using write_rows_success by blast
  with drv False show ?thesis
    by (simp add: streaming_callback_def Let_def emit_first_sample_eq)
qed

lemma streaming_callback_closed:
  assumes "\<not> sink_open (csv s)" "maxADC s \<noteq> 0" "1 \<le> cb_noOfSamples a"
  shows "\<exists>e. streaming_callback s a = Exc e (emit_first_sample (s\<lparr>wasCalledBack := True\<rparr>))"
proof (cases "driver s")
  case None
  with assms(2) show ?thesis by (simp add: streaming_callback_def Let_def emit_first_sample_eq)
next
  case (Some drv)
  let ?s1 = "emit_first_sample (s\<lparr>wasCalledBack := True\<rparr>)"
  have "\<not> sink_open (csv ?s1)" "[0..<nat (cb_noOfSamples a)] \<noteq> []"
    using assms by (simp_all add: emit_first_sample_eq)
  then obtain e where "write_rows ?s1 drv (cb_startIndex a) [0..<nat (cb_noOfSamples a)] = Exc e ?s1"
    using write_rows_closed by blast
  with Some assms(2) show ?thesis
    by (simp add: streaming_callback_def Let_def emit_first_sample_eq)
qed

lemma write_rows_dev_log: "dev_log (outcome_state (write_rows s drv si is)) = dev_log s"
proof (induction "is" arbitrary: s)
  case Nil
  then show ?case by simp
next
  case (Cons i "is")
  then show ?case
    by (auto simp: write_row_def Let_def split: sum.split)
qed

lemma streaming_callback_dev_log: "dev_log (outcome_state (streaming_callback s a)) = dev_log s"
  unfolding streaming_callback_def Let_def
  by (rule outcome_state_obind [where P = "\<lambda>t. dev_log t = dev_log s"])
     (auto simp: emit_first_sample_eq write_rows_dev_log split: option.split)

subsection \<open>Digital bits and the types of the cells\<close>

lemma drop_bit_and_one: "drop_bit n (w :: 'a::len word) AND 1 = (if bit w n then 1 else 0)"
  by (rule bit_word_eqI) (auto simp: bit_and_iff bit_drop_bit_eq bit_1_iff intro: Nat.gr0I)

text \<open>
  The kind of each cell the callback writes: \<open>row_kinds s\<close> is the time column
  (an integer count of nanoseconds in unit \<open>ns\<close>, a float otherwise), one float per
  enabled analog channel and one integer per digital channel.
\<close>

datatype column_kind = KText | KFloat | KInt

fun cell_kind :: "cell \<Rightarrow> column_kind" where
  "cell_kind (CText t) = KText"
| "cell_kind (CFloat x) = KFloat"
| "cell_kind (CInt k) = KInt"

definition row_kinds :: "acq \<Rightarrow> column_kind list" where
  "row_kinds s =
     (if time_unit s = ''ns'' then KInt else KFloat) #
     replicate (length (filter (channels s) all_channels)) KFloat @ replicate (length (digital_channels s)) KInt"

lemma cell_kind_time_cell: "cell_kind (time_cell tu k ns) = (if tu = ''ns'' then KInt else KFloat)"
  by (simp add: time_cell_def)

lemma analog_cells_kinds:
  "analog_cells s drv k chs = Inr cs \<Longrightarrow> map cell_kind cs = replicate (length (filter (channels s) chs)) KFloat"
  by (induction chs arbitrary: cs) (auto split: if_splits sum.splits)

lemma digital_cells_kinds:
  "digital_cells s k = Inr ds \<Longrightarrow>
   map cell_kind ds = replicate (length (digital_channels s)) KInt \<and> set ds \<subseteq> {CInt 0, CInt 1}"
  by (auto simp: digital_cells_def digital_bit_def drop_bit_and_one map_replicate_const o_def
      split: if_splits sum.splits)

text \<open>
  C20. Every row the callback builds is well typed: its cells have the kinds of
  \<open>row_kinds\<close> (so the columns of the file keep one type each), and every digital cell
  is the integer 0 or 1.
\<close>

theorem build_row_kinds:
  assumes "build_row s drv si i = Inr row"
  shows "map cell_kind row = row_kinds s \<and>
    set (drop (Suc (length (filter (channels s) all_channels))) row) \<subseteq> {CInt 0, CInt 1}"
proof -
  from assms obtain a d where a: "analog_cells s drv (si + i) all_channels = Inr a"
    and d: "digital_cells s (si + i) = Inr d"
    and row: "row = time_cell (time_unit s) (nextSample s + int i) (sampleIntervalNs s) # a @ d"
    by (auto simp: build_row_def split: sum.splits)
  note ka = analog_cells_kinds [OF a] and kd = digital_cells_kinds [OF d]
  from ka have "length a = length (filter (channels s) all_channels)"
    by (metis length_map length_replicate)
  with row ka kd show ?thesis by (simp add: row_kinds_def cell_kind_time_cell)
qed


end
