(* ===== verification/Stream_Loop.thy ===== *)
theory Stream_Loop
  imports Streaming
begin

text \<open>
  Properties of the polling loop of \<open>run_streaming\<close> (data_acquisition.py,
  lines 446--451) over a sequence of driver replies. The one-iteration lemma
  \<open>poll_once_effect\<close> says what a poll does to the loop counters, the file and the
  error log on each path (no callback; a callback that returns; a callback whose
  exception ctypes discards); the run-level lemmas follow by induction on the replies.
\<close>

fun reply_samples :: "poll_reply \<Rightarrow> int" where
  "reply_samples (NoCallback st) = 0"
| "reply_samples (Callback st ws a) = cb_noOfSamples a"

fun reply_autostop :: "poll_reply \<Rightarrow> bool" where
  "reply_autostop (NoCallback st) = False"
| "reply_autostop (Callback st ws a) = cb_autoStop a"

fun is_callback :: "poll_reply \<Rightarrow> bool" where
  "is_callback (NoCallback st) = False"
| "is_callback (Callback st ws a) = True"

text \<open>A reply the driver may send: no callback, or a callback with a non-empty batch.\<close>

fun nonempty_batch :: "poll_reply \<Rightarrow> bool" where
  "nonempty_batch (NoCallback st) = True"
| "nonempty_batch (Callback st ws a) = (1 \<le> cb_noOfSamples a)"

lemma nonempty_batch_samples: "nonempty_batch r \<Longrightarrow> 0 \<le> reply_samples r"
  by (cases r) auto

lemma fold_device_write_shape:
  "\<exists>bs. fold (\<lambda>w s. device_write s w) ws s = s\<lparr>buffers := bs\<rparr>"
proof (induction ws arbitrary: s)
  case Nil
  have "s = s\<lparr>buffers := buffers s\<rparr>" by simp
  then show ?case by (metis fold_simps(1))
next
  case (Cons w ws)
  have "device_write s w = s\<lparr>buffers := buffers (device_write s w)\<rparr>"
    by (auto simp: device_write_def split: prod.splits option.splits)
  then obtain b where b: "device_write s w = s\<lparr>buffers := b\<rparr>" by blast
  from Cons.IH [of "s\<lparr>buffers := b\<rparr>"] obtain bs where
    "fold (\<lambda>w s. device_write s w) ws (s\<lparr>buffers := b\<rparr>) = s\<lparr>buffers := b\<rparr>\<lparr>buffers := bs\<rparr>"
    by blast
  with b show ?case by auto
qed

lemma poll_once_effect:
  fixes s r
  defines "t \<equiv> poll_once s r"
  shows "loop_static s t \<and>
    first_sample_emits t = first_sample_emits s +
      (if is_callback r \<and> nextSample s = 0 \<and> first_sample_hook s then 1 else 0) \<and>
    (\<exists>new. sink_rows (csv t) = sink_rows (csv s) @ new \<and> (\<forall>row \<in> set new. length row = row_width s) \<and>
      (if ignored_errors t = ignored_errors s
       then nextSample t = nextSample s + reply_samples r \<and>
            autoStopOuter t = (autoStopOuter s \<or> reply_autostop r) \<and>
            (if maxADC s = 0 then new = []
             else map hd new = map (\<lambda>i. time_cell (time_unit s) (nextSample s + int i) (sampleIntervalNs s))
                                 [0..<nat (reply_samples r)])
       else (\<exists>e. ignored_errors t = ignored_errors s @ [e]) \<and> nextSample t = nextSample s \<and>
            autoStopOuter t = autoStopOuter s \<and> maxADC s \<noteq> 0))"
proof (cases r)
  case (NoCallback st)
  then show ?thesis
    by (auto simp: t_def poll_once_def loop_static_def buffer_lengths_def)
next
  case (Callback st ws a)
  let ?s1 = "s\<lparr>wasCalledBack := False, dev_log := dev_log s @ [GetStreamingLatestValues]\<rparr>"
  obtain bs where u: "fold (\<lambda>w s. device_write s w) ws ?s1 = ?s1\<lparr>buffers := bs\<rparr>"
    using fold_device_write_shape by blast
  let ?u = "?s1\<lparr>buffers := bs\<rparr>"
  have l1: "buffer_lengths ?s1 = buffer_lengths s"
    by (simp add: buffer_lengths_def fun_eq_iff)
  have lu: "buffer_lengths ?u = buffer_lengths s"
    using buffer_lengths_fold_device_write [of ws ?s1] u l1 by simp
  have su: "loop_static s ?u"
    using lu by (simp add: loop_static_def)
  have wu: "row_width ?u = row_width s"
    by (simp add: row_width_def)
  show ?thesis
  proof (cases "streaming_callback ?u a")
    case (Ok t')
    with Callback u have t: "t = t'\<lparr>status := (status t')(poll_key \<mapsto> st)\<rparr>"
      by (simp add: t_def poll_once_def)
    note cb = streaming_callback_Ok [OF Ok]
    then have st': "loop_static s t'" using su loop_static_trans by blast
    from cb obtain new where new: "sink_rows (csv t') = sink_rows (csv s) @ new"
      and nw: "maxADC s = 0 \<longrightarrow> new = []"
      and nt: "maxADC s \<noteq> 0 \<longrightarrow> (\<exists>drv. batch_rows ?u drv (cb_startIndex a) [0..<nat (cb_noOfSamples a)] = Inr new)"
      by (cases "maxADC s = 0") auto
    have width: "\<forall>row \<in> set new. length row = row_width s"
      using nt nw batch_rows_width [where s = ?u] wu by (cases "maxADC s = 0") auto
    have times: "maxADC s \<noteq> 0 \<Longrightarrow> map hd new =
        map (\<lambda>i. time_cell (time_unit s) (nextSample s + int i) (sampleIntervalNs s)) [0..<nat (cb_noOfSamples a)]"
      using nt batch_rows_time [where s = ?u] by auto
    from st' have "loop_static s t" by (simp add: t loop_static_def)
    with cb t Callback new width nw times show ?thesis
      by (intro conjI exI [of _ new]) auto
  next
    case (Exc e t')
    with Callback u have t: "t = t'\<lparr>ignored_errors := ignored_errors t' @ [e], status := (status t')(poll_key \<mapsto> st)\<rparr>"
      by (simp add: t_def poll_once_def)
    note cb = streaming_callback_Exc [OF Exc]
    then have st': "loop_static s t'" using su loop_static_trans by blast
    from cb obtain new where new: "sink_rows (csv t') = sink_rows (csv s) @ new"
      and width: "\<forall>row \<in> set new. length row = row_width s"
      using wu by auto
    from st' have "loop_static s t" by (simp add: t loop_static_def)
    with cb t Callback new width show ?thesis
      by (intro conjI exI [of _ new]) auto
  qed
qed

fun reply_fits :: "nat \<Rightarrow> poll_reply \<Rightarrow> bool" where
  "reply_fits n (NoCallback st) = True"
| "reply_fits n (Callback st ws a) = (0 \<le> cb_noOfSamples a \<and> cb_startIndex a + nat (cb_noOfSamples a) \<le> n)"

subsection \<open>Facts about one iteration\<close>

lemma poll_once_static: "loop_static s (poll_once s r)"
  using poll_once_effect [of s r] by blast

lemma poll_once_errors_grow: "\<exists>es. ignored_errors (poll_once s r) = ignored_errors s @ es"
  using poll_once_effect [of s r] by (metis append.right_neutral)

lemma stream_loop_static: "loop_static s (stream_loop s rs)"
  by (induction rs arbitrary: s) (auto intro: loop_static_trans [OF poll_once_static])

lemma stream_loop_errors_grow: "\<exists>es. ignored_errors (stream_loop s rs) = ignored_errors s @ es"
proof (induction rs arbitrary: s)
  case Nil
  then show ?case by simp
next
  case (Cons r rs)
  obtain es1 where "ignored_errors (poll_once s r) = ignored_errors s @ es1"
    using poll_once_errors_grow by blast
  moreover obtain es2 where "ignored_errors (stream_loop (poll_once s r) rs) = ignored_errors (poll_once s r) @ es2"
    using Cons.IH by blast
  ultimately show ?case by auto
qed

lemma no_errors_step:
  assumes "ignored_errors (stream_loop s (r # rs)) = ignored_errors s" "loop_active s"
  shows "ignored_errors (poll_once s r) = ignored_errors s \<and>
         ignored_errors (stream_loop (poll_once s r) rs) = ignored_errors (poll_once s r)"
proof -
  obtain es1 where e1: "ignored_errors (poll_once s r) = ignored_errors s @ es1"
    using poll_once_errors_grow by blast
  obtain es2 where e2: "ignored_errors (stream_loop (poll_once s r) rs) = ignored_errors (poll_once s r) @ es2"
    using stream_loop_errors_grow by blast
  from assms e1 e2 have "ignored_errors s @ es1 @ es2 = ignored_errors s" by simp
  then have "es1 = [] \<and> es2 = []" by simp
  with e1 e2 show ?thesis by simp
qed

lemma poll_once_ready_no_error:
  assumes "stream_ready s n" "reply_fits n r"
  shows "ignored_errors (poll_once s r) = ignored_errors s"
proof (cases r)
  case (NoCallback st)
  then show ?thesis by (simp add: poll_once_def)
next
  case (Callback st ws a)
  let ?s1 = "s\<lparr>wasCalledBack := False, dev_log := dev_log s @ [GetStreamingLatestValues]\<rparr>"
  obtain bs where u: "fold (\<lambda>w s. device_write s w) ws ?s1 = ?s1\<lparr>buffers := bs\<rparr>"
    using fold_device_write_shape by blast
  have "buffer_lengths (?s1\<lparr>buffers := bs\<rparr>) = buffer_lengths s"
    using buffer_lengths_fold_device_write [of ws ?s1] u by simp
  then have "stream_ready (?s1\<lparr>buffers := bs\<rparr>) n"
    using assms(1) by (simp add: stream_ready_def needed_buffers_def)
  with assms(2) Callback obtain t where "streaming_callback (?s1\<lparr>buffers := bs\<rparr>) a = Ok t"
    using streaming_callback_no_error by fastforce
  moreover from this have "ignored_errors t = ignored_errors s"
    using streaming_callback_Ok by fastforce
  ultimately show ?thesis
    using Callback u by (simp add: poll_once_def)
qed

lemma stream_ready_static: "stream_ready s n \<Longrightarrow> loop_static s t \<Longrightarrow> stream_ready t n"
  by (simp add: stream_ready_def loop_static_def needed_buffers_def)

lemma map_upt_shift:
  "map f [0..<a] @ map (\<lambda>i. f (a + i)) [0..<b] = map f [0..<a + b]"
  by (induction b) auto

lemma stream_loop_next_mono:
  assumes "\<forall>r \<in> set rs. 0 \<le> reply_samples r" "ignored_errors (stream_loop s rs) = ignored_errors s"
  shows "nextSample s \<le> nextSample (stream_loop s rs)"
  using assms
proof (induction rs arbitrary: s)
  case Nil
  then show ?case by simp
next
  case (Cons r rs)
  show ?case
  proof (cases "loop_active s")
    case True
    with Cons.prems have ne: "ignored_errors (poll_once s r) = ignored_errors s"
      and rest: "ignored_errors (stream_loop (poll_once s r) rs) = ignored_errors (poll_once s r)"
      using no_errors_step by blast+
    from poll_once_effect [of s r] ne have "nextSample (poll_once s r) = nextSample s + reply_samples r"
      by auto
    with Cons.prems Cons.IH [OF _ rest] True show ?thesis by fastforce
  next
    case False
    then show ?thesis by simp
  qed
qed

lemma closed_poll_once:
  assumes "\<not> sink_open (csv s)" "maxADC s \<noteq> 0" "nonempty_batch r"
  shows "nextSample (poll_once s r) = nextSample s \<and> autoStopOuter (poll_once s r) = autoStopOuter s \<and>
         sink_rows (csv (poll_once s r)) = sink_rows (csv s)"
proof (cases r)
  case (NoCallback st)
  then show ?thesis by (simp add: poll_once_def)
next
  case (Callback st ws a)
  let ?s1 = "s\<lparr>wasCalledBack := False, dev_log := dev_log s @ [GetStreamingLatestValues]\<rparr>"
  obtain bs where u: "fold (\<lambda>w s. device_write s w) ws ?s1 = ?s1\<lparr>buffers := bs\<rparr>"
    using fold_device_write_shape by blast
  from assms Callback obtain e where
    "streaming_callback (?s1\<lparr>buffers := bs\<rparr>) a = Exc e (emit_first_sample (?s1\<lparr>buffers := bs, wasCalledBack := True\<rparr>))"
    using streaming_callback_closed [of "?s1\<lparr>buffers := bs\<rparr>" a] by auto
  with Callback u show ?thesis
    by (simp add: poll_once_def emit_first_sample_eq)
qed

lemma closed_stream_loop:
  assumes "\<not> sink_open (csv s)" "maxADC s \<noteq> 0" "\<forall>r \<in> set rs. nonempty_batch r"
  shows "loop_active (stream_loop s rs) = loop_active s \<and> nextSample (stream_loop s rs) = nextSample s \<and>
         sink_rows (csv (stream_loop s rs)) = sink_rows (csv s)"
  using assms
proof (induction rs arbitrary: s)
  case Nil
  then show ?case by simp
next
  case (Cons r rs)
  show ?case
  proof (cases "loop_active s")
    case True
    let ?t = "poll_once s r"
    have st: "loop_static s ?t" by (rule poll_once_static)
    from Cons.prems have step: "nextSample ?t = nextSample s \<and> autoStopOuter ?t = autoStopOuter s \<and>
        sink_rows (csv ?t) = sink_rows (csv s)"
      by (intro closed_poll_once) auto
    from st Cons.prems have "\<not> sink_open (csv ?t)" "maxADC ?t \<noteq> 0"
      by (simp_all add: loop_static_def)
    with Cons.IH [of ?t] Cons.prems step st True show ?thesis
      by (simp add: loop_active_def loop_static_def)
  next
    case False
    then show ?thesis by simp
  qed
qed

lemma poll_once_dev_log: "dev_log (poll_once s r) = dev_log s @ [GetStreamingLatestValues]"
proof (cases r)
  case (NoCallback st)
  then show ?thesis by (simp add: poll_once_def)
next
  case (Callback st ws a)
  let ?s1 = "s\<lparr>wasCalledBack := False, dev_log := dev_log s @ [GetStreamingLatestValues]\<rparr>"
  obtain bs where u: "fold (\<lambda>w s. device_write s w) ws ?s1 = ?s1\<lparr>buffers := bs\<rparr>"
    using fold_device_write_shape by blast
  have "dev_log (outcome_state (streaming_callback (?s1\<lparr>buffers := bs\<rparr>) a)) = dev_log ?s1"
    using streaming_callback_dev_log [of "?s1\<lparr>buffers := bs\<rparr>" a] by simp
  with Callback u show ?thesis
    by (auto simp: poll_once_def split: outcome.split)
qed

lemma stream_loop_dev_log:
  "\<exists>k \<le> length rs. dev_log (stream_loop s rs) = dev_log s @ replicate k GetStreamingLatestValues"
proof (induction rs arbitrary: s)
  case Nil
  then show ?case by simp
next
  case (Cons r rs)
  obtain k where "k \<le> length rs"
    "dev_log (stream_loop (poll_once s r) rs) = dev_log (poll_once s r) @ replicate k GetStreamingLatestValues"
    using Cons.IH by blast
  then have "Suc k \<le> length (r # rs) \<and>
      dev_log (stream_loop (poll_once s r) rs) = dev_log s @ replicate (Suc k) GetStreamingLatestValues"
    by (simp add: poll_once_dev_log replicate_append_same [symmetric])
  then show ?case
    by (cases "loop_active s") (auto intro: exI [of _ 0])
qed

lemma closed_stream_loop_emits:
  assumes "\<not> sink_open (csv s)" "maxADC s \<noteq> 0" "\<forall>r \<in> set rs. nonempty_batch r"
    and "loop_active s" "nextSample s = 0" "first_sample_hook s"
  shows "first_sample_emits (stream_loop s rs) = first_sample_emits s + length (filter is_callback rs)"
  using assms
proof (induction rs arbitrary: s)
  case Nil
  then show ?case by simp
next
  case (Cons r rs)
  let ?t = "poll_once s r"
  have st: "loop_static s ?t" by (rule poll_once_static)
  from Cons.prems have step: "nextSample ?t = nextSample s \<and> autoStopOuter ?t = autoStopOuter s"
    by (simp add: closed_poll_once)
  have e: "first_sample_emits ?t = first_sample_emits s + (if is_callback r then 1 else 0)"
    using poll_once_effect [of s r] Cons.prems by simp
  from st step Cons.prems have "\<not> sink_open (csv ?t)" "maxADC ?t \<noteq> 0" "loop_active ?t"
    "nextSample ?t = 0" "first_sample_hook ?t"
    by (simp_all add: loop_static_def loop_active_def)
  with Cons.IH [of ?t] Cons.prems e show ?case by simp
qed

subsection \<open>A concrete run\<close>

text \<open>
  The run of the specification's example: channel A enabled, \<open>maxADC = 32512\<close>, a
  0.25 ms interval, three samples; one poll without callback, then one callback
  delivering the batch \<open>[0, 16256, -16256]\<close> into buffer A.
\<close>

definition demo_acq :: acq where
  "demo_acq = (init_acq (Some ps3000a_drv))\<lparr>is_recording := True, channels := (\<lambda>c. c = ChA),
     csv := csv_open ''acquisition.csv'' (csv_header ''ms'' (\<lambda>c. c = ChA) []),
     totalSamples := 3, maxADC := 32512, sampleIntervalNs := 250000, first_sample_hook := True,
     buffers := (\<lambda>b. if b = BufCh ChA then Some [0, 0, 0] else None)\<rparr>"

definition demo_reply :: poll_reply where
  "demo_reply = Callback 0 [(BufCh ChA, 0, [0, 16256, -16256])]
     \<lparr>cb_noOfSamples = 3, cb_startIndex = 0, cb_overflow = 0, cb_autoStop = False\<rparr>"

lemma demo_run:
  "ignored_errors (stream_loop demo_acq [NoCallback 0, demo_reply]) = [] \<and>
   nextSample (stream_loop demo_acq [NoCallback 0, demo_reply]) = 3 \<and>
   first_sample_emits (stream_loop demo_acq [NoCallback 0, demo_reply]) = 1 \<and>
   sink_rows (csv (stream_loop demo_acq [NoCallback 0, demo_reply])) =
     [csv_header ''ms'' (\<lambda>c. c = ChA) [], [CFloat 0, CFloat 0], [CFloat 0.25, CFloat 10000], [CFloat 0.5, CFloat (-10000)]]"
  by (simp add: demo_acq_def demo_reply_def init_acq_def poll_once_def loop_active_def streaming_callback_def
     emit_first_sample_def device_write_def write_at_def build_row_def all_channels_def read_sample_def
     adc_to_mv_single_def full_scale_volts_def voltage_ranges_def dict_get_def
     digital_cells_def time_cell_def write_row_def csv_writerow_def csv_flush_def csv_open_def upt_conv_Cons)

lemma demo_facts [simp]:
  "maxADC demo_acq = 32512" "nextSample demo_acq = 0" "totalSamples demo_acq = 3"
  "ignored_errors demo_acq = []" "first_sample_emits demo_acq = 0" "first_sample_hook demo_acq"
  "time_unit demo_acq = ''ms''" "sampleIntervalNs demo_acq = 250000"
  "sink_rows (csv demo_acq) = [csv_header ''ms'' (\<lambda>c. c = ChA) []]"
  "row_width demo_acq = 2"
  by (simp_all add: demo_acq_def init_acq_def row_width_def all_channels_def)

subsection \<open>Properties of a run\<close>

text \<open>
  C1. Rows reach the file in sample order without gaps: in a run where no callback
  exception was discarded and \<open>maxADC \<noteq> 0\<close>, the time column of the rows the loop
  appends is the time of samples \<open>nextSample\<close>, \<open>nextSample + 1\<close>, \<dots> up to the final
  counter, one row per sample.
\<close>

theorem stream_loop_timestamps:
  assumes "maxADC s \<noteq> 0" "\<forall>r \<in> set rs. 0 \<le> reply_samples r"
    and "ignored_errors (stream_loop s rs) = ignored_errors s"
  shows "\<exists>new. sink_rows (csv (stream_loop s rs)) = sink_rows (csv s) @ new \<and>
    map hd new = map (\<lambda>i. time_cell (time_unit s) (nextSample s + int i) (sampleIntervalNs s))
                      [0..<nat (nextSample (stream_loop s rs) - nextSample s)]"
  using assms
proof (induction rs arbitrary: s)
  case Nil
  then show ?case by simp
next
  case (Cons r rs)
  show ?case
  proof (cases "loop_active s")
    case True
    let ?t = "poll_once s r"
    from Cons.prems(3) True have ne: "ignored_errors ?t = ignored_errors s"
      and rest: "ignored_errors (stream_loop ?t rs) = ignored_errors ?t"
      using no_errors_step by blast+
    have st: "loop_static s ?t" by (rule poll_once_static)
    from poll_once_effect [of s r] ne Cons.prems(1) obtain new1 where
      n1: "sink_rows (csv ?t) = sink_rows (csv s) @ new1" and
      nx: "nextSample ?t = nextSample s + reply_samples r" and
      h1: "map hd new1 = map (\<lambda>i. time_cell (time_unit s) (nextSample s + int i) (sampleIntervalNs s))
                              [0..<nat (reply_samples r)]"
      by auto
    from st Cons.prems(1) have "maxADC ?t \<noteq> 0" by (simp add: loop_static_def)
    with Cons.IH [of ?t] Cons.prems(2) rest obtain new2 where
      n2: "sink_rows (csv (stream_loop ?t rs)) = sink_rows (csv ?t) @ new2" and
      h2: "map hd new2 = map (\<lambda>i. time_cell (time_unit ?t) (nextSample ?t + int i) (sampleIntervalNs ?t))
                              [0..<nat (nextSample (stream_loop ?t rs) - nextSample ?t)]"
      by auto
    have mono: "nextSample ?t \<le> nextSample (stream_loop ?t rs)"
      using stream_loop_next_mono [of rs ?t] Cons.prems(2) rest by auto
    have r0: "0 \<le> reply_samples r" using Cons.prems(2) by simp
    have split: "nat (nextSample (stream_loop ?t rs) - nextSample s)
               = nat (reply_samples r) + nat (nextSample (stream_loop ?t rs) - nextSample ?t)"
      using nx mono r0 by simp
    have "map hd (new1 @ new2) =
          map (\<lambda>i. time_cell (time_unit s) (nextSample s + int i) (sampleIntervalNs s))
              [0..<nat (nextSample (stream_loop ?t rs) - nextSample s)]"
      unfolding split map_upt_shift [symmetric] using h1 h2 nx st r0
      by (simp add: loop_static_def algebra_simps)
    with n1 n2 True show ?thesis by auto
  next
    case False
    then show ?thesis by simp
  qed
qed

text \<open>
  C2. The loop ends: when the buffers are ready (driver set, file open, every needed
  buffer of the registered size) and each poll delivers a batch of at least one sample
  that fits in the buffers, the loop guard fails after at most
  \<open>totalSamples - nextSample\<close> polls.
\<close>

theorem stream_loop_terminates:
  assumes "stream_ready s n" "\<forall>r \<in> set rs. reply_fits n r \<and> 1 \<le> reply_samples r"
    and "nat (totalSamples s - nextSample s) \<le> length rs"
  shows "\<not> loop_active (stream_loop s rs)"
  using assms
proof (induction rs arbitrary: s)
  case Nil
  then show ?case by (simp add: loop_active_def)
next
  case (Cons r rs)
  show ?case
  proof (cases "loop_active s")
    case True
    let ?t = "poll_once s r"
    from Cons.prems have ne: "ignored_errors ?t = ignored_errors s"
      using poll_once_ready_no_error by auto
    have st: "loop_static s ?t" by (rule poll_once_static)
    from poll_once_effect [of s r] ne have nx: "nextSample ?t = nextSample s + reply_samples r"
      by auto
    from Cons.prems(2) have "1 \<le> reply_samples r" by simp
    with nx st Cons.prems(3) have "nat (totalSamples ?t - nextSample ?t) \<le> length rs"
      by (simp add: loop_static_def)
    moreover have "stream_ready ?t n" using stream_ready_static [OF Cons.prems(1) st] .
    ultimately have "\<not> loop_active (stream_loop ?t rs)"
      using Cons.IH Cons.prems(2) by simp
    with True show ?thesis by simp
  next
    case False
    then show ?thesis by simp
  qed
qed

text \<open>
  C4. The first-sample signal is emitted once per session: starting from a
  non-negative counter, in a run where each callback delivers at least one sample and
  no callback exception was discarded, the signal is emitted exactly once if the run
  starts at sample 0 with a connected signal and delivers a sample, and never otherwise.
\<close>

theorem first_sample_emitted_once:
  assumes "0 \<le> nextSample s" "\<forall>r \<in> set rs. nonempty_batch r"
    and "ignored_errors (stream_loop s rs) = ignored_errors s"
  shows "first_sample_emits (stream_loop s rs) = first_sample_emits s +
    (if nextSample s = 0 \<and> first_sample_hook s \<and> nextSample (stream_loop s rs) \<noteq> 0 then 1 else 0)"
  using assms
proof (induction rs arbitrary: s)
  case Nil
  then show ?case by simp
next
  case (Cons r rs)
  show ?case
  proof (cases "loop_active s")
    case True
    let ?t = "poll_once s r"
    from Cons.prems(3) True have ne: "ignored_errors ?t = ignored_errors s"
      and rest: "ignored_errors (stream_loop ?t rs) = ignored_errors ?t"
      using no_errors_step by blast+
    have st: "loop_static s ?t" by (rule poll_once_static)
    from poll_once_effect [of s r] ne have
      em: "first_sample_emits ?t = first_sample_emits s +
             (if is_callback r \<and> nextSample s = 0 \<and> first_sample_hook s then 1 else 0)" and
      nx: "nextSample ?t = nextSample s + reply_samples r"
      by auto
    have pos: "is_callback r \<Longrightarrow> 1 \<le> reply_samples r" and nonneg: "0 \<le> reply_samples r"
      using Cons.prems(2) by (cases r; simp)+
    have all_nonneg: "\<forall>r \<in> set rs. 0 \<le> reply_samples r"
      using Cons.prems(2) nonempty_batch_samples by simp
    have mono: "nextSample ?t \<le> nextSample (stream_loop ?t rs)"
      using stream_loop_next_mono [OF all_nonneg rest] .
    have IH: "first_sample_emits (stream_loop ?t rs) = first_sample_emits ?t +
        (if nextSample ?t = 0 \<and> first_sample_hook ?t \<and> nextSample (stream_loop ?t rs) \<noteq> 0 then 1 else 0)"
      using Cons.IH [OF _ _ rest] Cons.prems(1,2) nx nonneg by simp
    have hook: "first_sample_hook ?t = first_sample_hook s" using st by (simp add: loop_static_def)
    show ?thesis
    proof (cases "is_callback r")
      case True
      with pos nx Cons.prems(1) have "0 < nextSample ?t" by simp
      with IH em hook mono True show ?thesis by auto
    next
      case False
      then have "reply_samples r = 0" by (cases r) auto
      with IH em hook nx False show ?thesis by auto
    qed
  next
    case False
    then show ?thesis by simp
  qed
qed

text \<open>
  C5. Every row in the file has as many columns as the header: if all rows written so
  far have \<open>1 + #enabled analog channels + #digital channels\<close> cells, so do all rows
  after any run of the loop (a row is built completely before it is written, also when
  a later sample of the batch raises).
\<close>

theorem stream_loop_rows_width:
  assumes "\<forall>row \<in> set (sink_rows (csv s)). length row = row_width s"
  shows "\<forall>row \<in> set (sink_rows (csv (stream_loop s rs))). length row = row_width s"
  using assms
proof (induction rs arbitrary: s)
  case Nil
  then show ?case by simp
next
  case (Cons r rs)
  show ?case
  proof (cases "loop_active s")
    case True
    let ?t = "poll_once s r"
    have w: "row_width ?t = row_width s" by (rule row_width_static [OF poll_once_static])
    from poll_once_effect [of s r] obtain new where
      "sink_rows (csv ?t) = sink_rows (csv s) @ new" "\<forall>row \<in> set new. length row = row_width s"
      by blast
    with Cons.prems w have "\<forall>row \<in> set (sink_rows (csv ?t)). length row = row_width ?t" by auto
    from Cons.IH [OF this] w True show ?thesis by simp
  next
    case False
    with Cons.prems show ?thesis by simp
  qed
qed

text \<open>
  C7. A zero \<open>maxADC\<close> is not an error: the loop never raises and writes no row, and it
  still consumes the delivered samples: after the run, \<open>nextSample\<close> has advanced by the
  samples of the first \<open>k\<close> replies, where either all replies were polled or the loop
  guard has failed after \<open>k\<close> of them.
\<close>

theorem zero_max_adc_writes_nothing:
  assumes "maxADC s = 0"
  shows "sink_rows (csv (stream_loop s rs)) = sink_rows (csv s) \<and>
         ignored_errors (stream_loop s rs) = ignored_errors s \<and>
         (\<exists>k \<le> length rs. nextSample (stream_loop s rs) = nextSample s + sum_list (map reply_samples (take k rs)) \<and>
            (k < length rs \<longrightarrow> \<not> loop_active (stream_loop s rs)))"
  using assms
proof (induction rs arbitrary: s)
  case Nil
  then show ?case by simp
next
  case (Cons r rs)
  show ?case
  proof (cases "loop_active s")
    case True
    let ?t = "poll_once s r"
    have st: "loop_static s ?t" by (rule poll_once_static)
    from poll_once_effect [of s r] Cons.prems have e:
      "sink_rows (csv ?t) = sink_rows (csv s) \<and> ignored_errors ?t = ignored_errors s \<and>
       nextSample ?t = nextSample s + reply_samples r"
      by (auto split: if_splits)
    from st Cons.prems have "maxADC ?t = 0" by (simp add: loop_static_def)
    note IH = Cons.IH [OF this]
    then obtain k where k: "k \<le> length rs"
      "nextSample (stream_loop ?t rs) = nextSample ?t + sum_list (map reply_samples (take k rs))"
      "k < length rs \<longrightarrow> \<not> loop_active (stream_loop ?t rs)"
      by blast
    have "Suc k \<le> length (r # rs) \<and>
      nextSample (stream_loop s (r # rs)) = nextSample s + sum_list (map reply_samples (take (Suc k) (r # rs))) \<and>
      (Suc k < length (r # rs) \<longrightarrow> \<not> loop_active (stream_loop s (r # rs)))"
      using k e True by simp
    then have "\<exists>k' \<le> length (r # rs).
      nextSample (stream_loop s (r # rs)) = nextSample s + sum_list (map reply_samples (take k' (r # rs))) \<and>
      (k' < length (r # rs) \<longrightarrow> \<not> loop_active (stream_loop s (r # rs)))"
      by blast
    with IH e True show ?thesis by simp
  next
    case False
    then have "0 \<le> length (r # rs) \<and>
      nextSample (stream_loop s (r # rs)) = nextSample s + sum_list (map reply_samples (take 0 (r # rs))) \<and>
      (0 < length (r # rs) \<longrightarrow> \<not> loop_active (stream_loop s (r # rs)))"
      by simp
    with False show ?thesis by (simp only: stream_loop.simps if_False) blast
  qed
qed

subsection \<open>Witnesses\<close>

theorem stream_loop_timestamps_witness:
  "\<exists>new. sink_rows (csv (stream_loop demo_acq [NoCallback 0, demo_reply])) =
      sink_rows (csv demo_acq) @ new \<and>
    map hd new = map (\<lambda>i. time_cell ''ms'' (int i) 250000) [0..<3]"
  using stream_loop_timestamps [of demo_acq "[NoCallback 0, demo_reply]"] demo_run
  by (simp add: demo_reply_def)

theorem stream_loop_terminates_witness:
  "\<not> loop_active (stream_loop demo_acq [demo_reply, demo_reply, demo_reply])"
proof -
  have "stream_ready demo_acq 3"
    by (simp add: stream_ready_def demo_acq_def init_acq_def needed_buffers_def all_channels_def buffer_lengths_def)
  then show ?thesis
    using stream_loop_terminates [of demo_acq 3 "[demo_reply, demo_reply, demo_reply]"]
    by (simp add: demo_reply_def)
qed

theorem first_sample_emitted_once_witness:
  "first_sample_emits (stream_loop demo_acq [NoCallback 0, demo_reply]) = 1"
  using first_sample_emitted_once [of demo_acq "[NoCallback 0, demo_reply]"] demo_run
  by (simp add: demo_reply_def)

theorem stream_loop_rows_width_witness:
  "map length (sink_rows (csv (stream_loop demo_acq [NoCallback 0, demo_reply]))) =
   replicate (length (sink_rows (csv (stream_loop demo_acq [NoCallback 0, demo_reply])))) 2"
proof -
  have "\<forall>row \<in> set (sink_rows (csv (stream_loop demo_acq [NoCallback 0, demo_reply]))). length row = 2"
    using stream_loop_rows_width [of demo_acq "[NoCallback 0, demo_reply]"]
    by (simp add: csv_header_def all_channels_def)
  then show ?thesis by (simp add: map_replicate_const [symmetric] cong: map_cong)
qed

theorem zero_max_adc_writes_nothing_witness:
  "sink_rows (csv (stream_loop (demo_acq\<lparr>maxADC := 0\<rparr>) [demo_reply])) = sink_rows (csv demo_acq) \<and>
   (\<exists>k \<le> 1. nextSample (stream_loop (demo_acq\<lparr>maxADC := 0\<rparr>) [demo_reply]) =
      sum_list (map reply_samples (take k [demo_reply])))"
proof -
  have "nextSample (demo_acq\<lparr>maxADC := 0\<rparr>) = 0" by (simp add: demo_acq_def init_acq_def)
  then show ?thesis
    using zero_max_adc_writes_nothing [of "demo_acq\<lparr>maxADC := 0\<rparr>" "[demo_reply]"]
    by (simp del: stream_loop.simps) blast
qed

theorem build_row_kinds_witness:
  "build_row demo_acq ps3000a_drv 0 1 = Inr [CFloat (1 / 4), CFloat 0] \<and> row_kinds demo_acq = [KFloat, KFloat]"
proof -
  have b: "build_row demo_acq ps3000a_drv 0 1 = Inr [CFloat (1 / 4), CFloat 0]"
    by (simp add: demo_acq_def init_acq_def build_row_def all_channels_def read_sample_def
        adc_to_mv_single_def digital_cells_def time_cell_def)
  from build_row_kinds [OF b] b show ?thesis by simp
qed

end
