(* ===== verification/Session.thy ===== *)
theory Session
  imports Stream_Loop
begin

text \<open>
  A recording session: \<open>DataAcquisition.start_recording\<close> (data_acquisition.py,
  lines 68--137), \<open>stop_recording\<close> (lines 532--551) and the module-level wrappers
  \<open>start_recording\<close>/\<open>stop_recording\<close> on the singleton (lines 587--602).
  \<^item> \<open>start_config\<close> is lines 71--98: the session fields, the digital-channel filter,
    the sample cap and the counter resets; \<open>is_recording\<close> is set first.
  \<^item> \<open>open_csv\<close> is lines 100--114: the header row, \<open>open(filename, 'w')\<close> and the
    header written. When the file system refuses the name, \<open>open\<close> raises \<open>OSError\<close> with
    the object already marked as recording and \<open>csvfile\<close> unchanged.
  \<^item> \<open>open_unit\<close> is \<open>psOpenUnit\<close> with the power-source recovery: on status 282 or 286
    the code calls \<open>psChangePowerSource\<close> and asserts its status; it does not open the
    unit again.
  \<^item> \<open>read_max_adc\<close> is \<open>psMaximumValue\<close>, which writes \<open>maxADC\<close> through a pointer.
  \<^item> \<open>start_device\<close> is lines 116--137: the unit opened, \<open>setup_channels\<close>,
    \<open>setup_buffers\<close>, \<open>read_max_adc\<close> and \<open>run_streaming\<close>; \<open>start_recording\<close> is the three
    parts in sequence. An exception at any step propagates with the state reached.
  \<^item> \<open>stop_recording\<close> catches every exception of \<open>psStop\<close>/\<open>psCloseUnit\<close> and in its
    \<open>finally\<close> clause clears \<open>is_recording\<close> and closes the file. It sets no flag that the
    streaming loop reads.
\<close>

definition start_config ::
  "nat \<Rightarrow> int \<Rightarrow> string \<Rightarrow> string \<Rightarrow> real \<Rightarrow> (channel \<Rightarrow> bool) \<Rightarrow> nat list \<Rightarrow> acq \<Rightarrow> acq" where
  "start_config sizeOfOneBuffer numBuffersToCapture filename tu si chans dig s =
     (let dig' = (if dig \<noteq> [] \<and> has_digital_channels (driver s) then dig else []) in
      s\<lparr>is_recording := True, time_unit := tu, sample_interval := si, channels := chans,
        digital_channels := dig',
        totalSamples := int sizeOfOneBuffer * numBuffersToCapture,
        nextSample := 0, autoStopOuter := False, wasCalledBack := False\<rparr>)"

definition open_csv :: "device \<Rightarrow> string \<Rightarrow> acq \<Rightarrow> acq outcome" where
  "open_csv dev filename s =
     (let header = csv_header (time_unit s) (channels s) (digital_channels s) in
      if fs_writable dev filename then Ok (s\<lparr>csv := csv_open filename header\<rparr>)
      else Exc OSError s)"

definition power_status :: "status \<Rightarrow> bool" where
  "power_status st \<longleftrightarrow> st = 286 \<or> st = 282"

definition open_unit :: "device \<Rightarrow> acq \<Rightarrow> acq outcome" where
  "open_unit dev s =
     (case driver s of
        None \<Rightarrow> Exc AttributeError s
      | Some drv \<Rightarrow>
          (let st = dev_open dev;
               s1 = s\<lparr>dev_log := dev_log s @ [OpenUnit], status := (status s)(''openunit'' \<mapsto> st)\<rparr>
           in if st = PICO_OK then Ok s1
              else if power_status st then
                (let pst = dev_power dev;
                     s2 = s1\<lparr>dev_log := dev_log s1 @ [ChangePowerSource st],
                             status := (status s1)(''changePowerSource'' \<mapsto> pst)\<rparr>
                 in assert_pico_ok pst s2)
              else Exc (PicoSDKError st) s1))"

definition read_max_adc :: "device \<Rightarrow> acq \<Rightarrow> acq outcome" where
  "read_max_adc dev s =
     (case driver s of
        None \<Rightarrow> Exc AttributeError s
      | Some drv \<Rightarrow>
          (let st = dev_max_status dev;
               s1 = s\<lparr>maxADC := dev_max_adc dev, dev_log := dev_log s @ [MaximumValue],
                      status := (status s)(''maximumValue'' \<mapsto> st)\<rparr>
           in assert_pico_ok st s1))"

definition start_device :: "device \<Rightarrow> nat \<Rightarrow> poll_reply list \<Rightarrow> acq \<Rightarrow> acq outcome" where
  "start_device dev sizeOfOneBuffer replies s0 =
     obind (open_unit dev s0)
       (\<lambda>s1. obind (setup_channels dev s1)
       (\<lambda>s2. obind (setup_buffers dev sizeOfOneBuffer s2)
       (\<lambda>s3. obind (read_max_adc dev s3)
       (run_streaming dev sizeOfOneBuffer replies))))"

definition start_recording ::
  "device \<Rightarrow> nat \<Rightarrow> int \<Rightarrow> string \<Rightarrow> string \<Rightarrow> real \<Rightarrow> (channel \<Rightarrow> bool) \<Rightarrow> nat list \<Rightarrow>
   poll_reply list \<Rightarrow> acq \<Rightarrow> acq outcome" where
  "start_recording dev sizeOfOneBuffer numBuffersToCapture filename tu si chans dig replies s =
     obind (open_csv dev filename (start_config sizeOfOneBuffer numBuffersToCapture filename tu si chans dig s))
       (start_device dev sizeOfOneBuffer replies)"

definition stop_device :: "device \<Rightarrow> acq \<Rightarrow> acq" where
  "stop_device dev s =
     (case driver s of
        None \<Rightarrow> s
      | Some drv \<Rightarrow>
          (let st = dev_stop dev;
               s1 = s\<lparr>dev_log := dev_log s @ [Stop], status := (status s)(''stop'' \<mapsto> st)\<rparr>
           in if st = PICO_OK
              then s1\<lparr>dev_log := dev_log s1 @ [CloseUnit],
                      status := (status s1)(''close'' \<mapsto> dev_close dev)\<rparr>
              else s1))"

definition stop_recording :: "device \<Rightarrow> acq \<Rightarrow> acq" where
  "stop_recording dev s =
     (if is_recording s
      then (let s1 = stop_device dev s in
            s1\<lparr>is_recording := False, csv := csv_close (csv s1)\<rparr>)
      else s)"

definition start_recording_global ::
  "device \<Rightarrow> string \<Rightarrow> real \<Rightarrow> (channel \<Rightarrow> bool) \<Rightarrow> string \<Rightarrow> nat list \<Rightarrow>
   poll_reply list \<Rightarrow> acq \<Rightarrow> acq outcome" where
  "start_recording_global dev tu si chans filename dig replies s =
     (case driver s of
        None \<Rightarrow> Exc RuntimeError s
      | Some drv \<Rightarrow> start_recording dev 10000 999999999 filename tu si chans dig replies s)"

text \<open>A device that accepts every vendor call (the file system is left as it is).\<close>

definition calls_ok :: "device \<Rightarrow> bool" where
  "calls_ok dev \<longleftrightarrow> dev_open dev = PICO_OK \<and> (\<forall>ch. dev_set_channel dev ch = PICO_OK) \<and>
     (\<forall>b. dev_set_buffers dev b = PICO_OK) \<and> dev_max_status dev = PICO_OK \<and> dev_run dev = PICO_OK"

subsection \<open>Stopping\<close>

lemma stop_device_fields:
  "is_recording (stop_device dev s) = is_recording s \<and> csv (stop_device dev s) = csv s \<and>
   loop_static s (stop_device dev s) \<and> nextSample (stop_device dev s) = nextSample s \<and>
   autoStopOuter (stop_device dev s) = autoStopOuter s"
  by (simp add: stop_device_def Let_def loop_static_def buffer_lengths_def split: option.split)

lemma stop_device_log:
  "dev_log (stop_device dev s) = dev_log s @
     (case driver s of None \<Rightarrow> [] | Some drv \<Rightarrow> if dev_stop dev = PICO_OK then [Stop, CloseUnit] else [Stop])"
  by (simp add: stop_device_def Let_def split: option.split)

lemma stop_recording_loop_fields:
  assumes "is_recording s"
  shows "loop_active (stop_recording dev s) = loop_active s \<and> maxADC (stop_recording dev s) = maxADC s \<and>
    nextSample (stop_recording dev s) = nextSample s \<and> \<not> sink_open (csv (stop_recording dev s)) \<and>
    sink_rows (csv (stop_recording dev s)) = sink_rows (csv s)"
  using assms stop_device_fields [of dev s]
  by (simp add: stop_recording_def Let_def loop_active_def loop_static_def)

lemma stop_recording_signal_fields:
  "first_sample_hook (stop_recording dev s) = first_sample_hook s \<and>
   first_sample_emits (stop_recording dev s) = first_sample_emits s"
  using stop_device_fields [of dev s]
  by (simp add: stop_recording_def Let_def loop_static_def stop_device_def split: option.split)

subsection \<open>Starting\<close>

text \<open>
  \<open>keeps_session s t\<close>: the recording flag, the file, the driver and the acquisition
  settings are those of \<open>s\<close>. Every device step of \<open>start_recording\<close> keeps them, whether it returns or
  raises.
\<close>

definition keeps_session :: "acq \<Rightarrow> acq \<Rightarrow> bool" where
  "keeps_session s t \<longleftrightarrow>
     is_recording t = is_recording s \<and> csv t = csv s \<and> digital_channels t = digital_channels s \<and>
     totalSamples t = totalSamples s \<and> driver t = driver s \<and> time_unit t = time_unit s \<and>
     sample_interval t = sample_interval s \<and> channels t = channels s \<and> nextSample t = nextSample s \<and>
     autoStopOuter t = autoStopOuter s \<and> first_sample_hook t = first_sample_hook s"

lemma frame_dev_keeps_session: "frame_dev s t \<Longrightarrow> keeps_session s t"
  by (simp add: keeps_session_def frame_devD)

lemma open_unit_keeps: "keeps_session s (outcome_state (open_unit dev s))"
  by (simp add: open_unit_def Let_def keeps_session_def split: option.split)

lemma read_max_adc_keeps: "keeps_session s (outcome_state (read_max_adc dev s))"
  by (simp add: read_max_adc_def Let_def keeps_session_def split: option.split)

lemma run_streaming_Exc_keeps: "run_streaming dev n rs s = Exc e t \<Longrightarrow> keeps_session s t"
  by (auto simp: run_streaming_def start_streaming_def Let_def keeps_session_def assert_pico_ok_def
      split: option.splits prod.splits if_splits)

lemma Exc_keeps:
  "m = Exc e t \<Longrightarrow> keeps_session s (outcome_state m) \<Longrightarrow> keeps_session s t"
  by simp

lemma open_csv_Ok:
  "open_csv dev filename s = Ok t \<longleftrightarrow>
   fs_writable dev filename \<and>
   t = s\<lparr>csv := csv_open filename (csv_header (time_unit s) (channels s) (digital_channels s))\<rparr>"
  by (auto simp: open_csv_def Let_def)

lemma open_csv_Exc:
  "open_csv dev filename s = Exc e t \<longleftrightarrow> \<not> fs_writable dev filename \<and> e = OSError \<and> t = s"
  by (auto simp: open_csv_def Let_def)

lemma start_recording_cases:
  "start_recording dev n num filename tu si chans dig rs s =
   (if fs_writable dev filename
    then start_device dev n rs ((start_config n num filename tu si chans dig s)\<lparr>csv := csv_open filename
           (csv_header tu chans (digital_channels (start_config n num filename tu si chans dig s)))\<rparr>)
    else Exc OSError (start_config n num filename tu si chans dig s))"
  by (simp add: start_recording_def open_csv_def Let_def start_config_def)

lemma start_device_Exc_keeps:
  assumes "start_device dev n rs s0 = Exc e t"
  shows "keeps_session s0 t"
proof -
  from assms consider
      (o) "open_unit dev s0 = Exc e t"
    | (c) s1 where "open_unit dev s0 = Ok s1" "setup_channels dev s1 = Exc e t"
    | (b) s1 s2 where "open_unit dev s0 = Ok s1" "setup_channels dev s1 = Ok s2"
        "setup_buffers dev n s2 = Exc e t"
    | (m) s1 s2 s3 where "open_unit dev s0 = Ok s1" "setup_channels dev s1 = Ok s2"
        "setup_buffers dev n s2 = Ok s3" "read_max_adc dev s3 = Exc e t"
    | (r) s1 s2 s3 s4 where "open_unit dev s0 = Ok s1" "setup_channels dev s1 = Ok s2"
        "setup_buffers dev n s2 = Ok s3" "read_max_adc dev s3 = Ok s4" "run_streaming dev n rs s4 = Exc e t"
    unfolding start_device_def by (auto simp: obind_Exc_iff)
  then show ?thesis
  proof cases
    case o
    then show ?thesis using Exc_keeps open_unit_keeps by metis
  next
    case c
    then show ?thesis
      using open_unit_keeps [of s0 dev] frame_dev_keeps_session [OF setup_channels_frame [of s1 dev]]
      by (simp add: keeps_session_def)
  next
    case b
    then show ?thesis
      using open_unit_keeps [of s0 dev] frame_dev_keeps_session [OF setup_channels_frame [of s1 dev]]
        frame_dev_keeps_session [OF setup_buffers_frame [of s2 dev n]]
      by (simp add: keeps_session_def)
  next
    case m
    then show ?thesis
      using open_unit_keeps [of s0 dev] frame_dev_keeps_session [OF setup_channels_frame [of s1 dev]]
        frame_dev_keeps_session [OF setup_buffers_frame [of s2 dev n]] read_max_adc_keeps [of s3 dev]
      by (simp add: keeps_session_def)
  next
    case r
    then show ?thesis
      using open_unit_keeps [of s0 dev] frame_dev_keeps_session [OF setup_channels_frame [of s1 dev]]
        frame_dev_keeps_session [OF setup_buffers_frame [of s2 dev n]] read_max_adc_keeps [of s3 dev]
        run_streaming_Exc_keeps [of dev n rs s4 e t]
      by (simp add: keeps_session_def)
  qed
qed

lemma start_device_Ok:
  "start_device dev n rs s0 = Ok t \<longleftrightarrow>
   (\<exists>s1 s2 s3 s4 s5. open_unit dev s0 = Ok s1 \<and>
      setup_channels dev s1 = Ok s2 \<and> setup_buffers dev n s2 = Ok s3 \<and> read_max_adc dev s3 = Ok s4 \<and>
      start_streaming dev n s4 = Ok s5 \<and> t = stream_loop s5 rs)"
  by (auto simp: start_device_def run_streaming_def)

lemma open_unit_Ok_keeps: "open_unit dev s = Ok t \<Longrightarrow> keeps_session s t"
  using open_unit_keeps [of s dev] by simp

lemma read_max_adc_Ok:
  "read_max_adc dev s = Ok t \<Longrightarrow>
   keeps_session s t \<and> maxADC t = dev_max_adc dev \<and> dev_log t = dev_log s @ [MaximumValue]"
  by (auto simp: read_max_adc_def Let_def keeps_session_def split: option.splits if_splits)

lemma start_streaming_Ok:
  "start_streaming dev n s = Ok t \<Longrightarrow> driver s = Some drv \<Longrightarrow>
   keeps_session s t \<and> maxADC t = maxADC s \<and>
   dev_log t = dev_log s @ [case interval_setup drv (time_unit s) (sample_interval s) of (iv, units, ns) \<Rightarrow>
     RunStreaming iv units 0 (c_uint32 (totalSamples s)) True 1 (ratio_mode_none drv) n]"
  by (auto simp: start_streaming_def Let_def keeps_session_def split: prod.splits if_splits)

lemma setup_channels_Ok_keeps: "setup_channels dev s = Ok t \<Longrightarrow> keeps_session s t"
  using frame_dev_keeps_session [OF setup_channels_frame [of s dev]] by simp

lemma setup_buffers_Ok_keeps: "setup_buffers dev n s = Ok t \<Longrightarrow> keeps_session s t"
  using frame_dev_keeps_session [OF setup_buffers_frame [of s dev n]] by simp

lemma start_config_fields [simp]:
  "driver (start_config n num filename tu si chans dig s) = driver s"
  "is_recording (start_config n num filename tu si chans dig s)"
  "csv (start_config n num filename tu si chans dig s) = csv s"
  "dev_log (start_config n num filename tu si chans dig s) = dev_log s"
  "totalSamples (start_config n num filename tu si chans dig s) = int n * num"
  "time_unit (start_config n num filename tu si chans dig s) = tu"
  "sample_interval (start_config n num filename tu si chans dig s) = si"
  "channels (start_config n num filename tu si chans dig s) = chans"
  "digital_channels (start_config n num filename tu si chans dig s) =
     (if dig \<noteq> [] \<and> has_digital_channels (driver s) then dig else [])"
  by (simp_all add: start_config_def Let_def)

lemma max_and_stream_Ok:
  assumes "read_max_adc dev s3 = Ok s4" "start_streaming dev n s4 = Ok s5" "driver s3 = Some drv"
  shows "keeps_session s3 s5 \<and> maxADC s5 = dev_max_adc dev \<and>
    dev_log s5 = dev_log s3 @ [MaximumValue,
      case interval_setup drv (time_unit s3) (sample_interval s3) of (iv, units, ns) \<Rightarrow>
        RunStreaming iv units 0 (c_uint32 (totalSamples s3)) True 1 (ratio_mode_none drv) n]"
proof -
  note m4 = read_max_adc_Ok [OF assms(1)]
  then have "driver s4 = Some drv" using assms(3) by (simp add: keeps_session_def)
  note r5 = start_streaming_Ok [OF assms(2) this]
  from m4 r5 show ?thesis by (simp add: keeps_session_def)
qed

lemma start_device_Ok_state:
  assumes "start_device dev n rs s0 = Ok t" "driver s0 = Some drv"
  shows "\<exists>s5. t = stream_loop s5 rs \<and> keeps_session s0 s5 \<and> maxADC s5 = dev_max_adc dev"
proof -
  from assms(1) obtain s1 s2 s3 s4 s5 where o: "open_unit dev s0 = Ok s1"
    and c: "setup_channels dev s1 = Ok s2" and b: "setup_buffers dev n s2 = Ok s3"
    and m: "read_max_adc dev s3 = Ok s4" and r: "start_streaming dev n s4 = Ok s5" and t: "t = stream_loop s5 rs"
    by (auto simp: start_device_Ok)
  have k3: "keeps_session s0 s3"
    using open_unit_Ok_keeps [OF o] setup_channels_Ok_keeps [OF c] setup_buffers_Ok_keeps [OF b]
    by (simp add: keeps_session_def)
  then have "driver s3 = Some drv" using assms(2) by (simp add: keeps_session_def)
  note ms = max_and_stream_Ok [OF m r this]
  with k3 t show ?thesis by (auto simp: keeps_session_def)
qed

lemma start_device_success:
  assumes "driver s0 = Some drv" "calls_ok dev"
  shows "\<exists>t. start_device dev n rs s0 = Ok t"
proof -
  obtain s1 where o: "open_unit dev s0 = Ok s1" and d1: "driver s1 = Some drv"
    using assms by (simp add: open_unit_def calls_ok_def)
  obtain s2 where c: "setup_channels_loop dev drv all_channels s1 = Ok s2"
    using setup_channels_loop_success [of all_channels dev drv s1] assms(2) by (auto simp: calls_ok_def)
  then have c': "setup_channels dev s1 = Ok s2" and d2: "driver s2 = Some drv"
    using d1 frame_devD [of s1 s2] setup_channels_loop_Ok [OF c] by (simp_all add: setup_channels_def)
  obtain s3 where b: "setup_buffers dev n s2 = Ok s3"
    using setup_buffers_success [OF _ d2, of dev n] assms(2) by (auto simp: calls_ok_def)
  then have d3: "driver s3 = Some drv"
    using setup_buffers_Ok_keeps [OF b] d2 by (simp add: keeps_session_def)
  obtain s4 where m: "read_max_adc dev s3 = Ok s4" and d4: "driver s4 = Some drv"
    using d3 assms(2) by (simp add: read_max_adc_def calls_ok_def Let_def assert_pico_ok_def)
  obtain s5 where "start_streaming dev n s4 = Ok s5"
    using d4 assms(2) by (cases "interval_setup drv (time_unit s4) (sample_interval s4)")
      (simp add: start_streaming_def calls_ok_def Let_def assert_pico_ok_def)
  with o c' b m show ?thesis by (auto simp: start_device_Ok)
qed

lemma channel_call_csv [simp]: "channel_call (s\<lparr>csv := c\<rparr>) = channel_call s"
  by (simp add: channel_call_def channel_setting_def fun_eq_iff split: sum.split)

lemma calls_ok_all_ok_device [simp]: "calls_ok ((all_ok_device m)\<lparr>fs_writable := w\<rparr>)" "calls_ok (all_ok_device m)"
  by (simp_all add: calls_ok_def all_ok_device_def)

subsection \<open>Properties of a session\<close>

text \<open>
  C14. Stopping when no recording is in progress does nothing: no device call,
  no change of state.
\<close>

theorem stop_recording_idle: "\<not> is_recording s \<Longrightarrow> stop_recording dev s = s"
  by (simp add: stop_recording_def)

theorem stop_recording_idle_witness:
  "\<not> is_recording (init_acq (Some ps3000a_drv)) \<and>
   stop_recording (all_ok_device 32512) (init_acq (Some ps3000a_drv)) = init_acq (Some ps3000a_drv)"
  using stop_recording_idle [of "init_acq (Some ps3000a_drv)" "all_ok_device 32512"]
  by (simp add: init_acq_def)

text \<open>
  C9. Stopping a recording always clears the flag and closes the file with
  every row written, whatever the device answers; it calls \<open>psStop\<close>, and calls
  \<open>psCloseUnit\<close> only when \<open>psStop\<close> succeeded: a failed stop leaves the unit open.
\<close>

theorem stop_recording_effect:
  assumes "is_recording s" "driver s = Some drv"
  shows "\<not> is_recording (stop_recording dev s) \<and> \<not> sink_open (csv (stop_recording dev s)) \<and>
    sink_rows (csv (stop_recording dev s)) = sink_rows (csv s) \<and>
    sink_flushed (csv (stop_recording dev s)) = length (sink_rows (csv s)) \<and>
    dev_log (stop_recording dev s) =
      dev_log s @ (if dev_stop dev = PICO_OK then [Stop, CloseUnit] else [Stop])"
  using assms stop_device_fields [of dev s] stop_device_log [of dev s]
  by (simp add: stop_recording_def Let_def)

theorem stop_recording_effect_witness:
  "dev_log (stop_recording ((all_ok_device 32512)\<lparr>dev_stop := 3\<rparr>)
      ((init_acq (Some ps3000a_drv))\<lparr>is_recording := True\<rparr>)) = [Stop] \<and>
   \<not> is_recording (stop_recording ((all_ok_device 32512)\<lparr>dev_stop := 3\<rparr>)
      ((init_acq (Some ps3000a_drv))\<lparr>is_recording := True\<rparr>))"
  using stop_recording_effect [of "(init_acq (Some ps3000a_drv))\<lparr>is_recording := True\<rparr>" ps3000a_drv
      "(all_ok_device 32512)\<lparr>dev_stop := 3\<rparr>"]
  by (simp add: init_acq_def all_ok_device_def)

text \<open>
  C3. \<open>stop_recording\<close>, called from the GUI thread while the acquisition
  thread is in the polling loop, does not end the loop: it sets no flag the loop reads,
  and once the file is closed every callback with samples raises inside ctypes before
  \<open>nextSample\<close> advances. Whatever the driver answers afterwards (no callback, or batches
  with samples), the loop guard stays true and no row is written: the thread never
  returns. (With \<open>maxADC = 0\<close> the callback writes nothing and still advances.)
\<close>

theorem stop_during_streaming_never_finishes:
  assumes "is_recording s" "loop_active s" "maxADC s \<noteq> 0" "\<forall>r \<in> set rs. nonempty_batch r"
  shows "loop_active (stream_loop (stop_recording dev s) rs) \<and>
    nextSample (stream_loop (stop_recording dev s) rs) = nextSample s \<and>
    sink_rows (csv (stream_loop (stop_recording dev s) rs)) = sink_rows (csv s)"
proof -
  note f = stop_recording_loop_fields [OF assms(1), of dev]
  then have "\<not> sink_open (csv (stop_recording dev s))" "maxADC (stop_recording dev s) \<noteq> 0"
    using assms(3) by simp_all
  from closed_stream_loop [OF this assms(4)] f assms(2) show ?thesis by simp
qed

theorem stop_during_streaming_never_finishes_witness:
  "loop_active (stream_loop (stop_recording (all_ok_device 32512) demo_acq) [demo_reply, NoCallback 0, demo_reply]) \<and>
   nextSample (stream_loop (stop_recording (all_ok_device 32512) demo_acq) [demo_reply, NoCallback 0, demo_reply]) = 0"
proof -
  have "is_recording demo_acq" "loop_active demo_acq"
    by (simp_all add: demo_acq_def init_acq_def loop_active_def)
  then show ?thesis
    using stop_during_streaming_never_finishes [of demo_acq "[demo_reply, NoCallback 0, demo_reply]" "all_ok_device 32512"]
    by (simp add: demo_reply_def)
qed

text \<open>
  C10. Power-source recovery does not open the unit: when \<open>psOpenUnit\<close> answers
  282 or 286 and \<open>psChangePowerSource\<close> succeeds, \<open>start_recording\<close> goes on with the
  open status still a failure code, and \<open>psOpenUnit\<close> was called once.
\<close>

theorem open_unit_power_recovery:
  assumes "driver s = Some drv" "power_status (dev_open dev)" "dev_power dev = PICO_OK"
  shows "\<exists>t. open_unit dev s = Ok t \<and> status t ''openunit'' = Some (dev_open dev) \<and>
    dev_open dev \<noteq> PICO_OK \<and> dev_log t = dev_log s @ [OpenUnit, ChangePowerSource (dev_open dev)]"
  using assms by (auto simp: open_unit_def power_status_def Let_def)

theorem open_unit_power_recovery_witness:
  "\<exists>t. open_unit ((all_ok_device 32512)\<lparr>dev_open := 286\<rparr>) (init_acq (Some ps3000a_drv)) = Ok t \<and>
     status t ''openunit'' = Some 286 \<and> dev_log t = [OpenUnit, ChangePowerSource 286]"
  using open_unit_power_recovery [of "init_acq (Some ps3000a_drv)" ps3000a_drv "(all_ok_device 32512)\<lparr>dev_open := 286\<rparr>"]
  by (simp add: power_status_def all_ok_device_def init_acq_def)

text \<open>
  C6. A failed start is not unwound: when \<open>start_recording\<close> raises, the object stays
  marked as recording. If the file could be created, it stays open holding only its
  header row, whichever device step failed; if \<open>open(filename, 'w')\<close> itself raised,
  the exception is \<open>OSError\<close>, no device call was made and \<open>csvfile\<close> is the one from
  before.
\<close>

theorem start_failure_leaves_file_open:
  assumes "start_recording dev n num filename tu si chans dig rs s = Exc e t"
  shows "is_recording t \<and>
    (if fs_writable dev filename
     then csv t = csv_open filename (csv_header tu chans (digital_channels t))
     else e = OSError \<and> csv t = csv s \<and> dev_log t = dev_log s)"
proof (cases "fs_writable dev filename")
  case True
  let ?s0 = "start_config n num filename tu si chans dig s"
  let ?s1 = "?s0\<lparr>csv := csv_open filename (csv_header tu chans (digital_channels ?s0))\<rparr>"
  from assms True have "start_device dev n rs ?s1 = Exc e t" by (simp add: start_recording_cases)
  from start_device_Exc_keeps [OF this] True show ?thesis by (simp add: keeps_session_def)
next
  case False
  with assms have "e = OSError \<and> t = start_config n num filename tu si chans dig s"
    by (simp add: start_recording_cases)
  with False show ?thesis by simp
qed

theorem start_failure_leaves_file_open_witness:
  "(\<exists>e t. start_recording ((all_ok_device 32512)\<lparr>dev_open := 3\<rparr>) 3 1 ''acquisition.csv'' ''ms'' 0.25
        (\<lambda>c. c = ChA) [] [] (init_acq (Some ps3000a_drv)) = Exc e t \<and>
     is_recording t \<and> sink_open (csv t) \<and> sink_rows (csv t) = [csv_header ''ms'' (\<lambda>c. c = ChA) []]) \<and>
   (\<exists>t. start_recording ((all_ok_device 32512)\<lparr>fs_writable := (\<lambda>_. False)\<rparr>) 3 1 ''acquisition.csv'' ''ms'' 0.25
        (\<lambda>c. c = ChA) [] [] (init_acq (Some ps3000a_drv)) = Exc OSError t \<and>
     is_recording t \<and> \<not> sink_open (csv t) \<and> dev_log t = [])"
proof -
  let ?d1 = "(all_ok_device 32512)\<lparr>dev_open := 3\<rparr>"
  let ?d2 = "(all_ok_device 32512)\<lparr>fs_writable := (\<lambda>_. False)\<rparr>"
  let ?go = "\<lambda>d. start_recording d 3 1 ''acquisition.csv'' ''ms'' 0.25 (\<lambda>c. c = ChA) [] []
        (init_acq (Some ps3000a_drv))"
  obtain t1 where t1: "?go ?d1 = Exc (PicoSDKError 3) t1"
    by (simp add: start_recording_cases start_device_def open_unit_def all_ok_device_def init_acq_def
        power_status_def Let_def)
  obtain t2 where t2: "?go ?d2 = Exc OSError t2"
    by (simp add: start_recording_cases all_ok_device_def)
  have "digital_channels t1 = []"
    using start_recording_cases [of ?d1 3 1 "''acquisition.csv''" "''ms''" "0.25" "\<lambda>c. c = ChA" "[]" "[]"
        "init_acq (Some ps3000a_drv)"] t1 start_device_Exc_keeps
    by (simp add: keeps_session_def init_acq_def has_digital_channels_def all_ok_device_def)
  moreover note start_failure_leaves_file_open [OF t1] start_failure_leaves_file_open [OF t2]
  ultimately show ?thesis using t1 t2
    by (auto simp: all_ok_device_def init_acq_def closed_sink_def)
qed

text \<open>
  C8. The order of the vendor calls of a session: with a device that accepts every
  call and a file name the file system accepts, \<open>start_recording\<close> returns after
  opening the unit once, configuring channels A, B, C, D in this order, registering one
  buffer per enabled analog channel (and the two digital ports only when digital
  capture is active), reading the ADC maximum, starting the stream with the requested
  sample cap wrapped to 32 bits, and then polling at most once per driver reply.
\<close>

theorem start_recording_call_order:
  assumes "driver s = Some drv" "w filename"
  shows "\<exists>t k. start_recording ((all_ok_device m)\<lparr>fs_writable := w\<rparr>) n num filename tu si chans dig rs s = Ok t \<and>
    k \<le> length rs \<and> maxADC t = m \<and>
    dev_log t = dev_log s @ OpenUnit # map (channel_call (start_config n num filename tu si chans dig s) drv) all_channels @
      map (\<lambda>b. SetDataBuffers b n (ratio_mode_none drv))
        (map BufCh (filter chans all_channels) @
         (if dig \<noteq> [] \<and> has_digital_channels (Some drv) then [BufDigital0, BufDigital1] else [])) @
      [MaximumValue, case interval_setup drv tu si of (iv, units, ns) \<Rightarrow>
         RunStreaming iv units 0 (c_uint32 (int n * num)) True 1 (ratio_mode_none drv) n] @
      replicate k GetStreamingLatestValues"
proof -
  let ?d = "(all_ok_device m)\<lparr>fs_writable := w\<rparr>" and ?c = "start_config n num filename tu si chans dig s"
  let ?s0 = "?c\<lparr>csv := csv_open filename (csv_header tu chans (digital_channels ?c))\<rparr>"
  have go: "start_recording ?d n num filename tu si chans dig rs s = start_device ?d n rs ?s0"
    using assms(2) by (simp add: start_recording_cases)
  have d0: "driver ?s0 = Some drv" using assms(1) by simp
  obtain t where ok: "start_device ?d n rs ?s0 = Ok t"
    using start_device_success [OF d0] by fastforce
  then obtain s1 s2 s3 s4 s5 where o: "open_unit ?d ?s0 = Ok s1"
    and c: "setup_channels ?d s1 = Ok s2" and b: "setup_buffers ?d n s2 = Ok s3"
    and m: "read_max_adc ?d s3 = Ok s4" and r: "start_streaming ?d n s4 = Ok s5" and t: "t = stream_loop s5 rs"
    by (auto simp: start_device_Ok)
  have s1: "s1 = ?s0\<lparr>dev_log := dev_log ?s0 @ [OpenUnit], status := (status ?s0)(''openunit'' \<mapsto> 0)\<rparr>"
    using o assms by (simp add: open_unit_def all_ok_device_def)
  have c': "setup_channels_loop ?d drv all_channels s1 = Ok s2"
    using c s1 assms by (simp add: setup_channels_def)
  note c2 = setup_channels_loop_Ok [OF c']
  note f2 = frame_devD [of s1 s2]
  from setup_buffers_Ok [OF b] c2 f2 s1 assms obtain drv' where b3: "driver s2 = Some drv'"
    "dev_log s3 = dev_log s2 @ map (\<lambda>b. SetDataBuffers b n (ratio_mode_none drv'))
       (map BufCh (filter (channels s2) all_channels) @ (if digital_active s2 then [BufDigital0, BufDigital1] else []))"
    by blast
  have same: "drv' = drv" "channels s2 = chans"
    "digital_active s2 \<longleftrightarrow> dig \<noteq> [] \<and> has_digital_channels (Some drv)"
    using b3 c2 f2 s1 assms by (auto simp: digital_active_def)
  have k3: "keeps_session ?s0 s3"
    using open_unit_Ok_keeps [OF o] setup_channels_Ok_keeps [OF c] setup_buffers_Ok_keeps [OF b]
    by (simp add: keeps_session_def)
  then have d3: "driver s3 = Some drv" using assms by (simp add: keeps_session_def)
  note ms = max_and_stream_Ok [OF m r d3]
  obtain k where k: "k \<le> length rs" "dev_log t = dev_log s5 @ replicate k GetStreamingLatestValues"
    using stream_loop_dev_log [of rs s5] t by blast
  have ch: "map (channel_call ?s0 drv) all_channels = map (channel_call ?c drv) all_channels"
    by simp
  have "maxADC t = m"
    using ms t stream_loop_static [of s5 rs] by (simp add: loop_static_def all_ok_device_def)
  moreover have "dev_log t = dev_log s @ OpenUnit # map (channel_call ?c drv) all_channels @
      map (\<lambda>b. SetDataBuffers b n (ratio_mode_none drv))
        (map BufCh (filter chans all_channels) @
         (if dig \<noteq> [] \<and> has_digital_channels (Some drv) then [BufDigital0, BufDigital1] else [])) @
      [MaximumValue, case interval_setup drv tu si of (iv, units, ns) \<Rightarrow>
         RunStreaming iv units 0 (c_uint32 (int n * num)) True 1 (ratio_mode_none drv) n] @
      replicate k GetStreamingLatestValues"
    using k ms b3 same c2 s1 k3 ch by (simp add: keeps_session_def)
  ultimately show ?thesis using ok go k by auto
qed

lemma interval_setup_quarter_ms: "interval_setup ps3000a_drv ''ms'' (1 / 4) = (250, 3, 250000)"
  by (simp add: interval_setup_def c_int32_def)

theorem start_recording_call_order_witness:
  "\<exists>t. start_recording ((all_ok_device 32512)\<lparr>fs_writable := (\<lambda>f. f = ''acquisition.csv'')\<rparr>)
         3 1 ''acquisition.csv'' ''ms'' 0.25 (\<lambda>c. c = ChA) [7] []
         (init_acq (Some ps3000a_drv)) = Ok t \<and>
     dev_log t = OpenUnit #
       map (channel_call (start_config 3 1 ''acquisition.csv'' ''ms'' 0.25 (\<lambda>c. c = ChA) [7]
              (init_acq (Some ps3000a_drv))) ps3000a_drv) all_channels @
       [SetDataBuffers (BufCh ChA) 3 0, MaximumValue, RunStreaming 250 3 0 3 True 1 0 3]"
  using start_recording_call_order [of "init_acq (Some ps3000a_drv)" ps3000a_drv "\<lambda>f. f = ''acquisition.csv''"
      "''acquisition.csv''" 32512 3 1 "''ms''" "0.25" "\<lambda>c. c = ChA" "[7]" "[]"]
  by (simp add: init_acq_def interval_setup_quarter_ms all_channels_def has_digital_channels_def
      ratio_mode_none_def dict_get_def picosdk_ps3000a_def c_uint32_def) blast

text \<open>
  C11. The default sample cap does not reach the driver: the module-level
  \<open>start_recording\<close> asks for \<open>10000 * 999999999\<close> samples, which the loop compares
  against in full, but the \<open>uint32\<close> argument of \<open>psRunStreaming\<close> receives that
  number modulo \<open>2^32\<close>, 1316124912.
\<close>

theorem default_sample_cap_wraps:
  assumes "start_recording_global dev tu si chans filename dig rs s = Ok t"
  shows "totalSamples t = 9999999990000 \<and>
    (\<exists>iv units rm. RunStreaming iv units 0 1316124912 True 1 rm 10000 \<in> set (dev_log t))"
proof -
  let ?c = "start_config 10000 999999999 filename tu si chans dig s"
  let ?s0 = "?c\<lparr>csv := csv_open filename (csv_header tu chans (digital_channels ?c))\<rparr>"
  from assms obtain drv where drv: "driver s = Some drv"
    and ok: "start_recording dev 10000 999999999 filename tu si chans dig rs s = Ok t"
    by (auto simp: start_recording_global_def split: option.splits)
  have fw: "fs_writable dev filename"
    using ok by (auto simp: start_recording_cases split: if_splits)
  from ok have ok': "start_device dev 10000 rs ?s0 = Ok t"
    by (simp only: start_recording_cases fw if_True)
  from ok' obtain s1 s2 s3 s4 s5 where o: "open_unit dev ?s0 = Ok s1"
    and c: "setup_channels dev s1 = Ok s2" and b: "setup_buffers dev 10000 s2 = Ok s3"
    and m: "read_max_adc dev s3 = Ok s4" and r: "start_streaming dev 10000 s4 = Ok s5" and t: "t = stream_loop s5 rs"
    by (auto simp: start_device_Ok)
  have k3: "keeps_session ?s0 s3"
    using open_unit_Ok_keeps [OF o] setup_channels_Ok_keeps [OF c] setup_buffers_Ok_keeps [OF b]
    by (simp add: keeps_session_def)
  then have d3: "driver s3 = Some drv" and n3: "totalSamples s3 = 9999999990000"
    using drv by (simp_all add: keeps_session_def)
  note ms = max_and_stream_Ok [OF m r d3]
  obtain k where k: "dev_log t = dev_log s5 @ replicate k GetStreamingLatestValues"
    using stream_loop_dev_log [of rs s5] t by blast
  have wrap: "c_uint32 9999999990000 = 1316124912"
    by (simp add: c_uint32_def)
  have "totalSamples t = 9999999990000"
    using ms n3 t stream_loop_static [of s5 rs] by (simp add: loop_static_def keeps_session_def)
  moreover have "RunStreaming (fst (interval_setup drv (time_unit s3) (sample_interval s3)))
      (fst (snd (interval_setup drv (time_unit s3) (sample_interval s3)))) 0 1316124912 True 1
      (ratio_mode_none drv) 10000 \<in> set (dev_log t)"
    using ms n3 k wrap by (simp split: prod.split)
  ultimately show ?thesis by blast
qed

theorem default_sample_cap_wraps_witness:
  "\<exists>t. start_recording_global (all_ok_device 32512) ''ms'' 0.25 (\<lambda>c. c = ChA) ''acquisition.csv'' [] []
         (init_acq (Some ps3000a_drv)) = Ok t \<and>
     totalSamples t = 9999999990000 \<and>
     (\<exists>iv units rm. RunStreaming iv units 0 1316124912 True 1 rm 10000 \<in> set (dev_log t))"
proof -
  let ?c = "start_config 10000 999999999 ''acquisition.csv'' ''ms'' 0.25 (\<lambda>c. c = ChA) [] (init_acq (Some ps3000a_drv))"
  let ?s0 = "?c\<lparr>csv := csv_open ''acquisition.csv'' (csv_header ''ms'' (\<lambda>c. c = ChA) (digital_channels ?c))\<rparr>"
  have "driver ?s0 = Some ps3000a_drv" by (simp add: init_acq_def)
  from start_device_success [OF this] obtain t where t: "start_device (all_ok_device 32512) 10000 [] ?s0 = Ok t"
    by fastforce
  have fw: "fs_writable (all_ok_device 32512) ''acquisition.csv''" by (simp add: all_ok_device_def)
  from t have "start_recording (all_ok_device 32512) 10000 999999999 ''acquisition.csv'' ''ms'' 0.25
      (\<lambda>c. c = ChA) [] [] (init_acq (Some ps3000a_drv)) = Ok t"
    by (simp only: start_recording_cases fw if_True)
  then have g: "start_recording_global (all_ok_device 32512) ''ms'' 0.25 (\<lambda>c. c = ChA) ''acquisition.csv'' [] []
         (init_acq (Some ps3000a_drv)) = Ok t"
    by (simp add: start_recording_global_def init_acq_def)
  with default_sample_cap_wraps [OF g] show ?thesis by blast
qed

text \<open>
  C15. Without a scope driver the module-level \<open>start_recording\<close> raises
  \<open>RuntimeError\<close> and changes nothing. The method of the class, called directly, marks
  the object as recording and makes no device call; if the file can be created it
  creates it with its header and raises \<open>AttributeError\<close> at \<open>psOpenUnit\<close>, otherwise
  \<open>open\<close> raises \<open>OSError\<close> and the old file is kept.
\<close>

theorem start_without_driver:
  assumes "driver s = None"
  shows "start_recording_global dev tu si chans filename dig rs s = Exc RuntimeError s \<and>
    (\<exists>t. start_recording dev n num filename tu si chans dig rs s =
           Exc (if fs_writable dev filename then AttributeError else OSError) t \<and>
       dev_log t = dev_log s \<and> is_recording t \<and>
       csv t = (if fs_writable dev filename then csv_open filename (csv_header tu chans []) else csv s))"
  using assms
  by (simp add: start_recording_global_def start_recording_cases start_device_def open_unit_def
      has_digital_channels_def)

theorem start_without_driver_witness:
  "start_recording_global (all_ok_device 32512) ''ms'' 0.25 (\<lambda>c. c = ChA) ''acquisition.csv'' [] [] (init_acq None) =
     Exc RuntimeError (init_acq None) \<and>
   (\<exists>t. start_recording (all_ok_device 32512) 3 1 ''acquisition.csv'' ''ms'' 0.25 (\<lambda>c. c = ChA) [] []
          (init_acq None) = Exc AttributeError t)"
  using start_without_driver [of "init_acq None" "all_ok_device 32512" "''ms''" "0.25" "\<lambda>c. c = ChA"
      "''acquisition.csv''" "[]" "[]" 3 1]
  by (simp add: init_acq_def all_ok_device_def) blast

subsection \<open>Findings\<close>

text \<open>
  The comment of \<open>_has_digital_channels\<close> (line 581) says that the PS3000A has digital
  channels, but neither \<open>PS3000ADriver\<close> nor \<open>PS4000ADriver\<close> defines
  \<open>ps_DIGITAL_PORT0/1\<close>: \<open>start_recording\<close> drops every requested digital channel, so
  the header has no \<open>D<n>\<close> column and no digital buffer is registered.
\<close>

lemma shipped_drivers_drop_digital:
  assumes "PS3000ADriver ps = Some drv \<or> PS4000ADriver ps = Some drv" "driver s = Some drv"
  shows "digital_channels (start_config n num filename tu si chans dig s) = [] \<and>
    \<not> digital_active (start_config n num filename tu si chans dig s)"
  using assms PS3000ADriver_no_digital [of ps drv] PS4000ADriver_no_digital [of ps drv]
  by (auto simp: digital_active_def)

text \<open>
  The comment at line 463 says the first-sample signal is for the very first sample.
  After a Stop before the first sample the file is closed, so every callback raises
  before \<open>nextSample\<close> leaves 0, and each callback emits the signal anew.
\<close>

lemma stop_before_first_sample_reemits:
  assumes "is_recording s" "loop_active s" "maxADC s \<noteq> 0" "nextSample s = 0" "first_sample_hook s"
    and "\<forall>r \<in> set rs. nonempty_batch r"
  shows "first_sample_emits (stream_loop (stop_recording dev s) rs) =
    first_sample_emits s + length (filter is_callback rs)"
proof -
  note f = stop_recording_loop_fields [OF assms(1), of dev]
  note g = stop_recording_signal_fields [of dev s]
  with f assms show ?thesis by (simp add: closed_stream_loop_emits)
qed

end
