(* ===== verification/Gui.thy ===== *)
theory Gui
  imports Session
begin

text \<open>
  The parts of the Qt front end (src/picoscope-gui-app/src/gui.py) that decide what
  reaches the acquisition object; widgets, layout and signals are not modelled.
  \<^item> \<open>ps3000a_range_names\<close>/\<open>ps4000a_range_names\<close>: the names offered in each channel's
    range combo box (\<open>MainWindow.__init__\<close>, lines 99--124); \<open>default_range\<close> and
    \<open>combo_text\<close>: the entry selected at start (lines 126--140).
  \<^item> \<open>gui_digital_selection\<close>: the digital channels passed on (lines 234--239).
  \<^item> \<open>set_ranges\<close> and \<open>acquisition_thread_run\<close>: \<open>AcquisitionThread.run\<close>
    (lines 38--60): connect the first-sample signal, store each channel's range name
    through \<open>set_voltage_range\<close> in the order A, B, C, D, then call the module-level
    \<open>start_recording\<close>. An exception ends the thread.
  \<^item> \<open>timer_fields\<close>/\<open>timer_text\<close>: the elapsed-time label (\<open>update_timer\<close>,
    lines 278--285), from the milliseconds since the first sample.
\<close>

definition ps3000a_range_names :: "(string \<times> int) list \<Rightarrow> string list" where
  "ps3000a_range_names enum =
     (case find (\<lambda>k. py_in ''MAX'' k) (map fst enum) of
        Some mk \<Rightarrow> filter (\<lambda>k. k \<noteq> mk) (map fst enum)
      | None \<Rightarrow> map fst enum)"

definition ps4000a_range_names :: "(string \<times> int) list \<Rightarrow> string list" where
  "ps4000a_range_names enum =
     filter (\<lambda>k. \<not> py_in ''MAX'' (py_upper k) \<and>
                 list_ex (\<lambda>u. py_in u (py_upper k)) [''MV'', ''V''] \<and>
                 \<not> py_in ''CURRENT_CLAMP'' (py_upper k) \<and>
                 list_ex (\<lambda>p. py_in p (py_upper k)) [''X1_PROBE'', ''D9_BNC'', ''DIFFERENTIAL'', ''1KV''])
       (map fst enum)"

definition default_range :: "string list \<Rightarrow> string option" where
  "default_range names =
     (case find (\<lambda>n. py_in ''5V'' n \<and> \<not> py_in ''50V'' n \<and> \<not> py_in ''500MV'' n) names of
        Some n \<Rightarrow> Some n
      | None \<Rightarrow> find (\<lambda>n. py_in ''20V'' n \<and> \<not> py_in ''200V'' n) names)"

definition combo_text :: "string list \<Rightarrow> string" where
  "combo_text names =
     (case default_range names of
        Some n \<Rightarrow> n
      | None \<Rightarrow> (case names of [] \<Rightarrow> [] | n # _ \<Rightarrow> n))"

definition gui_digital_selection :: "nat \<Rightarrow> (nat \<Rightarrow> bool) \<Rightarrow> nat list" where
  "gui_digital_selection model_index checked =
     (if model_index = 0 then filter checked [0..<16] else [])"

fun set_ranges :: "(channel \<Rightarrow> string) \<Rightarrow> (channel \<Rightarrow> real) \<Rightarrow> channel list \<Rightarrow> acq \<Rightarrow> acq outcome" where
  "set_ranges rails offs [] s = Ok s"
| "set_ranges rails offs (ch # chs) s =
     obind (set_voltage_range ch (RangeValueStr (rails ch)) (offs ch) s) (set_ranges rails offs chs)"

definition acquisition_thread_run ::
  "device \<Rightarrow> string \<Rightarrow> real \<Rightarrow> (channel \<Rightarrow> bool) \<Rightarrow> string \<Rightarrow> nat list \<Rightarrow>
   (channel \<Rightarrow> string) \<Rightarrow> (channel \<Rightarrow> real) \<Rightarrow> poll_reply list \<Rightarrow> acq \<Rightarrow> acq outcome" where
  "acquisition_thread_run dev tu si chans filename dig rails offs replies s =
     obind (set_ranges rails offs all_channels (s\<lparr>first_sample_hook := True\<rparr>))
       (start_recording_global dev tu si chans filename dig replies)"

definition timer_fields :: "int \<Rightarrow> int \<times> int \<times> int" where
  "timer_fields elapsed = ((elapsed div 60000) mod 60, (elapsed div 1000) mod 60, elapsed mod 1000)"

definition zpad :: "nat \<Rightarrow> string \<Rightarrow> string" where
  "zpad w str = replicate (w - length str) (CHR ''0'') @ str"

definition timer_text :: "int \<Rightarrow> string" where
  "timer_text elapsed =
     (case timer_fields elapsed of
        (m, sec, ms) \<Rightarrow>
          ''Elapsed Time: '' @ zpad 2 (nat_str (nat m)) @ '':'' @ zpad 2 (nat_str (nat sec)) @ ''.''
          @ zpad 3 (nat_str (nat ms)))"

subsection \<open>Lemmas\<close>

lemma length_nat_str: "0 < k \<Longrightarrow> n < 10 ^ k \<Longrightarrow> length (nat_str n) \<le> k"
proof (induction n arbitrary: k rule: nat_str.induct)
  case (1 n)
  show ?case
  proof (cases "n < 10")
    case True
    with "1.prems" show ?thesis by (simp add: nat_str.simps)
  next
    case False
    have "k \<noteq> 1" using "1.prems" False by auto
    then have k: "1 < k" using "1.prems" by simp
    have "n div 10 < 10 ^ (k - 1)"
      using "1.prems" k by (simp add: less_mult_imp_div_less power_eq_if)
    then have "length (nat_str (n div 10)) \<le> k - 1"
      using "1.IH" False k by simp
    with False k show ?thesis by (simp add: nat_str.simps [of n])
  qed
qed

lemma length_zpad: "length str \<le> w \<Longrightarrow> length (zpad w str) = w"
  by (simp add: zpad_def)

lemma timer_fields_bounds:
  "timer_fields e = (m, sec, ms) \<Longrightarrow> 0 \<le> m \<and> m < 60 \<and> 0 \<le> sec \<and> sec < 60 \<and> 0 \<le> ms \<and> ms < 1000"
  by (auto simp: timer_fields_def)

lemma set_ranges_Ok:
  assumes "\<forall>ch \<in> set chs. convert_range_string_to_constant (driver s) (rails ch) = Inr (rc ch)"
  shows "set_ranges rails offs chs s =
    Ok (s\<lparr>voltage_range := (\<lambda>ch. if ch \<in> set chs then RangeConst (rc ch) else voltage_range s ch),
          voltage_offset := (\<lambda>ch. if ch \<in> set chs then offs ch else voltage_offset s ch)\<rparr>)"
  using assms
proof (induction chs arbitrary: s)
  case Nil
  then show ?case by simp
next
  case (Cons ch chs)
  let ?s1 = "s\<lparr>voltage_range := (voltage_range s)(ch := RangeConst (rc ch)),
                voltage_offset := (voltage_offset s)(ch := offs ch)\<rparr>"
  have "set_voltage_range ch (RangeValueStr (rails ch)) (offs ch) s = Ok ?s1"
    using Cons.prems by (simp add: set_voltage_range_def)
  moreover have "set_ranges rails offs chs ?s1 =
    Ok (?s1\<lparr>voltage_range := (\<lambda>c. if c \<in> set chs then RangeConst (rc c) else voltage_range ?s1 c),
          voltage_offset := (\<lambda>c. if c \<in> set chs then offs c else voltage_offset ?s1 c)\<rparr>)"
    using Cons.IH [of ?s1] Cons.prems by simp
  ultimately show ?case by (simp add: fun_eq_iff)
qed

lemma digits_val_snoc: "digits_val (xs @ [c]) = 10 * digits_val xs + (ord c - 48)"
  by (simp add: digits_val_def)

lemma ord_digit_char: "d < 10 \<Longrightarrow> ord (char_of (48 + d)) = 48 + d"
  by (simp add: ord_def)

lemma nat_str_digits: "digits_val (nat_str n) = n"
proof (induction n rule: nat_str.induct)
  case (1 n)
  show ?case
  proof (cases "n < 10")
    case True
    then show ?thesis by (simp add: nat_str.simps digits_val_def ord_digit_char)
  next
    case False
    have "n mod 10 < 10" by simp
    with "1.IH" False show ?thesis
      by (simp add: nat_str.simps [of n] digits_val_snoc ord_digit_char)
  qed
qed

lemma digits_val_zeros: "digits_val (replicate k (CHR ''0'') @ xs) = digits_val xs"
  by (induction k) (simp_all add: digits_val_def ord_def)

lemma zpad_nat_str_inj:
  "zpad w (nat_str a) = zpad w (nat_str b) \<Longrightarrow> a = b"
  by (metis zpad_def digits_val_zeros nat_str_digits)

lemma seconds_of_elapsed: "(e :: int) div 1000 mod 60 = e mod 60000 div 1000"
proof -
  have "e mod 60000 = e mod (1000 * 60)" by simp
  also have "\<dots> = 1000 * (e div 1000 mod 60) + e mod 1000" using zmod_zmult2_eq [of 60 e 1000] by simp
  finally have "e mod 60000 div 1000 = (1000 * (e div 1000 mod 60) + e mod 1000) div 1000" by simp
  also have "\<dots> = e div 1000 mod 60" by simp
  finally show ?thesis by simp
qed

lemma elapsed_decompose: "(x :: int) = 60000 * (x div 60000) + 1000 * (x mod 60000 div 1000) + x mod 1000"
proof -
  have "(1000 :: int) dvd 60000" by simp
  then have "x mod 60000 mod 1000 = x mod 1000" by (rule mod_mod_cancel)
  moreover have "x mod 60000 = 1000 * (x mod 60000 div 1000) + x mod 60000 mod 1000" by simp
  moreover have "x = 60000 * (x div 60000) + x mod 60000" by simp
  ultimately show ?thesis by linarith
qed

lemma timer_fields_within_hour:
  assumes "0 \<le> e" "e < 3600000"
  shows "timer_fields e = (e div 60000, e mod 60000 div 1000, e mod 1000)"
proof -
  have "e div 60000 < 60" using assms by simp
  then show ?thesis using assms by (simp add: timer_fields_def seconds_of_elapsed)
qed

subsection \<open>Properties of the front end\<close>

text \<open>
  C17. The elapsed-time label always has the same width: minutes and seconds
  on two digits, milliseconds on three.
\<close>

theorem timer_text_width: "length (timer_text e) = 23"
proof -
  obtain m sec ms where f: "timer_fields e = (m, sec, ms)" by (metis prod_cases3)
  note b = timer_fields_bounds [OF f]
  have "length (nat_str (nat m)) \<le> 2" "length (nat_str (nat sec)) \<le> 2" "length (nat_str (nat ms)) \<le> 3"
    using b by (auto intro!: length_nat_str)
  then show ?thesis by (simp add: timer_text_def f length_zpad)
qed

text \<open>
  C16. Within the first hour the label shows the time since the first sample: its
  minutes, seconds and milliseconds are those of the elapsed time
  (\<open>60000 m + 1000 s + ms\<close> is the elapsed time), so two different elapsed times
  within the hour never show the same label.
\<close>

theorem timer_text_within_hour:
  assumes "0 \<le> e" "e < 3600000" "0 \<le> e'" "e' < 3600000"
  shows "(\<exists>m sec ms. timer_fields e = (m, sec, ms) \<and> e = 60000 * m + 1000 * sec + ms) \<and>
    (timer_text e = timer_text e' \<longleftrightarrow> e = e')"
proof -
  have inj: "timer_text e = timer_text e' \<Longrightarrow> e = e'"
  proof -
    assume eq: "timer_text e = timer_text e'"
    obtain m sec ms where f: "timer_fields e = (m, sec, ms)" by (metis prod_cases3)
    obtain m' sec' ms' where f': "timer_fields e' = (m', sec', ms')" by (metis prod_cases3)
    note b = timer_fields_bounds [OF f] and b' = timer_fields_bounds [OF f']
    have l: "length (nat_str (nat m)) \<le> 2" "length (nat_str (nat sec)) \<le> 2" "length (nat_str (nat ms)) \<le> 3"
      "length (nat_str (nat m')) \<le> 2" "length (nat_str (nat sec')) \<le> 2" "length (nat_str (nat ms')) \<le> 3"
      using b b' by (auto intro!: length_nat_str)
    from eq l have "zpad 2 (nat_str (nat m)) = zpad 2 (nat_str (nat m')) \<and>
        zpad 2 (nat_str (nat sec)) = zpad 2 (nat_str (nat sec')) \<and>
        zpad 3 (nat_str (nat ms)) = zpad 3 (nat_str (nat ms'))"
      by (simp add: timer_text_def f f' length_zpad)
    then have "m = m'" "sec = sec'" "ms = ms'"
      using b b' by (auto dest!: zpad_nat_str_inj)
    then show "e = e'"
      using f f' timer_fields_within_hour [OF assms(1,2)] timer_fields_within_hour [OF assms(3,4)]
        elapsed_decompose [of e] elapsed_decompose [of e'] by simp
  qed
  show ?thesis
    using timer_fields_within_hour [OF assms(1,2)] elapsed_decompose [of e] inj by auto
qed

theorem timer_text_within_hour_witness:
  "timer_text 61250 \<noteq> timer_text 1250 \<and> timer_fields 61250 = (1, 1, 250)"
  using timer_text_within_hour [of 61250 1250] by (simp add: timer_fields_def)

text \<open>
  C13. Every range name the PS3000A window offers is a key of the driver's range
  dictionary, so the resolver returns its dictionary value (the first branch of
  \<open>_convert_range_string_to_constant\<close>); the \<open>MAX_RANGES\<close> entry is not offered.
\<close>

theorem gui_ps3000a_names_resolve:
  assumes "k \<in> set (ps3000a_range_names (ps_RANGE drv))"
  shows "\<exists>c. map_of (ps_RANGE drv) k = Some c \<and> convert_range_string_to_constant (Some drv) k = Inr c"
proof -
  have "k \<in> fst ` set (ps_RANGE drv)"
    using assms by (auto simp: ps3000a_range_names_def split: option.splits)
  then obtain c where "map_of (ps_RANGE drv) k = Some c"
    by (metis map_of_eq_None_iff not_None_eq)
  then show ?thesis by (simp add: convert_range_string_to_constant_def)
qed

theorem gui_ps3000a_names_resolve_witness:
  "convert_range_string_to_constant (Some ps3000a_drv) ''PS3000A_5V'' = Inr 8"
proof -
  have "''PS3000A_5V'' \<in> set (ps3000a_range_names (ps_RANGE ps3000a_drv))"
    by (simp add: ps3000a_range_names_def picosdk_ps3000a_def)
  from gui_ps3000a_names_resolve [OF this] show ?thesis
    by (simp add: picosdk_ps3000a_def)
qed

text \<open>
  C12. The range chosen in the window reaches the device: when every channel's
  combo text is a key of the driver's range dictionary, \<open>AcquisitionThread.run\<close> stores
  the resolved constants and offsets, and the \<open>psSetChannel\<close> call that
  \<open>start_recording\<close> then makes for an enabled channel carries that constant and offset
  (a disabled channel gets \<open>ps_20V\<close> and offset 0).
\<close>

theorem gui_range_reaches_device:
  assumes "driver s = Some drv" "\<forall>ch. map_of (ps_RANGE drv) (rails ch) = Some (rc ch)"
  shows "\<exists>t. set_ranges rails offs all_channels (s\<lparr>first_sample_hook := True\<rparr>) = Ok t \<and>
    (\<forall>ch. channel_call (start_config n num filename tu si chans dig t) drv ch =
       SetChannel ch (chans ch) (ps_DC drv) (if chans ch then rc ch else ps_20V drv)
         (if chans ch then offs ch else 0))"
proof -
  let ?s = "s\<lparr>first_sample_hook := True\<rparr>"
  have "\<forall>ch \<in> set all_channels. convert_range_string_to_constant (driver ?s) (rails ch) = Inr (rc ch)"
    using assms by (simp add: convert_range_string_to_constant_def)
  note r = set_ranges_Ok [OF this, of offs]
  have all: "ch \<in> set all_channels" for ch by (cases ch) (simp_all add: all_channels_def)
  show ?thesis
    using r all by (simp add: channel_call_def channel_setting_def start_config_def Let_def)
qed

theorem gui_range_reaches_device_witness:
  "\<exists>t. set_ranges (\<lambda>_. ''PS3000A_5V'') (\<lambda>_. 0.5) all_channels
         ((init_acq (Some ps3000a_drv))\<lparr>first_sample_hook := True\<rparr>) = Ok t \<and>
     channel_call (start_config 3 1 ''acquisition.csv'' ''ms'' 0.25 (\<lambda>c. c = ChA) [] t) ps3000a_drv ChA =
       SetChannel ChA True 1 8 0.5"
  using gui_range_reaches_device [of "init_acq (Some ps3000a_drv)" ps3000a_drv "\<lambda>_. ''PS3000A_5V''" "\<lambda>_. 8"
      "\<lambda>_. 0.5" 3 1 "''acquisition.csv''" "''ms''" "0.25" "\<lambda>c. c = ChA" "[]"]
  by (auto simp: init_acq_def picosdk_ps3000a_def)

subsection \<open>Findings\<close>

text \<open>
  The comment at line 280 says the label shows the time since the first sample, but the
  minutes are taken modulo 60 and there is no hour field: the label wraps every hour,
  so a recording of 1 h 2 min shows 02:00.000.
\<close>

lemma timer_text_hourly: "timer_text (e + 3600000) = timer_text e"
proof -
  have "(e + 3600000) div 60000 = e div 60000 + 60" "(e + 3600000) div 1000 = e div 1000 + 3600"
    by simp_all
  moreover have "(e + 3600000) mod 1000 = e mod 1000"
    using mod_mult_self1 [of e 3600 "1000 :: int"] by simp
  moreover have "(e div 1000 + 3600) mod 60 = e div 1000 mod 60"
    using mod_mult_self1 [of "e div 1000" 60 "60 :: int"] by simp
  ultimately have "timer_fields (e + 3600000) = timer_fields e"
    by (simp add: timer_fields_def)
  then show ?thesis by (simp add: timer_text_def)
qed

end
