(* ===== verification/Gui_Window.thy ===== *)
theory Gui_Window
  imports Gui
begin

text \<open>
  The main window as a state machine (src/picoscope-gui-app/src/gui.py, \<open>MainWindow\<close>),
  composed with the acquisition object it drives.
  \<^item> \<open>window\<close> holds what the handlers change: the enabled state of the two buttons,
    whether the 50 ms timer runs, \<open>recording_start_time\<close>, the two labels, the
    file-name field and the warning boxes shown.
  \<^item> \<open>gui_start_request\<close> is \<open>MainWindow.start_recording\<close> (lines 214--259): it
    validates the interval (the result of \<open>float(text)\<close>, \<open>None\<close> for
    \<open>ValueError\<close>) and the file name (stripped; the save dialog when empty), builds
    the thread's arguments and toggles the buttons. \<open>gui_stop\<close> is
    \<open>MainWindow.stop_recording\<close> (lines 271--276), \<open>on_first_sample\<close> is
    \<open>on_first_sample_recorded\<close> (264--269), \<open>update_timer\<close> (278--285),
    \<open>update_initialization_status\<close> (261--262).
  \<^item> \<open>sys_step\<close> interleaves the GUI thread and the acquisition thread: a click on an
    enabled button, one poll of the streaming loop while the thread runs, the delivery
    of a first-sample signal emitted by the callback, a timer tick. Qt delivers the
    cross-thread signal later, in the GUI's event loop; \<open>signals_seen\<close> counts the
    signals delivered so far.
\<close>

record window =
  start_enabled :: bool
  stop_enabled :: bool
  timer_running :: bool
  recording_start_time :: "int option"
  init_label :: string
  timer_label :: string
  filename_text :: string
  warnings :: "string list"

definition init_window :: window where
  "init_window =
     \<lparr>start_enabled = True, stop_enabled = False, timer_running = False, recording_start_time = None,
      init_label = [], timer_label = ''Elapsed Time: 00:00.000'', filename_text = [], warnings = []\<rparr>"

definition py_strip :: "string \<Rightarrow> string" where
  "py_strip s = rev (dropWhile is_space (rev (dropWhile is_space s)))"

record start_form =
  form_interval :: "real option"
  form_time_unit :: string
  form_filename :: string
  form_dialog :: string
  form_channels :: "channel \<Rightarrow> bool"
  form_model_index :: nat
  form_digital :: "nat \<Rightarrow> bool"
  form_rails :: "channel \<Rightarrow> string"
  form_offsets :: "channel \<Rightarrow> real"

record thread_args =
  th_time_unit :: string
  th_interval :: real
  th_channels :: "channel \<Rightarrow> bool"
  th_filename :: string
  th_digital :: "nat list"
  th_rails :: "channel \<Rightarrow> string"
  th_offsets :: "channel \<Rightarrow> real"

definition gui_start_request :: "window \<Rightarrow> start_form \<Rightarrow> window \<times> thread_args option" where
  "gui_start_request w f =
     (case form_interval f of
        None \<Rightarrow> (w\<lparr>warnings := warnings w @ [''Invalid Input'']\<rparr>, None)
      | Some si \<Rightarrow>
          (let typed = py_strip (form_filename f);
               go = (\<lambda>fn w'. (w'\<lparr>recording_start_time := None, start_enabled := False, stop_enabled := True\<rparr>,
                        Some \<lparr>th_time_unit = form_time_unit f, th_interval = si, th_channels = form_channels f,
                              th_filename = fn,
                              th_digital = gui_digital_selection (form_model_index f) (form_digital f),
                              th_rails = form_rails f, th_offsets = form_offsets f\<rparr>))
           in if typed \<noteq> [] then go typed w
              else if form_dialog f = [] then (w\<lparr>warnings := warnings w @ [''No filename'']\<rparr>, None)
              else go (form_dialog f) (w\<lparr>filename_text := form_dialog f\<rparr>)))"

definition gui_stop :: "window \<Rightarrow> window" where
  "gui_stop w = w\<lparr>start_enabled := True, stop_enabled := False, timer_running := False, init_label := []\<rparr>"

definition on_first_sample :: "int \<Rightarrow> window \<Rightarrow> window" where
  "on_first_sample now w =
     w\<lparr>recording_start_time := Some now, timer_running := True, init_label := ''Recording in progress...''\<rparr>"

definition update_timer :: "int \<Rightarrow> window \<Rightarrow> window" where
  "update_timer now w =
     (case recording_start_time w of
        None \<Rightarrow> w
      | Some t0 \<Rightarrow> w\<lparr>timer_label := timer_text (now - t0)\<rparr>)"

definition update_initialization_status :: "string \<Rightarrow> window \<Rightarrow> window" where
  "update_initialization_status msg w = w\<lparr>init_label := msg\<rparr>"

record sys =
  win :: window
  acq_of :: acq
  polling :: bool
  signals_seen :: nat

definition thread_run :: "device \<Rightarrow> thread_args \<Rightarrow> acq \<Rightarrow> acq outcome" where
  "thread_run dev p s =
     acquisition_thread_run dev (th_time_unit p) (th_interval p) (th_channels p) (th_filename p)
       (th_digital p) (th_rails p) (th_offsets p) [] s"

definition sys_start :: "device \<Rightarrow> thread_args \<Rightarrow> window \<Rightarrow> sys \<Rightarrow> sys" where
  "sys_start dev p w s =
     (let r = thread_run dev p (acq_of s);
          w' = (case set_ranges (th_rails p) (th_offsets p) all_channels
                       ((acq_of s)\<lparr>first_sample_hook := True\<rparr>) of
                  Ok _ \<Rightarrow> update_initialization_status ''Initializing PicoScope...'' w
                | Exc _ _ \<Rightarrow> w)
      in s\<lparr>win := w', acq_of := outcome_state r,
           polling := (case r of Ok t \<Rightarrow> loop_active t | Exc _ _ \<Rightarrow> False)\<rparr>)"

inductive sys_step :: "device \<Rightarrow> sys \<Rightarrow> sys \<Rightarrow> bool" for dev where
  start: "start_enabled (win s) \<Longrightarrow> gui_start_request (win s) f = (w, Some p) \<Longrightarrow>
          sys_step dev s (sys_start dev p w s)"
| start_rejected: "start_enabled (win s) \<Longrightarrow> gui_start_request (win s) f = (w, None) \<Longrightarrow>
          sys_step dev s (s\<lparr>win := w\<rparr>)"
| stop: "stop_enabled (win s) \<Longrightarrow>
          sys_step dev s (s\<lparr>win := gui_stop (win s), acq_of := stop_recording dev (acq_of s)\<rparr>)"
| poll: "polling s \<Longrightarrow> loop_active (acq_of s) \<Longrightarrow>
          sys_step dev s (s\<lparr>acq_of := poll_once (acq_of s) r\<rparr>)"
| signal: "signals_seen s < first_sample_emits (acq_of s) \<Longrightarrow>
          sys_step dev s (s\<lparr>win := on_first_sample now (win s), signals_seen := Suc (signals_seen s)\<rparr>)"
| tick: "timer_running (win s) \<Longrightarrow> sys_step dev s (s\<lparr>win := update_timer now (win s)\<rparr>)"

inductive sys_reach :: "device \<Rightarrow> sys \<Rightarrow> sys \<Rightarrow> bool" for dev s0 where
  refl: "sys_reach dev s0 s0"
| step: "sys_reach dev s0 s \<Longrightarrow> sys_step dev s t \<Longrightarrow> sys_reach dev s0 t"

definition init_sys :: "driver option \<Rightarrow> sys" where
  "init_sys drv = \<lparr>win = init_window, acq_of = init_acq drv, polling = False, signals_seen = 0\<rparr>"

inductive_cases sys_stepE: "sys_step dev s t"


subsection \<open>Lemmas\<close>

lemma gui_start_request_started:
  "gui_start_request w f = (w', Some p) \<Longrightarrow> \<not> start_enabled w' \<and> stop_enabled w'"
  by (auto simp: gui_start_request_def Let_def split: option.splits if_splits)

lemma gui_start_request_rejected:
  "gui_start_request w f = (w', None) \<Longrightarrow>
   start_enabled w' = start_enabled w \<and> stop_enabled w' = stop_enabled w"
  by (auto simp: gui_start_request_def Let_def split: option.splits if_splits)

lemma window_buttons_simps [simp]:
  "start_enabled (update_initialization_status m w) = start_enabled w"
  "stop_enabled (update_initialization_status m w) = stop_enabled w"
  "start_enabled (on_first_sample now w) = start_enabled w"
  "stop_enabled (on_first_sample now w) = stop_enabled w"
  "start_enabled (update_timer now w) = start_enabled w"
  "stop_enabled (update_timer now w) = stop_enabled w"
  "start_enabled (gui_stop w)" "\<not> stop_enabled (gui_stop w)"
  by (simp_all add: update_initialization_status_def on_first_sample_def update_timer_def gui_stop_def
      split: option.split)

lemma sys_start_win:
  "start_enabled (win (sys_start dev p w s)) = start_enabled w \<and> stop_enabled (win (sys_start dev p w s)) = stop_enabled w"
  by (simp add: sys_start_def Let_def split: outcome.split)

lemma sys_step_buttons:
  "sys_step dev s t \<Longrightarrow> (start_enabled (win s) \<longleftrightarrow> \<not> stop_enabled (win s)) \<Longrightarrow>
   (start_enabled (win t) \<longleftrightarrow> \<not> stop_enabled (win t))"
  by (cases rule: sys_stepE)
     (auto dest: gui_start_request_started gui_start_request_rejected simp: sys_start_win)



subsection \<open>Properties of the window\<close>

text \<open>
  C21. In every state the window reaches, exactly one of the two buttons is enabled:
  Start while idle, Stop while a recording was started. The handlers that run between
  the clicks (signals, timer ticks, status messages) never change the buttons.
\<close>

theorem buttons_exclusive:
  assumes "sys_reach dev (init_sys drv) s"
  shows "start_enabled (win s) \<longleftrightarrow> \<not> stop_enabled (win s)"
  using assms
proof (induction rule: sys_reach.induct)
  case refl
  then show ?case by (simp add: init_sys_def init_window_def)
next
  case (step s t)
  from sys_step_buttons [OF step.hyps(2) step.IH] show ?case .
qed


theorem buttons_exclusive_witness:
  "start_enabled (win ((init_sys None)\<lparr>win := init_window\<lparr>warnings := [''Invalid Input'']\<rparr>\<rparr>)) \<and>
   \<not> stop_enabled (win ((init_sys None)\<lparr>win := init_window\<lparr>warnings := [''Invalid Input'']\<rparr>\<rparr>))"
proof -
  let ?f = "\<lparr>form_interval = None, form_time_unit = ''ms'', form_filename = [], form_dialog = [],
             form_channels = \<lambda>c. c = ChA, form_model_index = 0, form_digital = \<lambda>_. False,
             form_rails = \<lambda>_. ''PS3000A_5V'', form_offsets = \<lambda>_. 0\<rparr>"
  have "gui_start_request (win (init_sys None)) ?f = (init_window\<lparr>warnings := [''Invalid Input'']\<rparr>, None)"
    by (simp add: gui_start_request_def init_sys_def init_window_def)
  then have "sys_step (all_ok_device 32512) (init_sys None)
      ((init_sys None)\<lparr>win := init_window\<lparr>warnings := [''Invalid Input'']\<rparr>\<rparr>)"
    by (intro sys_step.start_rejected) (simp_all add: init_sys_def init_window_def)
  then have "sys_reach (all_ok_device 32512) (init_sys None)
      ((init_sys None)\<lparr>win := init_window\<lparr>warnings := [''Invalid Input'']\<rparr>\<rparr>)"
    by (rule sys_reach.step [OF sys_reach.refl])
  from buttons_exclusive [OF this] show ?thesis by (simp add: init_window_def)
qed

text \<open>
  C22. Stop does not stop the timer for good: when the user stops a recording before its
  first sample arrives, the acquisition thread keeps polling (C3), the next callback
  emits the first-sample signal again, and its delivery restarts the timer and shows
  "Recording in progress..." while the Stop button is disabled and Start is enabled.
\<close>

theorem timer_restarts_after_stop:
  assumes "polling s" "loop_active (acq_of s)" "is_recording (acq_of s)" "stop_enabled (win s)"
    and "maxADC (acq_of s) \<noteq> 0" "nextSample (acq_of s) = 0" "first_sample_hook (acq_of s)"
    and "signals_seen s = first_sample_emits (acq_of s)" "nonempty_batch r" "is_callback r"
  shows "\<exists>t. sys_reach dev s t \<and> \<not> stop_enabled (win t) \<and> start_enabled (win t) \<and> timer_running (win t) \<and>
    init_label (win t) = ''Recording in progress...'' \<and> polling t \<and> loop_active (acq_of t)"
proof -
  let ?s1 = "s\<lparr>win := gui_stop (win s), acq_of := stop_recording dev (acq_of s)\<rparr>"
  let ?s2 = "?s1\<lparr>acq_of := poll_once (acq_of ?s1) r\<rparr>"
  let ?s3 = "?s2\<lparr>win := on_first_sample now (win ?s2), signals_seen := Suc (signals_seen ?s2)\<rparr>"
  note f = stop_recording_loop_fields [OF assms(3), of dev]
  note g = stop_recording_signal_fields [of dev "acq_of s"]
  have a1: "loop_active (acq_of ?s1)" "\<not> sink_open (csv (acq_of ?s1))" "maxADC (acq_of ?s1) \<noteq> 0"
    "nextSample (acq_of ?s1) = 0" "first_sample_hook (acq_of ?s1)"
    "first_sample_emits (acq_of ?s1) = first_sample_emits (acq_of s)"
    using f g assms by simp_all
  have e2: "first_sample_emits (acq_of ?s2) = Suc (first_sample_emits (acq_of s))"
    using poll_once_effect [of "acq_of ?s1" r] a1 assms(10) by simp
  have st: "loop_static (acq_of ?s1) (acq_of ?s2)" by (simp add: poll_once_static)
  have "nextSample (acq_of ?s2) = 0 \<and> autoStopOuter (acq_of ?s2) = autoStopOuter (acq_of ?s1)"
    using closed_poll_once [of "acq_of ?s1" r] a1 assms(9) by simp
  with st a1 have a2: "loop_active (acq_of ?s2)"
    by (simp add: loop_active_def loop_static_def)
  have "sys_step dev s ?s1" using assms(4) by (rule sys_step.stop)
  moreover have "sys_step dev ?s1 ?s2" using assms(1) a1 by (intro sys_step.poll) simp_all
  moreover have "sys_step dev ?s2 ?s3" using e2 assms(8) by (intro sys_step.signal) simp
  ultimately have "sys_reach dev s ?s3"
    by (meson sys_reach.refl sys_reach.step)
  moreover have "\<not> stop_enabled (win ?s3) \<and> start_enabled (win ?s3) \<and> timer_running (win ?s3) \<and>
      init_label (win ?s3) = ''Recording in progress...'' \<and> polling ?s3 \<and> loop_active (acq_of ?s3)"
    using a2 assms(1) by (simp add: on_first_sample_def)
  ultimately show ?thesis by blast
qed


lemma gui_start_request_valid:
  fixes f :: start_form
  shows "form_interval f = Some si \<Longrightarrow> py_strip (form_filename f) \<noteq> [] \<Longrightarrow>
   gui_start_request w f =
     (w\<lparr>recording_start_time := None, start_enabled := False, stop_enabled := True\<rparr>,
      Some \<lparr>th_time_unit = form_time_unit f, th_interval = si, th_channels = form_channels f,
            th_filename = py_strip (form_filename f),
            th_digital = gui_digital_selection (form_model_index f) (form_digital f),
            th_rails = form_rails f, th_offsets = form_offsets f\<rparr>)"
  by (simp add: gui_start_request_def Let_def)

text \<open>
  C23. A valid click on Start begins a recording that polls: with an interval that
  parses, a file name the file system accepts, range names the driver knows and a
  device that accepts every call, the Start step leaves the window with Stop enabled and the status
  "Initializing PicoScope...", and the acquisition thread in the polling loop at
  sample 0 with the first-sample signal connected and \<open>maxADC\<close> read from the device.
\<close>

theorem start_click_begins_polling:
  fixes f :: start_form
  assumes "start_enabled (win s)" "driver (acq_of s) = Some drv"
    and "\<forall>ch. map_of (ps_RANGE drv) (form_rails f ch) = Some (rc ch)"
    and "form_interval f = Some si" "py_strip (form_filename f) \<noteq> []" "fs (py_strip (form_filename f))"
  shows "\<exists>t. sys_step ((all_ok_device m)\<lparr>fs_writable := fs\<rparr>) s t \<and> polling t \<and> stop_enabled (win t) \<and> \<not> start_enabled (win t) \<and>
    init_label (win t) = ''Initializing PicoScope...'' \<and> is_recording (acq_of t) \<and>
    nextSample (acq_of t) = 0 \<and> first_sample_hook (acq_of t) \<and> maxADC (acq_of t) = m"
proof -
  let ?dev = "(all_ok_device m)\<lparr>fs_writable := fs\<rparr>"
  obtain w p where req: "gui_start_request (win s) f = (w, Some p)" and
    p: "p = \<lparr>th_time_unit = form_time_unit f, th_interval = si, th_channels = form_channels f,
            th_filename = py_strip (form_filename f),
            th_digital = gui_digital_selection (form_model_index f) (form_digital f),
            th_rails = form_rails f, th_offsets = form_offsets f\<rparr>"
    and w: "w = (win s)\<lparr>recording_start_time := None, start_enabled := False, stop_enabled := True\<rparr>"
    using gui_start_request_valid [OF assms(4,5)] by blast
  let ?a = "(acq_of s)\<lparr>first_sample_hook := True\<rparr>"
  have "\<forall>ch \<in> set all_channels. convert_range_string_to_constant (driver ?a) (form_rails f ch) = Inr (rc ch)"
    using assms(2,3) by (simp add: convert_range_string_to_constant_def)
  from set_ranges_Ok [OF this, of "form_offsets f"] obtain t1 where
    r1: "set_ranges (form_rails f) (form_offsets f) all_channels ?a = Ok t1" and
    d1: "driver t1 = Some drv" and h1: "first_sample_hook t1"
    using assms(2) by auto
  let ?c = "start_config 10000 999999999 (py_strip (form_filename f)) (form_time_unit f) si
      (form_channels f) (gui_digital_selection (form_model_index f) (form_digital f)) t1"
  let ?s0 = "?c\<lparr>csv := csv_open (py_strip (form_filename f))
      (csv_header (form_time_unit f) (form_channels f) (digital_channels ?c))\<rparr>"
  have d0: "driver ?s0 = Some drv" using d1 by simp
  obtain t where td: "start_device ?dev 10000 [] ?s0 = Ok t"
    using start_device_success [OF d0] by fastforce
  have fw: "fs_writable ?dev (py_strip (form_filename f))" using assms(6) by simp
  from td have t: "start_recording ?dev 10000 999999999 (py_strip (form_filename f)) (form_time_unit f) si
      (form_channels f) (gui_digital_selection (form_model_index f) (form_digital f)) [] t1 = Ok t"
    by (simp only: start_recording_cases fw if_True)
  from start_device_Ok_state [OF td d0] obtain s5 where t5: "t = stream_loop s5 []" and
    k5: "keeps_session ?s0 s5" and m5: "maxADC s5 = dev_max_adc ?dev" by blast
  have run: "thread_run ?dev p (acq_of s) = Ok t"
    using r1 t d1 by (simp add: thread_run_def acquisition_thread_run_def start_recording_global_def p)
  have facts: "is_recording t" "nextSample t = 0" "first_sample_hook t" "maxADC t = m" "loop_active t"
    using k5 m5 t5 h1 by (simp_all add: keeps_session_def start_config_def Let_def all_ok_device_def loop_active_def)
  have "sys_step ?dev s (sys_start ?dev p w s)" using assms(1) req by (rule sys_step.start)
  moreover have "polling (sys_start ?dev p w s) \<and> stop_enabled (win (sys_start ?dev p w s)) \<and>
      \<not> start_enabled (win (sys_start ?dev p w s)) \<and>
      init_label (win (sys_start ?dev p w s)) = ''Initializing PicoScope...'' \<and>
      is_recording (acq_of (sys_start ?dev p w s)) \<and> nextSample (acq_of (sys_start ?dev p w s)) = 0 \<and>
      first_sample_hook (acq_of (sys_start ?dev p w s)) \<and> maxADC (acq_of (sys_start ?dev p w s)) = m"
    using run facts r1 w p by (simp add: sys_start_def update_initialization_status_def)
  ultimately show ?thesis by blast
qed


theorem timer_restarts_after_stop_witness:
  "\<exists>t. sys_reach (all_ok_device 32512)
        \<lparr>win = init_window\<lparr>start_enabled := False, stop_enabled := True\<rparr>, acq_of = demo_acq,
         polling = True, signals_seen = 0\<rparr> t \<and>
     \<not> stop_enabled (win t) \<and> timer_running (win t) \<and> polling t"
proof -
  have "loop_active demo_acq" "is_recording demo_acq"
    by (simp_all add: demo_acq_def init_acq_def loop_active_def)
  then show ?thesis
    using timer_restarts_after_stop [of "\<lparr>win = init_window\<lparr>start_enabled := False, stop_enabled := True\<rparr>,
        acq_of = demo_acq, polling = True, signals_seen = 0\<rparr>" demo_reply "all_ok_device 32512"]
    by (simp add: demo_reply_def) blast
qed

theorem start_click_begins_polling_witness:
  "\<exists>t. sys_step ((all_ok_device 32512)\<lparr>fs_writable := (\<lambda>n. n = ''acquisition.csv'')\<rparr>)
     (init_sys (Some ps3000a_drv)) t \<and> polling t \<and> stop_enabled (win t)"
proof -
  let ?f = "\<lparr>form_interval = Some 0.25, form_time_unit = ''ms'', form_filename = ''acquisition.csv'',
             form_dialog = [], form_channels = \<lambda>c. c = ChA, form_model_index = 0, form_digital = \<lambda>_. False,
             form_rails = \<lambda>_. ''PS3000A_5V'', form_offsets = \<lambda>_. 0\<rparr>"
  have "py_strip ''acquisition.csv'' \<noteq> []" "py_strip ''acquisition.csv'' = ''acquisition.csv''"
    by (simp_all add: py_strip_def is_space_def ord_def)
  then show ?thesis
    using start_click_begins_polling [of "init_sys (Some ps3000a_drv)" ps3000a_drv ?f "\<lambda>_. 8" "0.25"
        "\<lambda>n. n = ''acquisition.csv''" 32512]
    by (simp add: init_sys_def init_window_def init_acq_def picosdk_ps3000a_def) blast
qed

end
