(* ===== verification/Device_Info.thy ===== *)
theory Device_Info
  imports Gui_Window "HOL-Library.AList"
begin

text \<open>
  The device-information script src/picoscope-gui-app/Info.py. \<open>get_picoscope_info\<close>
  (lines 5--46) opens a PS3000A unit with the same power-source recovery as
  \<open>start_recording\<close>, reads eleven unit-information strings with
  \<open>ps3000aGetUnitInfo\<close> into a 256-byte buffer, closes the unit and returns the
  strings under fixed names. The status of \<open>ps3000aGetUnitInfo\<close> is not checked.
  \<^item> \<open>info_device\<close> extends the instrument with the bytes the driver writes for each
    information number; \<open>c_buffer_value\<close> is \<open>buffer.value\<close> (the bytes before the first
    NUL, at most 256); decoding is the identity on the ASCII strings the driver
    returns; \<open>py_strip\<close> is \<open>str.strip\<close>.
  \<^item> The outcome keeps the call log and the status dictionary of the script, so that a
    failure after some calls is observable.
  \<^item> \<open>info_report\<close> is the report of the \<open>__main__\<close> block (lines 55--59): a title line
    and one line \<open>key: value\<close> per field, in the dictionary's order.
  \<^item> \<open>info_script\<close> is the whole module run as a script (lines 48--59): the module-level
    \<open>find_unit()\<close> of the vendor's \<open>picosdk.discover\<close>, whose result is a parameter (an
    exception, or the text \<open>print(scope.info)\<close> shows), the \<open>scope.close()\<close> after it
    (an optional exception), then the \<open>__main__\<close> block. The unit \<open>find_unit\<close> opens
    is closed before \<open>get_picoscope_info\<close> opens one again; without a unit the script
    raises before any call of \<open>get_picoscope_info\<close>.
\<close>

record info_device = device +
  dev_unit_info :: "nat \<Rightarrow> string"

record info_state =
  info_log :: "dev_call list"
  info_status :: "string \<Rightarrow> status option"
  info :: "(string \<times> string) list"

definition info_keys :: "(string \<times> nat) list" where
  "info_keys =
     [(''Driver Version'', 0), (''USB Version'', 1), (''Hardware Version'', 2), (''Variant Info'', 3),
      (''Serial Number'', 4), (''Cal Date'', 5), (''Kernel Version'', 6),
      (''Digital Hardware Version'', 7), (''Analogue Hardware Version'', 8), (''Firmware 1'', 9),
      (''Firmware 2'', 10)]"

definition c_buffer_value :: "string \<Rightarrow> string" where
  "c_buffer_value raw = takeWhile (\<lambda>c. c \<noteq> CHR 0x00) (take 256 raw)"

definition info_open :: "info_device \<Rightarrow> info_state \<Rightarrow> info_state outcome" where
  "info_open dev s =
     (let st = dev_open dev;
          s1 = s\<lparr>info_log := info_log s @ [OpenUnit], info_status := (info_status s)(''openunit'' \<mapsto> st)\<rparr>
      in if st = PICO_OK then Ok s1
         else if power_status st then
           (let pst = dev_power dev;
                s2 = s1\<lparr>info_log := info_log s1 @ [ChangePowerSource st],
                        info_status := (info_status s1)(''changePowerSource'' \<mapsto> pst)\<rparr>
            in assert_pico_ok pst s2)
         else Exc (PicoSDKError st) s1)"

definition get_info :: "info_device \<Rightarrow> nat \<Rightarrow> info_state \<Rightarrow> string \<times> info_state" where
  "get_info dev n s =
     (py_strip (c_buffer_value (dev_unit_info dev n)), s\<lparr>info_log := info_log s @ [GetUnitInfo n]\<rparr>)"

fun read_infos :: "info_device \<Rightarrow> (string \<times> nat) list \<Rightarrow> info_state \<Rightarrow> info_state" where
  "read_infos dev [] s = s"
| "read_infos dev ((k, n) # ks) s =
     (case get_info dev n s of (v, s') \<Rightarrow> read_infos dev ks (s'\<lparr>info := AList.update k v (info s')\<rparr>))"

definition info_close :: "info_device \<Rightarrow> info_state \<Rightarrow> info_state outcome" where
  "info_close dev s =
     (let st = dev_close dev
      in assert_pico_ok st (s\<lparr>info_log := info_log s @ [CloseUnit], info_status := (info_status s)(''close'' \<mapsto> st)\<rparr>))"

definition get_picoscope_info :: "info_device \<Rightarrow> info_state outcome" where
  "get_picoscope_info dev =
     obind (info_open dev \<lparr>info_log = [], info_status = Map.empty, info = []\<rparr>)
       (\<lambda>s. info_close dev (read_infos dev info_keys s))"

definition info_report :: "(string \<times> string) list \<Rightarrow> string list" where
  "info_report items = ''PicoScope Device Information:'' # map (\<lambda>(k, v). k @ '': '' @ v) items"

definition info_main :: "info_device \<Rightarrow> py_error + string list" where
  "info_main dev =
     (case get_picoscope_info dev of
        Ok s \<Rightarrow> Inr (info_report (info s))
      | Exc e s \<Rightarrow> Inl e)"

definition info_script :: "py_error + string \<Rightarrow> py_error option \<Rightarrow> info_device \<Rightarrow> py_error + string list" where
  "info_script found scope_close dev =
     (case found of
        Inl e \<Rightarrow> Inl e
      | Inr scope_info \<Rightarrow>
          (case scope_close of
             Some e \<Rightarrow> Inl e
           | None \<Rightarrow> (case info_main dev of Inl e \<Rightarrow> Inl e | Inr out \<Rightarrow> Inr (scope_info # out))))"

definition demo_info_device :: "status \<Rightarrow> status \<Rightarrow> info_device" where
  "demo_info_device so sc =
     \<lparr>dev_open = so, dev_power = 0, dev_set_channel = (\<lambda>_. 0), dev_set_buffers = (\<lambda>_. 0),
      dev_max_status = 0, dev_max_adc = 32512, dev_run = 0, dev_stop = 0, dev_close = sc,
      fs_writable = (\<lambda>_. True), dev_unit_info = (\<lambda>n. '' PS3000A '' @ CHR 0x00 # ''zz'')\<rparr>"


subsection \<open>Lemmas\<close>

lemma update_fresh: "k \<notin> fst ` set al \<Longrightarrow> AList.update k v al = al @ [(k, v)]"
  by (induction al) auto

lemma read_infos_effect:
  "distinct (map fst ks) \<Longrightarrow> fst ` set (info s) \<inter> set (map fst ks) = {} \<Longrightarrow>
   info (read_infos dev ks s) = info s @ map (\<lambda>(k, n). (k, py_strip (c_buffer_value (dev_unit_info dev n)))) ks \<and>
   info_log (read_infos dev ks s) = info_log s @ map (\<lambda>(k, n). GetUnitInfo n) ks \<and>
   info_status (read_infos dev ks s) = info_status s"
proof (induction ks arbitrary: s)
  case Nil
  then show ?case by simp
next
  case (Cons kn ks)
  obtain k n where kn: "kn = (k, n)" by fastforce
  with Cons.prems have "k \<notin> fst ` set (info s)" by auto
  with Cons.prems Cons.IH [of "s\<lparr>info_log := info_log s @ [GetUnitInfo n],
      info := info s @ [(k, py_strip (c_buffer_value (dev_unit_info dev n)))]\<rparr>"] kn
  show ?case by (auto simp: get_info_def update_fresh)
qed

lemma read_infos_keys:
  "info (read_infos dev info_keys s0) = map (\<lambda>(k, n). (k, py_strip (c_buffer_value (dev_unit_info dev n)))) info_keys \<and>
   info_log (read_infos dev info_keys s0) = info_log s0 @ map GetUnitInfo [0..<11] \<and>
   info_status (read_infos dev info_keys s0) = info_status s0"
  if "info s0 = []"
  using read_infos_effect [of info_keys s0 dev] that
  by (simp add: info_keys_def upt_conv_Cons)
lemma info_main_ok:
  assumes "dev_open dev = PICO_OK" "dev_close dev = PICO_OK"
  shows "info_main dev = Inr (''PicoScope Device Information:'' #
      map (\<lambda>(k, n). k @ '': '' @ py_strip (c_buffer_value (dev_unit_info dev n))) info_keys)"
  using assms read_infos_keys [of "\<lparr>info_log = [OpenUnit], info_status = [''openunit'' \<mapsto> 0], info = []\<rparr>" dev]
  by (simp add: info_main_def info_report_def get_picoscope_info_def info_open_def info_close_def
      split_def comp_def assert_pico_ok_def PICO_OK_def)


lemma info_script_ok:
  assumes "dev_open dev = PICO_OK" "dev_close dev = PICO_OK"
  shows "info_script (Inr scope_info) None dev = Inr (scope_info # ''PicoScope Device Information:'' #
      map (\<lambda>(k, n). k @ '': '' @ py_strip (c_buffer_value (dev_unit_info dev n))) info_keys)"
  using info_main_ok [OF assms] by (simp add: info_script_def)


subsection \<open>Properties of the script\<close>

text \<open>
  C24. When the unit opens and closes without error, \<open>get_picoscope_info\<close> returns the
  eleven fields in the order of the script, each the stripped C string the driver put in
  the buffer, after the calls: open, \<open>GetUnitInfo\<close> 0 to 10 in order, close.
\<close>

theorem get_picoscope_info_ok:
  assumes "dev_open dev = PICO_OK" "dev_close dev = PICO_OK"
  shows "\<exists>s. get_picoscope_info dev = Ok s \<and>
    info s = map (\<lambda>(k, n). (k, py_strip (c_buffer_value (dev_unit_info dev n)))) info_keys \<and>
    info_log s = OpenUnit # map GetUnitInfo [0..<11] @ [CloseUnit]"
  using assms read_infos_keys [of "\<lparr>info_log = [OpenUnit], info_status = [''openunit'' \<mapsto> 0], info = []\<rparr>" dev]
  by (simp add: get_picoscope_info_def info_open_def info_close_def)

theorem get_picoscope_info_ok_witness:
  "\<exists>s. get_picoscope_info (demo_info_device 0 0) = Ok s \<and>
     map_of (info s) ''Variant Info'' = Some ''PS3000A'' \<and> length (info_log s) = 13"
proof -
  have v: "py_strip (c_buffer_value ('' PS3000A '' @ CHR 0x00 # ''zz'')) = ''PS3000A''"
    by code_simp
  obtain s where "get_picoscope_info (demo_info_device 0 0) = Ok s"
    and "info s = map (\<lambda>(k, n). (k, py_strip (c_buffer_value (dev_unit_info (demo_info_device 0 0) n)))) info_keys"
    and "info_log s = OpenUnit # map GetUnitInfo [0..<11] @ [CloseUnit]"
    using get_picoscope_info_ok [of "demo_info_device 0 0"] by (auto simp: demo_info_device_def PICO_OK_def)
  then show ?thesis
    by (simp add: demo_info_device_def v [simplified] info_keys_def)
qed

text \<open>
  C25. The script's error paths: an open status other than OK, 282 or 286 raises at once
  after the single open call; a failing close raises after all eleven reads, so the
  information already read is lost to the caller. A failed \<open>GetUnitInfo\<close> is never
  reported: its status is not read.
\<close>

theorem get_picoscope_info_errors:
  "(dev_open dev \<noteq> PICO_OK \<and> \<not> power_status (dev_open dev) \<longrightarrow>
      (\<exists>s. get_picoscope_info dev = Exc (PicoSDKError (dev_open dev)) s \<and> info_log s = [OpenUnit])) \<and>
   (dev_open dev = PICO_OK \<and> dev_close dev \<noteq> PICO_OK \<longrightarrow>
      (\<exists>s. get_picoscope_info dev = Exc (PicoSDKError (dev_close dev)) s \<and>
           info_log s = OpenUnit # map GetUnitInfo [0..<11] @ [CloseUnit]))"
proof (intro conjI impI)
  assume "dev_open dev \<noteq> PICO_OK \<and> \<not> power_status (dev_open dev)"
  then show "\<exists>s. get_picoscope_info dev = Exc (PicoSDKError (dev_open dev)) s \<and> info_log s = [OpenUnit]"
    by (simp add: get_picoscope_info_def info_open_def Let_def)
next
  assume a: "dev_open dev = PICO_OK \<and> dev_close dev \<noteq> PICO_OK"
  with read_infos_keys [of "\<lparr>info_log = [OpenUnit], info_status = [''openunit'' \<mapsto> 0], info = []\<rparr>" dev]
  show "\<exists>s. get_picoscope_info dev = Exc (PicoSDKError (dev_close dev)) s \<and>
           info_log s = OpenUnit # map GetUnitInfo [0..<11] @ [CloseUnit]"
    by (simp add: get_picoscope_info_def info_open_def info_close_def Let_def assert_pico_ok_def)
qed

theorem get_picoscope_info_errors_witness:
  "(\<exists>s. get_picoscope_info (demo_info_device 3 0) = Exc (PicoSDKError 3) s \<and> info_log s = [OpenUnit]) \<and>
   (\<exists>s. get_picoscope_info (demo_info_device 0 7) = Exc (PicoSDKError 7) s \<and> length (info_log s) = 13)"
  using get_picoscope_info_errors [of "demo_info_device 3 0"] get_picoscope_info_errors [of "demo_info_device 0 7"]
  by (auto simp: demo_info_device_def PICO_OK_def power_status_def)

end
