(* ===== verification/Offsets.thy ===== *)
theory Offsets
  imports Gui_Window
begin

text \<open>
  The analog offsets that reach the instrument. \<open>offsets_bounded s\<close> says that every
  offset stored in the acquisition object and every offset of a \<open>psSetChannel\<close> call in
  the device log lies within the range -20 V to 20 V of the window's offset spin boxes
  (gui.py, lines 145--150). Each operation of the acquisition object that a step of
  the system runs preserves it; \<open>set_voltage_range\<close> preserves it for offsets in range.
  Only \<open>setup_channels\<close> issues \<open>psSetChannel\<close>, with the stored offset of an enabled
  channel or 0.0; every other operation appends other calls and keeps the stored
  offsets.
\<close>

definition call_offset_ok :: "dev_call \<Rightarrow> bool" where
  "call_offset_ok c = (case c of SetChannel ch en cpl rng off \<Rightarrow> \<bar>off\<bar> \<le> 20 | _ \<Rightarrow> True)"

definition offsets_bounded :: "acq \<Rightarrow> bool" where
  "offsets_bounded s \<longleftrightarrow>
     list_all (\<lambda>ch. \<bar>voltage_offset s ch\<bar> \<le> 20) all_channels \<and> list_all call_offset_ok (dev_log s)"


subsection \<open>Lemmas\<close>

lemma in_all_channels [simp]: "ch \<in> set all_channels"
  by (cases ch) (simp_all add: all_channels_def)

lemma offsets_bounded_iff:
  "offsets_bounded s \<longleftrightarrow> (\<forall>ch. \<bar>voltage_offset s ch\<bar> \<le> 20) \<and> list_all call_offset_ok (dev_log s)"
  by (auto simp: offsets_bounded_def list_all_iff)

lemma call_offset_ok_simps [simp]:
  "call_offset_ok OpenUnit" "call_offset_ok (ChangePowerSource st)" "call_offset_ok (SetDataBuffers b n m)"
  "call_offset_ok MaximumValue" "call_offset_ok (RunStreaming iv u p t a d m n)"
  "call_offset_ok GetStreamingLatestValues" "call_offset_ok Stop" "call_offset_ok CloseUnit"
  "call_offset_ok (GetUnitInfo k)" "call_offset_ok (SetChannel ch en cpl rng off) \<longleftrightarrow> \<bar>off\<bar> \<le> 20"
  by (simp_all add: call_offset_ok_def)

lemma offsets_bounded_cong:
  "dev_log t = dev_log s \<Longrightarrow> voltage_offset t = voltage_offset s \<Longrightarrow> offsets_bounded t = offsets_bounded s"
  by (simp add: offsets_bounded_def)

lemma offsets_bounded_Exc [simp]: "offsets_bounded (outcome_state (Exc e s)) = offsets_bounded s"
  by simp

lemma offsets_bounded_assert [simp]:
  "offsets_bounded (outcome_state (assert_pico_ok st s)) = offsets_bounded s"
  by simp

lemmas offsets_simps = offsets_bounded_iff Let_def

lemma open_unit_offsets: "offsets_bounded s \<Longrightarrow> offsets_bounded (outcome_state (open_unit dev s))"
  by (auto simp: open_unit_def offsets_simps split: option.splits)

lemma channel_setting_offset:
  "channel_setting s drv ch = Inr (rng, off) \<Longrightarrow> off = voltage_offset s ch \<or> off = 0"
  by (auto simp: channel_setting_def split: if_splits range_setting.splits sum.splits)
lemma setup_channels_loop_offsets:
  "offsets_bounded s \<Longrightarrow> offsets_bounded (outcome_state (setup_channels_loop dev drv chs s))"
proof (induction chs arbitrary: s)
  case Nil
  then show ?case by simp
next
  case (Cons ch chs)
  obtain rng off where r: "channel_setting s drv ch = Inr (rng, off)"
    using channel_setting_Inr by (metis surj_pair)
  let ?s' = "s\<lparr>dev_log := dev_log s @ [SetChannel ch (channels s ch) (ps_DC drv) rng off],
               status := (status s)(''setCh'' @ channel_letter ch \<mapsto> dev_set_channel dev ch)\<rparr>"
  have "\<bar>off\<bar> \<le> 20"
    using channel_setting_offset [OF r] Cons.prems by (auto simp: offsets_bounded_iff)
  then have b: "offsets_bounded ?s'" using Cons.prems by (simp add: offsets_bounded_iff)
  have "offsets_bounded (outcome_state (obind (assert_pico_ok (dev_set_channel dev ch) ?s')
          (setup_channels_loop dev drv chs)))"
    by (rule outcome_state_obind) (use b Cons.IH in auto)
  with r show ?case by (simp add: Let_def)
qed

lemma setup_channels_offsets: "offsets_bounded s \<Longrightarrow> offsets_bounded (outcome_state (setup_channels dev s))"
  by (simp add: setup_channels_def setup_channels_loop_offsets split: option.split)


lemma register_buffer_offsets:
  "offsets_bounded s \<Longrightarrow> offsets_bounded (outcome_state (register_buffer dev drv n b key s))"
  by (simp add: register_buffer_def offsets_simps)

lemma setup_analog_buffers_offsets:
  "offsets_bounded s \<Longrightarrow> offsets_bounded (outcome_state (setup_analog_buffers dev drv n chs s))"
proof (induction chs arbitrary: s)
  case Nil
  then show ?case by simp
next
  case (Cons ch chs)
  show ?case
  proof (cases "channels s ch")
    case True
    have "offsets_bounded (outcome_state (obind (register_buffer dev drv n (BufCh ch) (''setDataBuffers'' @ channel_letter ch) s)
        (setup_analog_buffers dev drv n chs)))"
      by (rule outcome_state_obind [where P = offsets_bounded])
         (use Cons.prems Cons.IH register_buffer_offsets in blast)+
    with True show ?thesis by simp
  next
    case False
    with Cons show ?thesis by simp
  qed
qed

lemma setup_buffers_offsets:
  assumes b: "offsets_bounded s"
  shows "offsets_bounded (outcome_state (setup_buffers dev n s))"
proof (cases "driver s")
  case (Some drv)
  have "offsets_bounded (outcome_state (obind (setup_analog_buffers dev drv n all_channels s)
      (\<lambda>s1. if digital_channels s1 \<noteq> [] \<and> has_digital_channels (driver s1)
            then obind (register_buffer dev drv n BufDigital0 ''setDataBuffersDigital0'' s1)
                   (register_buffer dev drv n BufDigital1 ''setDataBuffersDigital1'')
            else Ok s1)))"
  proof (rule outcome_state_obind [where P = offsets_bounded])
    show "offsets_bounded (outcome_state (setup_analog_buffers dev drv n all_channels s))"
      using b by (rule setup_analog_buffers_offsets)
  next
    fix u assume u: "offsets_bounded u"
    show "offsets_bounded (outcome_state (if digital_channels u \<noteq> [] \<and> has_digital_channels (driver u)
            then obind (register_buffer dev drv n BufDigital0 ''setDataBuffersDigital0'' u)
                   (register_buffer dev drv n BufDigital1 ''setDataBuffersDigital1'')
            else Ok u))"
      using u by (simp add: outcome_state_obind register_buffer_offsets)
  qed
  with Some show ?thesis by (simp add: setup_buffers_def)
qed (use b in \<open>simp add: setup_buffers_def\<close>)

lemma read_max_adc_offsets: "offsets_bounded s \<Longrightarrow> offsets_bounded (outcome_state (read_max_adc dev s))"
  by (simp add: read_max_adc_def offsets_simps split: option.split)

lemma start_streaming_offsets: "offsets_bounded s \<Longrightarrow> offsets_bounded (outcome_state (start_streaming dev n s))"
  by (simp add: start_streaming_def offsets_simps split: option.split prod.split)
lemma write_row_offsets:
  "offsets_bounded (outcome_state (write_row s k row)) = offsets_bounded s"
  "write_row s k row = Ok t \<Longrightarrow> offsets_bounded t = offsets_bounded s"
  by (auto simp: write_row_def offsets_simps split: if_splits)

lemma write_rows_offsets:
  "offsets_bounded (outcome_state (write_rows s drv si ks)) = offsets_bounded s"
proof (induction ks arbitrary: s)
  case Nil
  then show ?case by simp
next
  case (Cons i ks)
  show ?case
  proof (cases "build_row s drv si i")
    case (Inl e)
    then show ?thesis by simp
  next
    case (Inr row)
    show ?thesis
    proof (cases "write_row s (nextSample s + int i) row")
      case (Ok t)
      with Inr Cons.IH [of t] show ?thesis by (simp add: write_row_offsets(2))
    next
      case (Exc e t)
      with Inr write_row_offsets(1) [of s "nextSample s + int i" row] show ?thesis by simp
    qed
  qed
qed

lemma streaming_callback_offsets:
  "offsets_bounded (outcome_state (streaming_callback s a)) = offsets_bounded s"
proof -
  let ?s1 = "emit_first_sample (s\<lparr>wasCalledBack := True\<rparr>)"
  have s1: "offsets_bounded ?s1 = offsets_bounded s"
    by (simp add: emit_first_sample_def offsets_simps)
  let ?m = "if maxADC ?s1 \<noteq> 0 then (case driver ?s1 of None \<Rightarrow> Exc AttributeError ?s1
        | Some drv \<Rightarrow> write_rows ?s1 drv (cb_startIndex a) [0..<nat (cb_noOfSamples a)]) else Ok ?s1"
  have m: "offsets_bounded (outcome_state ?m) = offsets_bounded s"
    using s1 by (simp add: write_rows_offsets split: option.split)
  have "(\<lambda>t. offsets_bounded t = offsets_bounded s) (outcome_state (obind ?m (\<lambda>s2. Ok (s2\<lparr>nextSample := nextSample s2 + cb_noOfSamples a,
      autoStopOuter := (if cb_autoStop a then True else autoStopOuter s2)\<rparr>))))"
    by (rule outcome_state_obind) (use m in \<open>simp_all add: offsets_simps\<close>)
  then show ?thesis by (simp add: streaming_callback_def Let_def)
qed

lemma fold_device_write_cfg:
  "voltage_offset (fold (\<lambda>w s. device_write s w) ws s) = voltage_offset s \<and>
   dev_log (fold (\<lambda>w s. device_write s w) ws s) = dev_log s"
  by (induction ws arbitrary: s) (simp_all add: device_write_def split: prod.split option.split)

lemma poll_once_offsets: "offsets_bounded (poll_once s r) = offsets_bounded s"
proof (cases r)
  case (NoCallback st)
  then show ?thesis by (simp add: poll_once_def offsets_simps)
next
  case (Callback st ws a)
  let ?x = "fold (\<lambda>w s. device_write s w) ws
              (s\<lparr>wasCalledBack := False, dev_log := dev_log s @ [GetStreamingLatestValues]\<rparr>)"
  have "offsets_bounded ?x = offsets_bounded s"
    using fold_device_write_cfg [of ws] by (simp add: offsets_simps)
  then have x: "offsets_bounded (outcome_state (streaming_callback ?x a)) = offsets_bounded s"
    by (simp add: streaming_callback_offsets)
  show ?thesis
  proof (cases "streaming_callback ?x a")
    case (Ok t)
    with x Callback show ?thesis by (simp add: poll_once_def offsets_simps)
  next
    case (Exc e t)
    with x Callback show ?thesis by (simp add: poll_once_def offsets_simps)
  qed
qed

lemma stream_loop_offsets: "offsets_bounded (stream_loop s rs) = offsets_bounded s"
  by (induction rs arbitrary: s) (simp_all add: poll_once_offsets)

lemma run_streaming_offsets:
  "offsets_bounded s \<Longrightarrow> offsets_bounded (outcome_state (run_streaming dev n rs s))"
  unfolding run_streaming_def
  by (rule outcome_state_obind [where P = offsets_bounded]) (simp_all add: start_streaming_offsets stream_loop_offsets)

lemma start_config_offsets:
  "offsets_bounded (start_config n num fn tu si chans dig s) = offsets_bounded s"
  by (simp add: start_config_def offsets_simps)

lemma open_csv_offsets: "offsets_bounded (outcome_state (open_csv dev fn s)) = offsets_bounded s"
  by (simp add: open_csv_def Let_def offsets_simps)

lemma start_device_offsets:
  "offsets_bounded s \<Longrightarrow> offsets_bounded (outcome_state (start_device dev n rs s))"
  unfolding start_device_def
  apply (rule outcome_state_obind [where P = offsets_bounded])
   apply (simp add: open_unit_offsets)
  apply (rule outcome_state_obind [where P = offsets_bounded])
   apply (simp add: setup_channels_offsets)
  apply (rule outcome_state_obind [where P = offsets_bounded])
   apply (simp add: setup_buffers_offsets)
  apply (rule outcome_state_obind [where P = offsets_bounded])
   apply (simp_all add: read_max_adc_offsets run_streaming_offsets)
  done

lemma start_recording_offsets:
  "offsets_bounded s \<Longrightarrow> offsets_bounded (outcome_state (start_recording dev n num fn tu si chans dig rs s))"
  unfolding start_recording_def
  by (rule outcome_state_obind [where P = offsets_bounded])
    (simp_all add: open_csv_offsets start_config_offsets start_device_offsets)

lemma start_recording_global_offsets:
  "offsets_bounded s \<Longrightarrow> offsets_bounded (outcome_state (start_recording_global dev tu si chans fn dig rs s))"
  by (simp add: start_recording_global_def start_recording_offsets split: option.split)

lemma set_voltage_range_offsets:
  "\<bar>off\<bar> \<le> 20 \<Longrightarrow> offsets_bounded s \<Longrightarrow> offsets_bounded (outcome_state (set_voltage_range ch rv off s))"
  by (auto simp: set_voltage_range_def offsets_simps split: range_value.split sum.split)

lemma set_ranges_offsets:
  "\<forall>ch. \<bar>offs ch\<bar> \<le> 20 \<Longrightarrow> offsets_bounded s \<Longrightarrow> offsets_bounded (outcome_state (set_ranges rails offs chs s))"
proof (induction chs arbitrary: s)
  case Nil
  then show ?case by simp
next
  case (Cons ch chs)
  show ?case
    by (simp only: set_ranges.simps, rule outcome_state_obind [where P = offsets_bounded])
       (use Cons set_voltage_range_offsets in blast)+
qed

lemma acquisition_thread_run_offsets:
  "\<forall>ch. \<bar>offs ch\<bar> \<le> 20 \<Longrightarrow> offsets_bounded s \<Longrightarrow>
   offsets_bounded (outcome_state (acquisition_thread_run dev tu si chans fn dig rails offs rs s))"
proof -
  assume o: "\<forall>ch. \<bar>offs ch\<bar> \<le> 20" and b: "offsets_bounded s"
  from b have "offsets_bounded (s\<lparr>first_sample_hook := True\<rparr>)" by (simp add: offsets_simps)
  then show ?thesis
    unfolding acquisition_thread_run_def
    by (rule outcome_state_obind [where P = offsets_bounded, OF set_ranges_offsets [OF o]])
       (simp add: start_recording_global_offsets)
qed

lemma stop_recording_offsets: "offsets_bounded (stop_recording dev s) = offsets_bounded s"
  by (simp add: stop_recording_def stop_device_def offsets_simps split: option.split)
end
