(* ===== verification/App.thy ===== *)
theory App
  imports Gui_Window
begin

text \<open>
  Start-up and the second acquisition thread.
  \<^item> \<open>select_driver\<close> and \<open>run_app\<close> model \<open>run_app\<close> of src/picoscope-gui-app/src/main.py
    (lines 23--60): the model dialog either is cancelled (\<open>exec_() == 0\<close>, exit code 0)
    or returns the combo index; index 0 builds \<open>PS3000ADriver\<close>, any other index
    \<open>PS4000ADriver\<close>; the driver is stored in the module's \<open>_acquisition_instance\<close>
    (created with \<open>driver=None\<close>, data_acquisition.py line 585) and the window is shown
    for the same index. A driver constructor that raises (a constant missing from the
    vendor module) ends the program through \<open>excepthook\<close>: \<open>AppCrash\<close>. The event loop
    that follows is \<open>sys_step\<close> of Gui_Window. Loading the DLLs of a frozen executable
    and the search path are modelled in Startup; the crash-log file is a list of entries.
  \<^item> \<open>excepthook\<close> (main.py, lines 62--70) appends the traceback of an uncaught
    exception to the crash log, ignoring any failure to open the log, and always hands it
    to the default hook, which prints it; the result is the new log and the printed text.
  \<^item> \<open>gui_main\<close> is \<open>main\<close> of gui.py (lines 287--291): it shows the window without
    choosing a driver, so the singleton keeps \<open>driver=None\<close>.
  \<^item> \<open>dict_ranges\<close> and \<open>dup_thread_run\<close> model the \<open>AcquisitionThread\<close> class of
    data_acquisition.py (lines 601--637), which the GUI does not use: it stores the
    range of each entry of its \<open>voltage_rails\<close> dictionary (an association list, in
    insertion order) with the offset \<open>voltage_offsets.get(ch, 0.0)\<close>, sleeps, and calls
    the module-level \<open>start_recording\<close>; an exception is caught and the banner line is
    appended to the crash log (the traceback text is not modelled). It never connects
    the first-sample signal.
\<close>

datatype app_result = AppExit int | AppCrash | AppShown nat sys

definition select_driver :: "nat \<Rightarrow> sdk_module \<Rightarrow> sdk_module \<Rightarrow> driver option" where
  "select_driver model_index ps3 ps4 =
     (if model_index = 0 then PS3000ADriver ps3 else PS4000ADriver ps4)"

definition run_app :: "sdk_module \<Rightarrow> sdk_module \<Rightarrow> nat option \<Rightarrow> app_result" where
  "run_app ps3 ps4 dlg =
     (case dlg of
        None \<Rightarrow> AppExit 0
      | Some model_index \<Rightarrow>
          (case select_driver model_index ps3 ps4 of
             None \<Rightarrow> AppCrash
           | Some drv \<Rightarrow>
               AppShown model_index
                 \<lparr>win = init_window, acq_of = (init_acq None)\<lparr>driver := Some drv\<rparr>,
                  polling = False, signals_seen = 0\<rparr>))"

definition excepthook :: "bool \<Rightarrow> string \<Rightarrow> string list \<Rightarrow> string list \<times> string list" where
  "excepthook log_writable tb crash_log = ((if log_writable then crash_log @ [tb] else crash_log), [tb])"

definition gui_main :: "nat \<Rightarrow> app_result" where
  "gui_main model_index = AppShown model_index (init_sys None)"

fun dict_ranges :: "(channel \<times> range_value) list \<Rightarrow> (channel \<times> real) list \<Rightarrow> acq \<Rightarrow> acq outcome" where
  "dict_ranges [] offs s = Ok s"
| "dict_ranges ((ch, rv) # rails) offs s =
     obind (set_voltage_range ch rv (dict_get offs ch 0) s) (dict_ranges rails offs)"

definition crash_banner :: string where
  "crash_banner = ''=== Crash Detected in AcquisitionThread ===''"

definition dup_thread_run ::
  "device \<Rightarrow> string \<Rightarrow> real \<Rightarrow> (channel \<Rightarrow> bool) \<Rightarrow> string \<Rightarrow> nat list \<Rightarrow>
   (channel \<times> range_value) list \<Rightarrow> (channel \<times> real) list \<Rightarrow> poll_reply list \<Rightarrow> acq \<Rightarrow>
   acq \<times> string list" where
  "dup_thread_run dev tu si chans filename dig rails offs replies s =
     (case obind (dict_ranges rails offs s) (start_recording_global dev tu si chans filename dig replies) of
        Ok t \<Rightarrow> (t, [])
      | Exc e t \<Rightarrow> (t, [crash_banner]))"


subsection \<open>Lemmas\<close>

lemma init_acq_driver: "(init_acq None)\<lparr>driver := d\<rparr> = init_acq d"
  by (simp add: init_acq_def)

lemma select_driver_family:
  "select_driver i ps3 ps4 = Some drv \<Longrightarrow>
   drv_family drv = (if i = 0 then PS3000A else PS4000A) \<and> ps_DIGITAL_PORTS drv = None"
  by (auto simp: select_driver_def PS3000ADriver_def PS4000ADriver_def split: option.splits if_splits)

lemma set_ranges_fields:
  "driver (outcome_state (set_ranges rails offs chs s)) = driver s \<and>
   is_recording (outcome_state (set_ranges rails offs chs s)) = is_recording s"
proof (induction chs arbitrary: s)
  case Nil
  then show ?case by simp
next
  case (Cons ch chs)
  have "(\<lambda>t. driver t = driver s \<and> is_recording t = is_recording s)
          (outcome_state (obind (set_voltage_range ch (RangeValueStr (rails ch)) (offs ch) s)
             (set_ranges rails offs chs)))"
    by (rule outcome_state_obind)
       (use Cons.IH in \<open>auto simp: set_voltage_range_def split: sum.splits range_value.splits\<close>)
  then show ?case by simp
qed

text \<open>
  Running gui.py on its own never records: \<open>gui_main\<close> leaves the singleton without a
  driver, so the thread started by a click on Start raises (\<open>RuntimeError\<close> from the
  module-level \<open>start_recording\<close>, or the resolver's \<open>AttributeError\<close>) and the
  object is not recording and not polling, while the window shows Stop enabled.
\<close>

lemma gui_main_start_never_records:
  assumes "gui_main i = AppShown i s" "sys_step dev s t"
  shows "\<not> is_recording (acq_of t) \<and> \<not> polling t"
proof -
  have s: "s = init_sys None" using assms(1) by (simp add: gui_main_def)
  have tr: "\<not> is_recording (outcome_state (thread_run dev p (init_acq None))) \<and>
      (\<forall>u. thread_run dev p (init_acq None) \<noteq> Ok u)" for p
  proof -
    let ?s1 = "(init_acq None)\<lparr>first_sample_hook := True\<rparr>"
    let ?r = "set_ranges (th_rails p) (th_offsets p) all_channels ?s1"
    have f: "driver (outcome_state ?r) = None" "\<not> is_recording (outcome_state ?r)"
      using set_ranges_fields [of "th_rails p" "th_offsets p" all_channels ?s1] by (simp_all add: init_acq_def)
    show ?thesis
      using f by (cases ?r) (simp_all add: thread_run_def acquisition_thread_run_def start_recording_global_def)
  qed
  from assms(2) s show ?thesis
  proof (cases rule: sys_step.cases)
    case (start f w p)
    with tr [of p] s show ?thesis
      by (cases "thread_run dev p (init_acq None)") (simp_all add: sys_start_def Let_def init_sys_def)
  qed (auto simp: init_sys_def init_window_def init_acq_def)
qed

lemma excepthook_reports: "snd (excepthook ok tb cl) = [tb] \<and> fst (excepthook ok tb cl) = (if ok then cl @ [tb] else cl)"
  by (simp add: excepthook_def)


subsection \<open>Properties of start-up and of the second thread\<close>

text \<open>
  C26. The driver matches the window: when \<open>run_app\<close> shows the window for model index
  \<open>i\<close>, the dialog was accepted with \<open>i\<close>, the acquisition object is the initial one with
  the driver built for the same index (a PS3000A driver for index 0, a PS4000A driver
  otherwise).
\<close>

theorem run_app_driver_matches_window:
  assumes "run_app ps3 ps4 dlg = AppShown i s"
  shows "dlg = Some i \<and> s = init_sys (select_driver i ps3 ps4) \<and>
    (\<exists>drv. driver (acq_of s) = Some drv \<and> drv_family drv = (if i = 0 then PS3000A else PS4000A))"
proof -
  obtain drv where d: "dlg = Some i" "select_driver i ps3 ps4 = Some drv"
    and s: "s = init_sys (Some drv)"
    using assms by (auto simp: run_app_def init_sys_def init_acq_driver split: option.splits)
  then show ?thesis
    using select_driver_family [OF d(2)]
    by (simp add: init_sys_def init_acq_def)
qed

theorem run_app_driver_matches_window_witness:
  "run_app picosdk_ps3000a picosdk_ps3000a (Some 0) = AppShown 0 (init_sys (Some ps3000a_drv)) \<and>
   drv_family ps3000a_drv = PS3000A"
proof -
  have r: "run_app picosdk_ps3000a picosdk_ps3000a (Some 0) = AppShown 0 (init_sys (Some ps3000a_drv))"
    by (simp add: run_app_def select_driver_def PS3000ADriver_picosdk init_sys_def init_acq_driver)
  from run_app_driver_matches_window [OF r] show ?thesis
    using r by (simp add: init_sys_def init_acq_def)
qed

end
