(* ===== verification/Utils.thy ===== *)
theory Utils
  imports Prelude
begin

text \<open>
  The helpers of src/picoscope-gui-app/src/utils.py. No other module calls them.
  \<^item> \<open>show_error\<close> prints \<open>Error: \<close> and its message; the printed lines are returned as a
    list of \<open>util_msg\<close>, one constructor per message of the module (the decimal text
    Python gives the numbers is not modelled).
  \<^item> \<open>validate_input\<close> tests \<open>min_value <= value <= max_value\<close> and reports the failure.
  \<^item> \<open>format_data\<close> rounds each value with \<open>round(d, 2)\<close>. On the exact reals of the
    model, Python's rounding to two decimals is rounding of \<open>100 d\<close> to the nearest integer
    with ties to the even one (\<open>round_half_even\<close>), divided by 100.
\<close>

datatype util_msg = OutOfRange real real real

definition show_error :: "util_msg \<Rightarrow> util_msg list" where
  "show_error m = [m]"

definition validate_input :: "real \<Rightarrow> real \<Rightarrow> real \<Rightarrow> bool \<times> util_msg list" where
  "validate_input v lo hi =
     (if \<not> (lo \<le> v \<and> v \<le> hi) then (False, show_error (OutOfRange v lo hi)) else (True, []))"

definition round_half_even :: "real \<Rightarrow> int" where
  "round_half_even x =
     (let f = \<lfloor>x\<rfloor>; r = x - of_int f
      in if r < 1/2 then f else if 1/2 < r then f + 1 else if even f then f else f + 1)"

definition py_round2 :: "real \<Rightarrow> real" where
  "py_round2 d = of_int (round_half_even (d * 100)) / 100"

definition format_data :: "real list \<Rightarrow> real list" where
  "format_data data = map py_round2 data"


subsection \<open>Lemmas\<close>

lemma round_half_even_dist: "\<bar>of_int (round_half_even x) - x\<bar> \<le> 1/2"
proof -
  define f where "f = \<lfloor>x\<rfloor>"
  have "of_int f \<le> x" "x < of_int f + 1" unfolding f_def by linarith+
  then show ?thesis
    unfolding round_half_even_def Let_def f_def [symmetric] by (auto simp: abs_if)
qed

lemma round_half_even_of_int [simp]: "round_half_even (of_int k) = k"
  by (simp add: round_half_even_def)

lemma py_round2_dist: "\<bar>py_round2 d - d\<bar> \<le> 1/200"
proof -
  have "\<bar>of_int (round_half_even (d * 100)) - d * 100\<bar> \<le> 1/2"
    by (rule round_half_even_dist)
  then have "\<bar>(of_int (round_half_even (d * 100)) - d * 100) / 100\<bar> \<le> 1/200"
    by simp
  moreover have "(of_int (round_half_even (d * 100)) - d * 100) / 100 = py_round2 d - d"
    by (simp add: py_round2_def field_simps)
  ultimately show ?thesis by simp
qed

lemma py_round2_idem: "py_round2 (py_round2 d) = py_round2 d"
  by (simp add: py_round2_def)

lemma round_half_even_nearest: "\<bar>of_int (round_half_even x) - x\<bar> \<le> \<bar>of_int z - x\<bar>"
proof -
  let ?r = "round_half_even x"
  have d: "\<bar>of_int ?r - x\<bar> \<le> 1/2" by (rule round_half_even_dist)
  then have d1: "of_int ?r - x \<le> 1/2" and d2: "x - of_int ?r \<le> 1/2" unfolding abs_le_iff by linarith+
  consider "z = ?r" | "z \<le> ?r - 1" | "?r + 1 \<le> z" by linarith
  then show ?thesis
  proof cases
    case 1
    then show ?thesis by simp
  next
    case 2
    then have "of_int z \<le> of_int ?r - (1 :: real)" by linarith
    with d1 d2 have "\<bar>of_int ?r - x\<bar> \<le> x - of_int z" unfolding abs_le_iff by linarith
    moreover have "x - of_int z \<le> \<bar>of_int z - x\<bar>" by linarith
    ultimately show ?thesis by (rule order_trans)
  next
    case 3
    then have "of_int ?r + 1 \<le> (of_int z :: real)" by linarith
    with d1 d2 have "\<bar>of_int ?r - x\<bar> \<le> of_int z - x" unfolding abs_le_iff by linarith
    moreover have "of_int z - x \<le> \<bar>of_int z - x\<bar>" by linarith
    ultimately show ?thesis by (rule order_trans)
  qed
qed

lemma py_round2_nearest: "\<bar>py_round2 d - d\<bar> \<le> \<bar>of_int z / 100 - d\<bar>"
proof -
  have "\<bar>of_int (round_half_even (d * 100)) - d * 100\<bar> \<le> \<bar>of_int z - d * 100\<bar>"
    by (rule round_half_even_nearest)
  moreover have "\<bar>py_round2 d - d\<bar> = \<bar>of_int (round_half_even (d * 100)) - d * 100\<bar> / 100"
    by (simp add: py_round2_def abs_divide [symmetric] field_simps)
  moreover have "\<bar>of_int z / 100 - d\<bar> = \<bar>of_int z - d * 100\<bar> / 100"
    by (simp add: abs_divide [symmetric] field_simps)
  ultimately show ?thesis by (simp add: divide_right_mono)
qed

lemma py_round2_hundredths: "py_round2 d * 100 \<in> \<int>"
  by (simp add: py_round2_def)


subsection \<open>Properties of the helpers\<close>

text \<open>
  C27. \<open>format_data\<close> keeps the length of the data and replaces each value by a number
  of hundredths (\<open>100 y\<close> is an integer) that is a nearest such number to it, so no value
  moves by more than half a hundredth; formatting formatted data changes nothing.
\<close>

theorem format_data_bounds:
  "length (format_data xs) = length xs \<and>
   list_all2 (\<lambda>y x. y * 100 \<in> \<int> \<and> (\<forall>z :: int. \<bar>y - x\<bar> \<le> \<bar>of_int z / 100 - x\<bar>) \<and> \<bar>y - x\<bar> \<le> 1/200)
     (format_data xs) xs \<and>
   format_data (format_data xs) = format_data xs"
proof -
  have "\<forall>i<length xs. py_round2 (xs ! i) * 100 \<in> \<int> \<and>
      (\<forall>z :: int. \<bar>py_round2 (xs ! i) - xs ! i\<bar> \<le> \<bar>of_int z / 100 - xs ! i\<bar>) \<and>
      \<bar>py_round2 (xs ! i) - xs ! i\<bar> \<le> 1/200"
    using py_round2_dist py_round2_nearest py_round2_hundredths by blast
  then show ?thesis by (simp add: format_data_def list_all2_conv_all_nth py_round2_idem)
qed

end
