(* ===== verification/Gui_Widgets.thy ===== *)
theory Gui_Widgets
  imports Offsets App Utils
begin

text \<open>
  The input widgets of the main window and the model dialog (src/picoscope-gui-app/src/gui.py).
  \<^item> \<open>scope_dialog\<close> and \<open>scope_dialog_result\<close>: \<open>ScopeSelectDialog\<close> (lines 6--21), a combo
    box of the two series and an OK button; \<open>exec_()\<close> returns 0 when the dialog is closed
    without OK, and \<open>selected_model\<close> the combo index.
  \<^item> \<open>widgets\<close> holds what \<open>MainWindow.start_recording\<close> reads: the time-unit combo,
    the interval line edit, the channel check boxes, the range combos, the offset spin
    boxes and the digital check boxes (lines 76--163). The file-name line edit is the
    \<open>filename_text\<close> field of \<open>window\<close>. \<open>init_widgets\<close> is their initial state:
    unit \<open>s\<close>, empty texts, channel A checked, the preselected range
    (\<open>combo_text\<close>), offsets 0.0, sixteen unchecked digital boxes for a PS3000A and none
    otherwise. \<open>window_range_names\<close> is the list the range combos offer (the PS3000A
    enumeration without its MAX entry, or the filtered PS4000A probe ranges).
  \<^item> \<open>ui_edit\<close> are the user's edits. A combo box only selects one of its items; a
    \<open>QDoubleSpinBox\<close> with range -20 to 20 and 3 decimals (lines 145--150) rounds a
    value to 3 decimals and bounds it to its range (\<open>offset_spin_value\<close>).
  \<^item> \<open>read_form\<close> is lines 215--242: the values \<open>start_recording\<close> reads. \<open>float\<close> of the
    interval text is a parameter \<open>pf\<close> of the model (\<open>None\<close> for \<open>ValueError\<close>), and the
    save dialog's answer is chosen by the user at each click.
  \<^item> \<open>ui_step\<close> is the window with its widgets: an edit at any time, a click on Start
    with the form read from the widgets, and the other steps of \<open>sys_step\<close>.
\<close>

record scope_dialog =
  dlg_accepted :: bool
  dlg_index :: nat

definition scope_dialog_items :: "string list" where
  "scope_dialog_items = [''PicoScope 3000 Series'', ''PicoScope 4000 Series'']"

definition scope_dialog_choose :: "nat \<Rightarrow> scope_dialog \<Rightarrow> scope_dialog" where
  "scope_dialog_choose i d = (if i < length scope_dialog_items then d\<lparr>dlg_index := i\<rparr> else d)"

definition scope_dialog_result :: "scope_dialog \<Rightarrow> nat option" where
  "scope_dialog_result d = (if dlg_accepted d then Some (dlg_index d) else None)"

definition time_unit_items :: "string list" where
  "time_unit_items = [''s'', ''ms'', ''us'', ''ns'']"

record widgets =
  w_time_unit :: string
  w_interval :: string
  w_channels :: "channel \<Rightarrow> bool"
  w_rails :: "channel \<Rightarrow> string"
  w_offsets :: "channel \<Rightarrow> real"
  w_digital :: "bool list"

definition window_range_names :: "nat \<Rightarrow> (string \<times> int) list \<Rightarrow> (string \<times> int) list \<Rightarrow> string list" where
  "window_range_names model_index ps3000a_range probe_range =
     (if model_index = 0 then ps3000a_range_names ps3000a_range else ps4000a_range_names probe_range)"

definition spin_round :: "real \<Rightarrow> real" where
  "spin_round v = of_int (round_half_even (v * 1000)) / 1000"

definition offset_spin_value :: "real \<Rightarrow> real" where
  "offset_spin_value v = max (-20) (min 20 (spin_round v))"

definition init_widgets :: "nat \<Rightarrow> string list \<Rightarrow> widgets" where
  "init_widgets model_index names =
     \<lparr>w_time_unit = hd time_unit_items, w_interval = [], w_channels = (\<lambda>c. c = ChA),
      w_rails = (\<lambda>_. combo_text names), w_offsets = (\<lambda>_. offset_spin_value 0),
      w_digital = (if model_index = 0 then replicate 16 False else [])\<rparr>"

datatype ui_edit =
    ChooseTimeUnit nat
  | TypeInterval string
  | TypeFilename string
  | ToggleChannel channel
  | ChooseRail channel nat
  | SetOffset channel real
  | ToggleDigital nat

record ui =
  ui_widgets :: widgets
  ui_core :: sys
  ui_model :: nat
  ui_names :: "string list"

definition combo_choose :: "string list \<Rightarrow> nat \<Rightarrow> string \<Rightarrow> string" where
  "combo_choose items i cur = (if i < length items then items ! i else cur)"

fun edit_widgets :: "string list \<Rightarrow> ui_edit \<Rightarrow> widgets \<Rightarrow> widgets" where
  "edit_widgets names (ChooseTimeUnit i) w = w\<lparr>w_time_unit := combo_choose time_unit_items i (w_time_unit w)\<rparr>"
| "edit_widgets names (TypeInterval t) w = w\<lparr>w_interval := t\<rparr>"
| "edit_widgets names (TypeFilename t) w = w"
| "edit_widgets names (ToggleChannel ch) w = w\<lparr>w_channels := (w_channels w)(ch := \<not> w_channels w ch)\<rparr>"
| "edit_widgets names (ChooseRail ch i) w = w\<lparr>w_rails := (w_rails w)(ch := combo_choose names i (w_rails w ch))\<rparr>"
| "edit_widgets names (SetOffset ch v) w = w\<lparr>w_offsets := (w_offsets w)(ch := offset_spin_value v)\<rparr>"
| "edit_widgets names (ToggleDigital i) w =
     (if i < length (w_digital w) then w\<lparr>w_digital := (w_digital w)[i := \<not> w_digital w ! i]\<rparr> else w)"

definition apply_edit :: "ui_edit \<Rightarrow> ui \<Rightarrow> ui" where
  "apply_edit e u =
     (let u' = u\<lparr>ui_widgets := edit_widgets (ui_names u) e (ui_widgets u)\<rparr>
      in case e of
           TypeFilename t \<Rightarrow> u'\<lparr>ui_core := (ui_core u)\<lparr>win := (win (ui_core u))\<lparr>filename_text := t\<rparr>\<rparr>\<rparr>
         | _ \<Rightarrow> u')"

definition read_form :: "(string \<Rightarrow> real option) \<Rightarrow> string \<Rightarrow> ui \<Rightarrow> start_form" where
  "read_form pf dialog u =
     (let w = ui_widgets u in
      \<lparr>form_interval = pf (w_interval w), form_time_unit = w_time_unit w,
       form_filename = filename_text (win (ui_core u)), form_dialog = dialog,
       form_channels = w_channels w, form_model_index = ui_model u,
       form_digital = (\<lambda>i. i < length (w_digital w) \<and> w_digital w ! i),
       form_rails = w_rails w, form_offsets = w_offsets w\<rparr>)"

inductive ui_step :: "device \<Rightarrow> (string \<Rightarrow> real option) \<Rightarrow> ui \<Rightarrow> ui \<Rightarrow> bool" for dev pf where
  edit: "ui_step dev pf u (apply_edit e u)"
| start: "start_enabled (win (ui_core u)) \<Longrightarrow> gui_start_request (win (ui_core u)) (read_form pf dlg u) = (w, Some p) \<Longrightarrow>
          ui_step dev pf u (u\<lparr>ui_core := sys_start dev p w (ui_core u)\<rparr>)"
| start_rejected: "start_enabled (win (ui_core u)) \<Longrightarrow> gui_start_request (win (ui_core u)) (read_form pf dlg u) = (w, None) \<Longrightarrow>
          ui_step dev pf u (u\<lparr>ui_core := (ui_core u)\<lparr>win := w\<rparr>\<rparr>)"
| stop: "stop_enabled (win (ui_core u)) \<Longrightarrow>
          ui_step dev pf u (u\<lparr>ui_core := (ui_core u)\<lparr>win := gui_stop (win (ui_core u)),
                                  acq_of := stop_recording dev (acq_of (ui_core u))\<rparr>\<rparr>)"
| poll: "polling (ui_core u) \<Longrightarrow> loop_active (acq_of (ui_core u)) \<Longrightarrow>
          ui_step dev pf u (u\<lparr>ui_core := (ui_core u)\<lparr>acq_of := poll_once (acq_of (ui_core u)) r\<rparr>\<rparr>)"
| signal: "signals_seen (ui_core u) < first_sample_emits (acq_of (ui_core u)) \<Longrightarrow>
          ui_step dev pf u (u\<lparr>ui_core := (ui_core u)\<lparr>win := on_first_sample now (win (ui_core u)),
                                  signals_seen := Suc (signals_seen (ui_core u))\<rparr>\<rparr>)"
| tick: "timer_running (win (ui_core u)) \<Longrightarrow>
          ui_step dev pf u (u\<lparr>ui_core := (ui_core u)\<lparr>win := update_timer now (win (ui_core u))\<rparr>\<rparr>)"

inductive ui_reach :: "device \<Rightarrow> (string \<Rightarrow> real option) \<Rightarrow> ui \<Rightarrow> ui \<Rightarrow> bool" for dev pf u0 where
  refl: "ui_reach dev pf u0 u0"
| step: "ui_reach dev pf u0 u \<Longrightarrow> ui_step dev pf u v \<Longrightarrow> ui_reach dev pf u0 v"

definition start_ui :: "sdk_module \<Rightarrow> (string \<times> int) list \<Rightarrow> nat \<Rightarrow> sys \<Rightarrow> ui" where
  "start_ui ps3 probe_range model_index s =
     (let names = window_range_names model_index (sdk_RANGE ps3) probe_range
      in \<lparr>ui_widgets = init_widgets model_index names, ui_core = s, ui_model = model_index,
          ui_names = names\<rparr>)"

inductive_cases ui_stepE: "ui_step dev pf u v"



subsection \<open>Lemmas\<close>

lemma offset_spin_value_bound: "\<bar>offset_spin_value v\<bar> \<le> 20"
  by (simp add: offset_spin_value_def)

lemma edit_widgets_offsets:
  "\<forall>ch. \<bar>w_offsets w ch\<bar> \<le> 20 \<Longrightarrow> \<forall>ch. \<bar>w_offsets (edit_widgets names e w) ch\<bar> \<le> 20"
  by (cases e) (auto simp: offset_spin_value_bound)

lemma apply_edit_fields [simp]:
  "ui_widgets (apply_edit e u) = edit_widgets (ui_names u) e (ui_widgets u)"
  "acq_of (ui_core (apply_edit e u)) = acq_of (ui_core u)"
  "ui_model (apply_edit e u) = ui_model u" "ui_names (apply_edit e u) = ui_names u"
  by (simp_all add: apply_edit_def Let_def split: ui_edit.split)


lemma gui_start_request_args:
  "gui_start_request w f = (w', Some p) \<Longrightarrow> th_offsets p = form_offsets f \<and> th_rails p = form_rails f"
  by (auto simp: gui_start_request_def Let_def split: option.splits if_splits)

lemma thread_run_offsets:
  "\<forall>ch. \<bar>th_offsets p ch\<bar> \<le> 20 \<Longrightarrow> offsets_bounded s \<Longrightarrow> offsets_bounded (outcome_state (thread_run dev p s))"
  by (simp add: thread_run_def acquisition_thread_run_offsets)

lemma sys_start_offsets:
  "\<forall>ch. \<bar>th_offsets p ch\<bar> \<le> 20 \<Longrightarrow> offsets_bounded (acq_of c) \<Longrightarrow>
   offsets_bounded (acq_of (sys_start dev p w c))"
  by (simp add: sys_start_def Let_def thread_run_offsets)

definition ui_offsets_ok :: "ui \<Rightarrow> bool" where
  "ui_offsets_ok u \<longleftrightarrow> (\<forall>ch. \<bar>w_offsets (ui_widgets u) ch\<bar> \<le> 20) \<and> offsets_bounded (acq_of (ui_core u))"

lemma ui_step_offsets: "ui_step dev pf u v \<Longrightarrow> ui_offsets_ok u \<Longrightarrow> ui_offsets_ok v"
proof (induction rule: ui_step.induct)
  case (edit u e)
  then show ?case by (simp add: ui_offsets_ok_def edit_widgets_offsets)
next
  case (start u dlg w p)
  then have "\<forall>ch. \<bar>th_offsets p ch\<bar> \<le> 20"
    using gui_start_request_args [OF start.hyps(2)] by (simp add: ui_offsets_ok_def read_form_def Let_def)
  with start.prems show ?case by (simp add: ui_offsets_ok_def sys_start_offsets)
next
  case (poll u r)
  then show ?case by (simp add: ui_offsets_ok_def poll_once_offsets)
next
  case (stop u)
  then show ?case by (simp add: ui_offsets_ok_def stop_recording_offsets)
qed (simp_all add: ui_offsets_ok_def)

lemma ui_reach_offsets: "ui_reach dev pf u0 u \<Longrightarrow> ui_offsets_ok u0 \<Longrightarrow> ui_offsets_ok u"
  by (induction rule: ui_reach.induct) (auto intro: ui_step_offsets)

lemma start_ui_offsets:
  assumes "run_app ps3 ps4 dlg = AppShown i s"
  shows "ui_offsets_ok (start_ui ps3 probe i s)"
proof -
  obtain drv where "s = init_sys (Some drv)"
    using assms by (auto simp: run_app_def init_sys_def init_acq_driver split: option.splits)
  then show ?thesis
    by (simp add: ui_offsets_ok_def start_ui_def Let_def init_widgets_def offset_spin_value_bound
        init_sys_def init_acq_def offsets_bounded_iff)
qed



subsection \<open>Properties of the window's inputs\<close>

text \<open>
  C28. The analog offsets that reach the instrument stay within the spin boxes' range:
  from start-up, whatever the user types and clicks and whatever the device answers, the
  offset spin boxes hold values in -20 V to 20 V and every \<open>psSetChannel\<close> call made so
  far carries an offset in that range. The code never checks the offset against the
  range the channel is set to.
\<close>

theorem set_channel_offsets_in_spin_range:
  assumes "run_app ps3 ps4 dlg = AppShown i s" "ui_reach dev pf (start_ui ps3 probe i s) u"
  shows "(\<forall>ch. \<bar>w_offsets (ui_widgets u) ch\<bar> \<le> 20) \<and>
    (\<forall>ch en cpl rng off. SetChannel ch en cpl rng off \<in> set (dev_log (acq_of (ui_core u))) \<longrightarrow> \<bar>off\<bar> \<le> 20)"
proof -
  have "ui_offsets_ok u" using ui_reach_offsets [OF assms(2) start_ui_offsets [OF assms(1)]] .
  then show ?thesis
    by (fastforce simp: ui_offsets_ok_def offsets_bounded_iff list_all_iff)
qed

theorem set_channel_offsets_in_spin_range_witness:
  "w_offsets (ui_widgets (apply_edit (SetOffset ChA 35)
      (start_ui picosdk_ps3000a [] 0 (init_sys (Some ps3000a_drv))))) ChA = 20 \<and>
   \<bar>w_offsets (ui_widgets (apply_edit (SetOffset ChA 35)
      (start_ui picosdk_ps3000a [] 0 (init_sys (Some ps3000a_drv))))) ChA\<bar> \<le> 20"
proof -
  let ?u0 = "start_ui picosdk_ps3000a [] 0 (init_sys (Some ps3000a_drv))"
  have r: "run_app picosdk_ps3000a picosdk_ps3000a (Some 0) = AppShown 0 (init_sys (Some ps3000a_drv))"
    by (simp add: run_app_def select_driver_def PS3000ADriver_picosdk init_sys_def init_acq_driver)
  have "ui_reach (all_ok_device 32512) (\<lambda>_. None) ?u0 (apply_edit (SetOffset ChA 35) ?u0)"
    by (rule ui_reach.step [OF ui_reach.refl ui_step.edit])
  from set_channel_offsets_in_spin_range [OF r this] have
    "\<bar>w_offsets (ui_widgets (apply_edit (SetOffset ChA 35) ?u0)) ChA\<bar> \<le> 20" by blast
  moreover have "spin_round 35 = 35"
    using round_half_even_of_int [of 35000] by (simp add: spin_round_def)
  ultimately show ?thesis
    by (simp add: offset_spin_value_def)
qed



end
