(* ===== verification/Startup.thy ===== *)
theory Startup
  imports App
begin

text \<open>
  Start-up of src/picoscope-gui-app/src/main.py before the Qt application runs, and the two
  crash logs of the program.
  \<^item> The paths are Windows paths (the program loads DLLs through \<open>ctypes.windll\<close>), so
    \<open>os.path\<close> is \<open>ntpath\<close>: \<open>win_splitdrive\<close>, \<open>win_dirname\<close> and \<open>win_join\<close> follow
    \<open>ntpath.splitdrive\<close>, \<open>ntpath.split\<close> and \<open>ntpath.join\<close> for drive-letter and relative
    paths (UNC paths are not modelled), \<open>win_join\<close> for a relative second component,
    which is how the program calls it.
  \<^item> \<open>startup_paths\<close> is lines 9--21: in a frozen executable the base directory is the
    executable's directory and the directory holding \<open>picosdk\<close> is put first on the
    module search path when \<open>picosdk\<close> exists there and its path is not on the search
    path already; as a script it is the directory of \<open>main.py\<close>. \<open>log_path\<close> and
    \<open>csv_path\<close> are joined to it. The file system is the predicate \<open>exists\<close>.
  \<^item> \<open>load_dlls\<close> is lines 28--41: the working directory becomes the executable's
    directory and each of \<open>ps3000a.dll\<close>, \<open>ps4000a.dll\<close> that exists there is loaded;
    \<open>loader\<close> gives the error text of a failed load (\<open>None\<close> on success); the printed
    lines are returned. An error is printed and does not stop start-up.
  \<^item> \<open>thread_crash_log\<close> is the log path of the unused \<open>AcquisitionThread\<close> of
    data_acquisition.py (line 634): the working directory joined with the same name.
\<close>

definition win_is_sep :: "char \<Rightarrow> bool" where
  "win_is_sep c \<longleftrightarrow> c = CHR ''/'' \<or> c = CHR 0x5C"

definition win_splitdrive :: "string \<Rightarrow> string \<times> string" where
  "win_splitdrive p = (if 2 \<le> length p \<and> p ! 1 = CHR '':'' then (take 2 p, drop 2 p) else ([], p))"

definition win_split :: "string \<Rightarrow> string \<times> string" where
  "win_split p =
     (case win_splitdrive p of
        (d, q) \<Rightarrow>
          (let tail = rev (takeWhile (\<lambda>c. \<not> win_is_sep c) (rev q));
               head = take (length q - length tail) q;
               stripped = rev (dropWhile win_is_sep (rev head))
           in (d @ (if stripped = [] then head else stripped), tail)))"

definition win_dirname :: "string \<Rightarrow> string" where
  "win_dirname p = fst (win_split p)"

definition win_join :: "string \<Rightarrow> string \<Rightarrow> string" where
  "win_join a b =
     (case win_splitdrive a of
        (d, q) \<Rightarrow> d @ (if q \<noteq> [] \<and> \<not> win_is_sep (last q) then q @ [CHR 0x5C] else q) @ b)"

record startup =
  base_dir :: string
  log_path :: string
  csv_path :: string
  sys_path :: "string list"

definition startup_paths ::
  "bool \<Rightarrow> string \<Rightarrow> string \<Rightarrow> (string \<Rightarrow> bool) \<Rightarrow> string list \<Rightarrow> startup" where
  "startup_paths frozen executable file_abspath exists path0 =
     (let base = (if frozen then win_dirname executable else win_dirname file_abspath);
          picosdk_path = win_join base ''picosdk'';
          path = (if frozen \<and> exists picosdk_path \<and> picosdk_path \<notin> set path0
                  then win_dirname picosdk_path # path0 else path0)
      in \<lparr>base_dir = base, log_path = win_join base ''picoscope_crash.log'',
          csv_path = win_join base ''Data.csv'', sys_path = path\<rparr>)"

definition dll_files :: "string list" where
  "dll_files = [''ps3000a.dll'', ''ps4000a.dll'']"

fun load_dll_list :: "string \<Rightarrow> (string \<Rightarrow> bool) \<Rightarrow> (string \<Rightarrow> string option) \<Rightarrow> string list \<Rightarrow> string list" where
  "load_dll_list exe_dir exists loader [] = []"
| "load_dll_list exe_dir exists loader (dll # dlls) =
     (let dll_path = win_join exe_dir dll
      in (if exists dll_path
          then [case loader dll_path of
                  None \<Rightarrow> ''Successfully loaded '' @ dll
                | Some e \<Rightarrow> ''Could not load '' @ dll @ '': '' @ e]
          else []) @ load_dll_list exe_dir exists loader dlls)"

definition load_dlls ::
  "bool \<Rightarrow> string \<Rightarrow> string \<Rightarrow> (string \<Rightarrow> bool) \<Rightarrow> (string \<Rightarrow> string option) \<Rightarrow> string \<times> string list" where
  "load_dlls frozen executable cwd exists loader =
     (if frozen
      then (let exe_dir = win_dirname executable in (exe_dir, load_dll_list exe_dir exists loader dll_files))
      else (cwd, []))"

definition thread_crash_log :: "string \<Rightarrow> string" where
  "thread_crash_log cwd = win_join cwd ''picoscope_crash.log''"


subsection \<open>Lemmas\<close>

lemma load_dll_list_map_filter:
  "load_dll_list d exists loader dlls =
   map (\<lambda>dll. case loader (win_join d dll) of
                None \<Rightarrow> ''Successfully loaded '' @ dll
              | Some e \<Rightarrow> ''Could not load '' @ dll @ '': '' @ e)
     (filter (\<lambda>dll. exists (win_join d dll)) dlls)"
  by (induction dlls) (simp_all add: Let_def)

text \<open>
  In a frozen executable the two crash logs are one file: \<open>run_app\<close> changes into the
  executable's directory, which is the base directory of \<open>log_path\<close>. Run as a script,
  the thread's log follows the working directory and the hook's log the script's
  directory, so a crash in the thread and a crash elsewhere are logged to different
  files whenever the script is started from another directory.
\<close>

lemma crash_logs_agree_frozen:
  "thread_crash_log (fst (load_dlls True executable cwd exists loader)) =
   log_path (startup_paths True executable file_abspath exists path0)"
  by (simp add: thread_crash_log_def load_dlls_def startup_paths_def Let_def)

lemma crash_logs_differ_script:
  "thread_crash_log (fst (load_dlls False executable ''C:/Users/me'' exists loader)) \<noteq>
   log_path (startup_paths False executable ''C:/app/main.py'' exists path0)"
  by (simp add: thread_crash_log_def load_dlls_def startup_paths_def Let_def win_join_def
      win_splitdrive_def win_dirname_def win_split_def win_is_sep_def)

end
