(* ===== verification/Spec2Isabelle.thy ===== *)
theory Spec2Isabelle
  imports Device_Info Gui_Widgets Startup
begin

text \<open>
  \<^bold>\<open>A model of the PicoScope logging application.\<close>

  The program (src/picoscope-gui-app/src) streams samples from a PicoScope 3000A or
  4000A oscilloscope into a CSV file. Its parts and how they interact:
  \<^item> scope_driver.py: \<open>PS3000ADriver\<close>/\<open>PS4000ADriver\<close> wrap the vendor's ctypes
    module and expose its constants and DLL functions under uniform names.
  \<^item> data_acquisition.py: \<open>DataAcquisition\<close> holds the session state. Its
    \<open>start_recording\<close> writes the CSV header, opens the unit, configures the channels
    (\<open>setup_channels\<close>, with \<open>_convert_range_string_to_constant\<close> for range names),
    registers the sample buffers (\<open>setup_buffers\<close>), reads the ADC maximum and runs the
    streaming loop (\<open>run_streaming\<close>), in which the driver calls
    \<open>streaming_callback\<close>; that callback converts each sample (\<open>adc_to_mv_single\<close>)
    and writes a row. \<open>stop_recording\<close> stops and closes the unit and the file. A
    module-level singleton and \<open>start_recording\<close>/\<open>stop_recording\<close> wrappers serve the GUI.
  \<^item> gui.py: the Qt window collects the settings, runs \<open>AcquisitionThread\<close> (which
    stores the channel ranges and calls the module-level \<open>start_recording\<close>), calls
    \<open>stop_recording\<close> from the GUI thread, and shows the elapsed time.
  \<^item> main.py: \<open>run_app\<close> asks for the scope model, builds the matching driver, stores it
    in the singleton and shows the window.
  \<^item> Info.py: a stand-alone script that opens a PS3000A unit, reads its eleven
    information strings and closes it. utils.py: three helpers no module calls.

  \<^bold>\<open>Theories.\<close>
  \<^item> Prelude: Python exceptions as values (\<open>py_error\<close>, the outcome type
    \<open>'s outcome\<close> that keeps the state reached when an exception is raised),
    \<open>assert_pico_ok\<close>, and the integer conversions of Python and ctypes
    (\<open>py_int\<close>, \<open>c_int32\<close>, \<open>c_uint32\<close> on \<open>32 word\<close>).
  \<^item> Calibration: \<open>adc_to_mv_single\<close> and its range table.
  \<^item> Device: the driver objects (\<open>PS3000ADriver\<close>, \<open>PS4000ADriver\<close>,
    \<open>has_digital_channels\<close>) and the instrument. The vendor DLL is external: a
    \<open>device\<close> fixes the status each call returns, and every call is appended to the
    log \<open>dev_log\<close> of \<open>dev_call\<close>s, so that the order and the arguments of the calls
    are observable. \<open>picosdk_ps3000a\<close> holds the vendor's enumeration values used by the
    concrete runs.
  \<^item> Range_Resolution: \<open>convert_range_string_to_constant\<close> step by step: dictionary
    lookup, the fixed mapping, the \<open>MAX\<close> marker, the regular-expression search for a
    number, optional fraction, optional blanks, optional M or K and a V
    (\<open>voltage_search\<close>: leftmost match, case-insensitive) and the 20 V fallback.
  \<^item> Csv_Sink: the CSV file as the list of rows written, with its flush count.
  \<^item> Acquisition: the state record \<open>acq\<close> of \<open>DataAcquisition\<close> and its setters.
  \<^item> Channel_Config, Buffers: \<open>setup_channels\<close> and \<open>setup_buffers\<close>.
  \<^item> Streaming: \<open>run_streaming\<close> and \<open>streaming_callback\<close>; one poll of the loop is
    \<open>poll_once\<close>, the loop is \<open>stream_loop\<close> over the list of the driver's replies.
  \<^item> Stream_Loop: what a run of the loop guarantees.
  \<^item> Session: \<open>start_recording\<close> in its three parts (\<open>start_config\<close>, \<open>open_csv\<close>,
    \<open>start_device\<close>), \<open>stop_recording\<close> and the module-level wrappers. Whether
    \<open>open(filename, 'w')\<close> succeeds is the file system's answer \<open>fs_writable\<close> of the
    environment record \<open>device\<close>; a refusal is \<open>OSError\<close>.
  \<^item> Gui: the range choices, the acquisition thread and the timer label.
  \<^item> Gui_Window: the window's state (\<open>window\<close>) and its handlers
    (\<open>gui_start_request\<close>, \<open>gui_stop\<close>, \<open>on_first_sample\<close>, \<open>update_timer\<close>,
    \<open>update_initialization_status\<close>), composed with the acquisition object into
    \<open>sys\<close>; \<open>sys_step\<close> is an inductive step relation interleaving clicks, polls of
    the acquisition thread, deliveries of the cross-thread first-sample signal and timer
    ticks, and \<open>sys_reach\<close> its reflexive-transitive closure from \<open>init_sys\<close>.
  \<^item> Device_Info: \<open>get_picoscope_info\<close> of Info.py over an instrument extended with the
    strings \<open>ps3000aGetUnitInfo\<close> writes (\<open>info_device\<close>), the 256-byte C buffer
    (\<open>c_buffer_value\<close>) and the status dictionary, and the module run as a script
    (\<open>info_script\<close>, with the module-level \<open>find_unit\<close> call).
  \<^item> App: \<open>run_app\<close> of main.py (\<open>select_driver\<close>, the result \<open>app_result\<close>), and the
    second, unused \<open>AcquisitionThread\<close> of data_acquisition.py (\<open>dup_thread_run\<close>).
  \<^item> Utils: \<open>validate_input\<close> and \<open>format_data\<close> of utils.py, with Python's
    \<open>round(d, 2)\<close> as rounding half to even on exact reals.
  \<^item> Offsets: the invariant \<open>offsets_bounded\<close> (stored offsets and the offsets of every
    \<open>psSetChannel\<close> call in -20..20 V) and one preservation lemma per operation of the
    acquisition object, errors included.
  \<^item> Gui_Widgets: the model dialog (\<open>scope_dialog\<close>), the window's input widgets
    (\<open>widgets\<close>, \<open>init_widgets\<close>), the user's edits (\<open>ui_edit\<close>, \<open>edit_widgets\<close>,
    with the offset spin box's rounding and bounds in \<open>offset_spin_value\<close>), the form
    \<open>start_recording\<close> reads (\<open>read_form\<close>), and \<open>ui_step\<close>: the window with its
    widgets as a step relation, which refines \<open>sys_step\<close> (\<open>ui_step_refines_sys_step\<close>:
    every step is a step of \<open>sys_step\<close> or only edits the file-name field).
  \<^item> Startup: lines 9--41 of main.py before \<open>run_app\<close>: the base directory, crash-log
    and CSV paths and the module search path (\<open>startup_paths\<close>), and the DLL loading of
    a frozen executable (\<open>load_dlls\<close>, \<open>load_dll_list\<close>), over Windows path functions
    \<open>win_splitdrive\<close>, \<open>win_dirname\<close>, \<open>win_join\<close> that follow \<open>ntpath\<close> on drive-letter
    and relative paths; and the log path of the unused thread (\<open>thread_crash_log\<close>).

  \<^bold>\<open>Effects.\<close> Every operation is a function on \<open>acq\<close>. An operation that can raise
  returns \<open>Ok t\<close> or \<open>Exc e t\<close>, so each \<open>raise\<close>, failed \<open>assert_pico_ok\<close> and
  \<open>AttributeError\<close> on a missing driver is a branch of the model. The ctypes callback
  cannot propagate an exception: ctypes prints and discards it, which \<open>poll_once\<close>
  records in \<open>ignored_errors\<close> before the loop goes on.

  \<^bold>\<open>The loop and its fuel.\<close> The \<open>while\<close> loop of \<open>run_streaming\<close> depends on what
  the driver does at each poll; the model takes the driver's replies as a list
  (\<open>NoCallback\<close>, or \<open>Callback\<close> with the data written into the buffers and the callback
  arguments). \<open>stream_loop\<close> is structural recursion on that list: it stops when the
  guard fails or the list ends. A list that ends while the guard holds is a loop that
  has not finished; termination is therefore stated as a theorem of Stream_Loop: the
  guard fails after \<open>totalSamples - nextSample\<close> replies that each deliver a fitting,
  non-empty batch; and a theorem of Session shows that after \<open>stop_recording\<close> the guard
  never fails however many replies follow.

  \<^bold>\<open>Results.\<close> Stream_Loop: rows are written in sample order with the right
  timestamps, the loop ends, the first-sample signal fires once, rows match the header,
  a zero ADC maximum writes nothing but still consumes the samples. Session: the vendor
  calls happen in the documented order, a stop during streaming never ends the loop,
  failures of start (including \<open>OSError\<close> from \<open>open\<close>) and of stop are not unwound,
  the power-source recovery does not reopen the unit, the default sample cap wraps at
  32 bits, starting without a driver raises before any device call. Gui: the ranges
  chosen in the window reach \<open>psSetChannel\<close>; the timer label has a fixed width and,
  within the first hour, shows the elapsed time exactly (different times give different
  labels). Calibration: a reading within the ADC range converts within the full scale.
  Range_Resolution: a name spelling a voltage resolves to the range whose calibrated full
  scale is that voltage (the resolver's table agrees with the conversion's). Streaming:
  every row is well typed. Gui_Window: exactly one button is enabled in every reachable
  state (rule induction over \<open>sys_reach\<close>); a valid Start click reaches the polling
  loop; a Stop before the first sample lets a later signal restart the timer.
  Device_Info: the script's calls and result on success and its two error paths. App:
  the driver matches the window's model. Utils: \<open>format_data\<close> rounds each value to a
  nearest number of hundredths and is idempotent. Gui_Widgets: from start-up every
  offset that reaches \<open>psSetChannel\<close> lies in the spin boxes' range (rule induction over
  \<open>ui_reach\<close> with the Offsets invariant), and the widget-level model keeps the button
  invariant through its refinement of \<open>sys_step\<close>.
  Lemmas that record findings rather than intended behaviour are kept apart, each under
  a subsection \<open>Findings\<close>: the shipped drivers drop digital capture although the code's
  comment says the PS3000A has digital channels (Session), the first-sample signal fires
  again after an early stop (Session), the \<open>MAX\<close> test follows the dictionary lookup
  (Range_Resolution), the timer label wraps every hour (Gui).
  Other lemmas: running gui.py on its own never records (App,
  \<open>gui_main_start_never_records\<close>); the dead first \<open>set_voltage_range\<close> configures the
  device as the live one does (Channel_Config); the DLL loop prints one line per DLL
  present (Startup, \<open>load_dll_list_map_filter\<close>); in a frozen executable the thread's
  crash log is the hook's, while a script started from another directory logs to two
  files (Startup). Each property with hypotheses has a witness that applies it to a
  concrete state.

  \<^bold>\<open>Not modelled.\<close> Widget layout and drawing (gui.py lines 181--212), window titles
  and labels, and Qt threads beyond the interleavings of \<open>sys_step\<close> and \<open>ui_step\<close>;
  Python's \<open>float()\<close> of the interval text, which is a parameter of \<open>ui_step\<close> (its
  results such as \<open>inf\<close> have no exact real); the imports; \<open>time.sleep\<close>; console output and the text of
  printed numbers; UNC paths and the differences of \<open>ntpath\<close> between Python versions
  (Startup models drive-letter and relative paths only), the effect of \<open>os.chdir\<close> and
  \<open>sys.path\<close> on later imports, and the file operations behind the crash log (modelled
  as a list of entries); what the vendor's \<open>find_unit\<close> does inside (Info.py's \<open>info_script\<close> takes its
  result as a parameter); the UTF-8 decoding of
  non-ASCII bytes; traceback text; IEEE rounding of Python floats, which are exact reals
  here; characters beyond 8 bits; the contents of the vendor library beyond the
  enumeration values the program reads.
\<close>

end
